theory Spec2Isabelle
  imports Main "HOL-Library.Word"
begin

unbundle bit_operations_syntax

section \<open>Machine types\<close>

text \<open>
  The driver is built for AArch64 only (it calls \<^verbatim>\<open>read64\<close>, which \<^verbatim>\<open>memio.h\<close> declares
  under \<^verbatim>\<open>AARCH == 64\<close>): \<^verbatim>\<open>unsigned\<close> and \<^verbatim>\<open>int\<close> have 32 bits, \<^verbatim>\<open>size_t\<close>,
  \<^verbatim>\<open>uintptr\<close>, \<^verbatim>\<open>unsigned long\<close> and pointers have 64 bits. A null pointer is the word 0.
\<close>

type_synonym u8 = "8 word"
type_synonym u16 = "16 word"
type_synonym u32 = "32 word"
type_synonym u64 = "64 word"

text \<open>
  An assertion that fails halts the machine; a poll loop that has used up the observations
  it was given has not returned yet. Both are outcomes of their own, next to a returned value.
\<close>

datatype fault = AssertFailed | DivisionByZero | StillPolling

text \<open>What the driver does to the outside, in program order.\<close>

datatype event =
    MmioWrite32 u32 u32
  | MmioWrite64 u32 u64
  | DataSyncBarrier
  | DataMemBarrier
  | InvalidateDataCacheRange u64 u64
  | CleanDataCacheRange u64 u64
  | Memcpy u64 u64 u64
  | NewArray u64 u64
  | DeleteArray u64
  | EventClear
  | UsDelay u32
  | MsDelay u32
  | MsSleep u32
  | ConnectIRQ
  | AddDevice string
  | LogWarnFree u64 u32 u32
  | LogDbgCommandFailed u16 u32 u32
  | LogMsg string

section \<open>nvmesharedmemallocator.h\<close>

definition NVME_PAGE_SIZE :: u64 where "NVME_PAGE_SIZE = 4096"
definition NVME_BLOCK_SIZE :: u64 where "NVME_BLOCK_SIZE = NVME_PAGE_SIZE"
definition NVME_BLOCK_ALIGN :: u64 where "NVME_BLOCK_ALIGN = NVME_PAGE_SIZE"
definition NVME_BLOCK_BOUNDARY :: u64 where "NVME_BLOCK_BOUNDARY = 0x100000"
definition NVME_BLOCK_MAGIC :: u32 where "NVME_BLOCK_MAGIC = 0x4E564D45"

record TNVMeBlockHeader =
  nMagic :: u32
  nSize :: u32
  nAlign :: u32
  nBoundary :: u32
  pNext :: u64

text \<open>Four 32-bit words and one pointer; \<^verbatim>\<open>Data[0]\<close> starts right behind them.\<close>

definition sizeof_TNVMeBlockHeader :: u64 where "sizeof_TNVMeBlockHeader = 24"

record CNVMeSharedMemAllocator =
  m_nMemStart :: u64
  m_nMemEnd :: u64
  m_pFreeList :: u64

section \<open>Queue entries (nvme.cpp)\<close>

record TNVMeCommand =
  opc :: u8
  fuse :: u8
  cid :: u16
  nsid :: u32
  reserved :: u64
  mptr :: u64
  prp1 :: u64
  prp2 :: u64
  cdw10 :: u32
  cdw11 :: u32
  cdw12 :: u32
  cdw13 :: u32
  cdw14 :: u32
  cdw15 :: u32

definition sizeof_TNVMeCommand :: u64 where "sizeof_TNVMeCommand = 64"

text \<open>The completion entry's \<^verbatim>\<open>cid\<close> is named \<open>ce_cid\<close> here, the command's keeps \<open>cid\<close>.\<close>

record TNVMeCompletion =
  dw0 :: u32
  dw1 :: u32
  sqhead :: u16
  sqid :: u16
  ce_cid :: u16
  status :: u16

definition sizeof_TNVMeCompletion :: u64 where "sizeof_TNVMeCompletion = 16"

section \<open>Memory and the outside world\<close>

text \<open>
  Memory is a typed store, one map per type of object the driver keeps in coherent memory:
  block headers by the address of the header, 64-bit PRP entries by the address of the
  entry, submission queue slots by the address of the slot. The driver's writes to the
  controller's registers, its barriers, cache maintenance and log lines are appended to
  \<open>events\<close> in program order.
\<close>

record world =
  hdr_mem :: "u64 \<Rightarrow> TNVMeBlockHeader"
  prp_mem :: "u64 \<Rightarrow> u64"
  cmd_mem :: "u64 \<Rightarrow> TNVMeCommand"
  events :: "event list"

definition emit :: "event \<Rightarrow> world \<Rightarrow> world" where
  "emit e w = w\<lparr>events := events w @ [e]\<rparr>"

definition emits :: "event list \<Rightarrow> world \<Rightarrow> world" where
  "emits es w = w\<lparr>events := events w @ es\<rparr>"

section \<open>CNVMeSharedMemAllocator (nvmesharedmemallocator.cpp)\<close>

definition GetFreeSpace :: "CNVMeSharedMemAllocator \<Rightarrow> u64" where
  "GetFreeSpace a =
     (if m_nMemEnd a > m_nMemStart a then m_nMemEnd a - m_nMemStart a else 0)"

text \<open>
  The bump path of \<^verbatim>\<open>Allocate\<close> (from \<^verbatim>\<open>m_nMemStart += sizeof (TNVMeBlockHeader)\<close> on).
  The cursor stays advanced when the arena is exhausted and 0 is returned.
\<close>

definition Allocate_bump ::
  "u64 \<Rightarrow> u64 \<Rightarrow> u64 \<Rightarrow> CNVMeSharedMemAllocator \<times> world
     \<Rightarrow> (fault + u64) \<times> CNVMeSharedMemAllocator \<times> world" where
  "Allocate_bump nSize' nAlign' nBoundary' aw =
     (let a = fst aw; w = snd aw;
          start1 = m_nMemStart a + sizeof_TNVMeBlockHeader;
          nAlignMask = nAlign' - 1;
          start2 = (if start1 AND nAlignMask \<noteq> 0
                    then (start1 + nAlignMask) AND NOT nAlignMask else start1);
          nBoundaryMask = nBoundary' - 1;
          start3 = (if (start2 AND NOT nBoundaryMask)
                        \<noteq> ((start2 + nSize' - 1) AND NOT nBoundaryMask)
                    then (start2 + nBoundaryMask) AND NOT nBoundaryMask else start2);
          pBlockHeader = start3 - sizeof_TNVMeBlockHeader;
          start4 = start3 + nSize';
          a' = a\<lparr>m_nMemStart := start4\<rparr>
      in if start4 > m_nMemEnd a then (Inr 0, a', w)
         else
           let w' = w\<lparr>hdr_mem := (hdr_mem w)(pBlockHeader :=
                      \<lparr>nMagic = NVME_BLOCK_MAGIC, nSize = ucast nSize', nAlign = ucast nAlign',
                       nBoundary = ucast nBoundary', pNext = 0\<rparr>)\<rparr>;
               pResult = pBlockHeader + sizeof_TNVMeBlockHeader
           in if pResult AND (nAlign' - 1) \<noteq> 0 then (Inl AssertFailed, a', w')
              else (Inr pResult, a', w'))"

definition Allocate ::
  "u64 \<Rightarrow> u64 \<Rightarrow> u64 \<Rightarrow> CNVMeSharedMemAllocator \<times> world
     \<Rightarrow> (fault + u64) \<times> CNVMeSharedMemAllocator \<times> world" where
  "Allocate nSize' nAlign' nBoundary' aw =
     (let a = fst aw; w = snd aw in
      if \<not> (nSize' > 0 \<and> nAlign' \<noteq> 0 \<and> nAlign' \<le> nBoundary'
             \<and> m_nMemStart a \<noteq> 0 \<and> m_nMemEnd a \<noteq> 0)
      then (Inl AssertFailed, a, w)
      else if nSize' \<le> NVME_BLOCK_SIZE \<and> nAlign' \<le> NVME_BLOCK_ALIGN
              \<and> nBoundary' \<le> NVME_BLOCK_BOUNDARY
      then
        (if m_pFreeList a \<noteq> 0
         then
           let pBlockHeader = m_pFreeList a; h = hdr_mem w pBlockHeader in
           if \<not> (nMagic h = NVME_BLOCK_MAGIC \<and> nSize h = ucast NVME_BLOCK_SIZE
                  \<and> nAlign h = ucast NVME_BLOCK_ALIGN
                  \<and> nBoundary h = ucast NVME_BLOCK_BOUNDARY)
           then (Inl AssertFailed, a, w)
           else
             let a' = a\<lparr>m_pFreeList := pNext h\<rparr>;
                 w' = w\<lparr>hdr_mem := (hdr_mem w)(pBlockHeader := h\<lparr>pNext := 0\<rparr>)\<rparr>;
                 pResult = pBlockHeader + sizeof_TNVMeBlockHeader
             in if pResult AND (NVME_BLOCK_ALIGN - 1) \<noteq> 0 then (Inl AssertFailed, a', w')
                else (Inr pResult, a', w')
         else Allocate_bump NVME_BLOCK_SIZE NVME_BLOCK_ALIGN NVME_BLOCK_BOUNDARY (a, w))
      else Allocate_bump nSize' nAlign' nBoundary' (a, w))"

definition Free ::
  "u64 \<Rightarrow> CNVMeSharedMemAllocator \<times> world
     \<Rightarrow> (fault + unit) \<times> CNVMeSharedMemAllocator \<times> world" where
  "Free pBlock aw =
     (let a = fst aw; w = snd aw in
      if pBlock = 0 then (Inl AssertFailed, a, w)
      else
        let pBlockHeader = pBlock - sizeof_TNVMeBlockHeader; h = hdr_mem w pBlockHeader in
        if nMagic h \<noteq> NVME_BLOCK_MAGIC then (Inl AssertFailed, a, w)
        else if nSize h = ucast NVME_BLOCK_SIZE \<and> nAlign h = ucast NVME_BLOCK_ALIGN
                \<and> nBoundary h = ucast NVME_BLOCK_BOUNDARY
        then (Inr (),
              a\<lparr>m_pFreeList := pBlockHeader\<rparr>,
              w\<lparr>hdr_mem := (hdr_mem w)(pBlockHeader := h\<lparr>pNext := m_pFreeList a\<rparr>)\<rparr>)
        else (Inr (), a, emit (LogWarnFree pBlock (nSize h) (nAlign h)) w))"

section \<open>Platform parameters\<close>

text \<open>
  Constants and macros of the surrounding kernel that the driver uses and whose
  definitions are not part of the driver: the DMA address of the PCIe bus
  (\<^verbatim>\<open>CBcmPCIeHostBridge::GetDMAAddress (PCIE_BUS_NVME)\<close>), the macro
  \<^verbatim>\<open>IS_CACHE_ALIGNED\<close>, the timer's \<^verbatim>\<open>HZ\<close> and \<^verbatim>\<open>MSEC2HZ\<close>, the code \<^verbatim>\<open>DEVICE_IOCTL_SYNC\<close>, and the two build
  options \<^verbatim>\<open>NO_BUSY_WAIT\<close> and \<^verbatim>\<open>NVME_READ_ONLY\<close>. \<^verbatim>\<open>NVME_DEBUG\<close> only adds log lines
  and is taken as undefined.
\<close>

record platform =
  dma_address :: u64
  IS_CACHE_ALIGNED :: "u64 \<Rightarrow> u64 \<Rightarrow> bool"
  HZ :: u32
  MSEC2HZ :: "u64 \<Rightarrow> u64"
  DEVICE_IOCTL_SYNC :: u64
  NO_BUSY_WAIT :: bool
  NVME_READ_ONLY :: bool

section \<open>nvmehelper.h\<close>

definition PhysicalOf :: "platform \<Rightarrow> u64 \<Rightarrow> u64" where
  "PhysicalOf plat pVirt = pVirt OR dma_address plat"

section \<open>CNVMePRP (nvmeprp.cpp)\<close>

definition PRP_PAGE_SIZE :: u64 where "PRP_PAGE_SIZE = NVME_PAGE_SIZE"
definition PRP_ENTRY_SIZE :: u64 where "PRP_ENTRY_SIZE = 8"

record CNVMePRP =
  m_uPrp1 :: u64
  m_uPrp2 :: u64
  m_pPrpListVirt :: u64
  m_nPrpListPages :: u32

definition CNVMePRP_ctor :: CNVMePRP where
  "CNVMePRP_ctor = \<lparr>m_uPrp1 = 0, m_uPrp2 = 0, m_pPrpListVirt = 0, m_nPrpListPages = 0\<rparr>"

text \<open>\<^verbatim>\<open>memset (pList, 0, n)\<close> on the PRP entries: every entry whose address lies in the
  \<open>n\<close> bytes from \<open>pList\<close> becomes 0.\<close>

definition memset0 :: "u64 \<Rightarrow> u64 \<Rightarrow> (u64 \<Rightarrow> u64) \<Rightarrow> (u64 \<Rightarrow> u64)" where
  "memset0 pList n m = (\<lambda>p. if p - pList < n then 0 else m p)"

text \<open>The \<^verbatim>\<open>for\<close> loop that fills the list: the store after the first \<open>k\<close> iterations
  (\<open>i = 0, \<dots>, k - 1\<close>).\<close>

primrec fill_entries :: "platform \<Rightarrow> u64 \<Rightarrow> u64 \<Rightarrow> nat \<Rightarrow> (u64 \<Rightarrow> u64) \<Rightarrow> (u64 \<Rightarrow> u64)" where
  "fill_entries plat pEntries uCurPageVirt 0 m = m"
| "fill_entries plat pEntries uCurPageVirt (Suc k) m =
     (fill_entries plat pEntries uCurPageVirt k m)
       (pEntries + PRP_ENTRY_SIZE * of_nat k :=
          PhysicalOf plat (uCurPageVirt + of_nat k * PRP_PAGE_SIZE))"

definition BuildForBuffer ::
  "platform \<Rightarrow> u64 \<Rightarrow> u64 \<Rightarrow> CNVMePRP \<times> CNVMeSharedMemAllocator \<times> world
     \<Rightarrow> (fault + bool) \<times> CNVMePRP \<times> CNVMeSharedMemAllocator \<times> world" where
  "BuildForBuffer plat pBuffer ulLength st =
     (let prp = fst st; a = fst (snd st); w = snd (snd st) in
      if pBuffer = 0 \<or> ulLength = 0 then (Inr False, prp, a, w)
      else
        let uBuf = pBuffer;
            uPhysFirst = PhysicalOf plat pBuffer;
            prp1 = prp\<lparr>m_uPrp1 := uPhysFirst\<rparr>;
            uRemaining = ulLength;
            uOffsetInFirstPage = uBuf AND (PRP_PAGE_SIZE - 1);
            uFirstPageRemaining = PRP_PAGE_SIZE - uOffsetInFirstPage
        in if uRemaining \<le> uFirstPageRemaining
           then (Inr True, prp1\<lparr>m_uPrp2 := 0\<rparr>, a, w)
           else
             let uSecondPageVirt = (uBuf AND NOT (PRP_PAGE_SIZE - 1)) + PRP_PAGE_SIZE;
                 uPhysSecond = PhysicalOf plat uSecondPageVirt;
                 prp2 = prp1\<lparr>m_uPrp2 := uPhysSecond\<rparr>;
                 uRemaining' = uRemaining - uFirstPageRemaining
             in if uRemaining' \<le> PRP_PAGE_SIZE
                then (Inr True, prp2, a, w)
                else
                  let uEntriesPerPage = PRP_PAGE_SIZE div PRP_ENTRY_SIZE;
                      uNeededEntries = (uRemaining' + PRP_PAGE_SIZE - 1) div PRP_PAGE_SIZE;
                      uPages = (uNeededEntries + uEntriesPerPage - 1) div uEntriesPerPage
                  in case Allocate (uPages * PRP_PAGE_SIZE) PRP_PAGE_SIZE NVME_BLOCK_BOUNDARY (a, w) of
                       (Inl f, a', w') \<Rightarrow> (Inl f, prp2, a', w')
                     | (Inr pList, a', w') \<Rightarrow>
                         if pList = 0 then (Inr False, prp2, a', w')
                         else
                           let m0 = memset0 pList (uPages * PRP_PAGE_SIZE) (prp_mem w');
                               m1 = fill_entries plat pList uSecondPageVirt (unat uNeededEntries) m0
                           in (Inr True,
                               prp2\<lparr>m_pPrpListVirt := pList, m_nPrpListPages := ucast uPages,
                                     m_uPrp2 := PhysicalOf plat pList\<rparr>,
                               a', w'\<lparr>prp_mem := m1\<rparr>))"

text \<open>The destructor: a list page goes back to the allocator.\<close>

definition CNVMePRP_dtor ::
  "CNVMePRP \<times> CNVMeSharedMemAllocator \<times> world
     \<Rightarrow> (fault + unit) \<times> CNVMePRP \<times> CNVMeSharedMemAllocator \<times> world" where
  "CNVMePRP_dtor st =
     (let prp = fst st; a = fst (snd st); w = snd (snd st) in
      if m_pPrpListVirt prp \<noteq> 0
      then (case Free (m_pPrpListVirt prp) (a, w) of
              (Inl f, a', w') \<Rightarrow> (Inl f, prp, a', w')
            | (Inr u, a', w') \<Rightarrow>
                (Inr (), prp\<lparr>m_pPrpListVirt := 0, m_nPrpListPages := 0,
                              m_uPrp1 := 0, m_uPrp2 := 0\<rparr>, a', w'))
      else (Inr (), prp, a, w))"

section \<open>CNVMeDevice (nvme.h, nvme.cpp)\<close>

definition NVME_LBA_SIZE :: u64 where "NVME_LBA_SIZE = 512"

definition NVME_STATUS_OK :: int where "NVME_STATUS_OK = 0"
definition NVME_STATUS_ERROR_BAD_PARAM :: int where "NVME_STATUS_ERROR_BAD_PARAM = - 1"
definition NVME_STATUS_ERROR_NO_RESOURCE :: int where "NVME_STATUS_ERROR_NO_RESOURCE = - 2"
definition NVME_STATUS_ERROR_CONTROLLER :: int where "NVME_STATUS_ERROR_CONTROLLER = - 3"
definition NVME_STATUS_ERROR_TIMEOUT :: int where "NVME_STATUS_ERROR_TIMEOUT = - 4"
definition NVME_STATUS_ERROR_READ_ONLY :: int where "NVME_STATUS_ERROR_READ_ONLY = - 5"
definition NVME_STATUS_ERROR_LBA_RANGE :: int where "NVME_STATUS_ERROR_LBA_RANGE = - 6"

record TQueue =
  pName :: string
  usID :: u16
  nEntries :: u16
  pSqVirt :: u64
  pCqVirt :: u64
  nSqPhys :: u64
  nCqPhys :: u64
  nSqTail :: u16
  nCqHead :: u16
  bCqPhase :: bool

record CNVMeDevice =
  m_Allocator :: CNVMeSharedMemAllocator
  m_bIRQConnected :: bool
  m_nVersion :: u32
  m_ulCaps :: u64
  m_nDoorbellStride :: u32
  m_nTimeoutHZ :: u32
  m_AdminQueue :: TQueue
  m_IoQueue :: TQueue
  m_ulNamespaceSize :: u64
  m_ulOffset :: u64
  m_pPartitionManager :: bool

text \<open>A \<^verbatim>\<open>TQueue *\<close> points to one of the two queues of the device.\<close>

datatype queue_ptr = AdminQueue | IoQueue

fun deref :: "queue_ptr \<Rightarrow> CNVMeDevice \<Rightarrow> TQueue" where
  "deref AdminQueue d = m_AdminQueue d"
| "deref IoQueue d = m_IoQueue d"

fun assign :: "queue_ptr \<Rightarrow> TQueue \<Rightarrow> CNVMeDevice \<Rightarrow> CNVMeDevice" where
  "assign AdminQueue q d = d\<lparr>m_AdminQueue := q\<rparr>"
| "assign IoQueue q d = d\<lparr>m_IoQueue := q\<rparr>"

subsection \<open>Register offsets and fields\<close>

definition NVME_REG_CAP :: u32 where "NVME_REG_CAP = 0x0000"
definition NVME_REG_CAP_DSTRD__SHIFT :: nat where "NVME_REG_CAP_DSTRD__SHIFT = 32"
definition NVME_REG_CAP_DSTRD__MASK :: u64 where "NVME_REG_CAP_DSTRD__MASK = push_bit 32 0x0F"
definition NVME_REG_CAP_TO__SHIFT :: nat where "NVME_REG_CAP_TO__SHIFT = 24"
definition NVME_REG_VER :: u32 where "NVME_REG_VER = 0x0008"
definition NVME_REG_VER_MJR__SHIFT :: nat where "NVME_REG_VER_MJR__SHIFT = 16"
definition NVME_REG_VER_MJR__MASK :: u32 where "NVME_REG_VER_MJR__MASK = push_bit 16 0xFFFF"
definition NVME_REG_VER_MNR__SHIFT :: nat where "NVME_REG_VER_MNR__SHIFT = 8"
definition NVME_REG_VER_MNR__MASK :: u32 where "NVME_REG_VER_MNR__MASK = push_bit 8 0xFF"
definition NVME_REG_INTMS :: u32 where "NVME_REG_INTMS = 0x000C"
definition NVME_REG_INTMC :: u32 where "NVME_REG_INTMC = 0x0010"
definition NVME_REG_INTM_ALL_VECTORS :: u32 where "NVME_REG_INTM_ALL_VECTORS = 0xFFFFFFFF"
definition NVME_REG_INTM_VECTOR0 :: u32 where "NVME_REG_INTM_VECTOR0 = 1"
definition NVME_REG_CC :: u32 where "NVME_REG_CC = 0x0014"
definition NVME_REG_CC_IOCQES__SHIFT :: nat where "NVME_REG_CC_IOCQES__SHIFT = 20"
definition NVME_REG_CC_IOCQES__MASK :: u32 where "NVME_REG_CC_IOCQES__MASK = push_bit 20 0xF"
definition NVME_REG_CC_IOCQES_16B :: u32 where "NVME_REG_CC_IOCQES_16B = 4"
definition NVME_REG_CC_IOSQES__SHIFT :: nat where "NVME_REG_CC_IOSQES__SHIFT = 16"
definition NVME_REG_CC_IOSQES__MASK :: u32 where "NVME_REG_CC_IOSQES__MASK = push_bit 16 0xF"
definition NVME_REG_CC_IOSQES_64B :: u32 where "NVME_REG_CC_IOSQES_64B = 6"
definition NVME_REG_CC_EN :: u32 where "NVME_REG_CC_EN = 1"
definition NVME_REG_CSTS :: u32 where "NVME_REG_CSTS = 0x001C"
definition NVME_REG_CSTS_RDY :: u32 where "NVME_REG_CSTS_RDY = 1"
definition NVME_REG_AQA :: u32 where "NVME_REG_AQA = 0x0024"
definition NVME_REG_ASQ :: u32 where "NVME_REG_ASQ = 0x0028"
definition NVME_REG_ACQ :: u32 where "NVME_REG_ACQ = 0x0030"

text \<open>
  \<^verbatim>\<open>NVME_REG_CAP_TO__MASK\<close> is \<^verbatim>\<open>(0xFF << 24)\<close>, an \<^verbatim>\<open>int\<close> with the sign bit set; the
  \<^verbatim>\<open>&\<close> with the 64-bit \<^verbatim>\<open>m_ulCaps\<close> sign-extends it.
\<close>

definition NVME_REG_CAP_TO__MASK :: u64 where
  "NVME_REG_CAP_TO__MASK = scast (push_bit 24 0xFF :: u32)"

definition DOORBELL_STRIDE :: "u64 \<Rightarrow> u32" where
  "DOORBELL_STRIDE dstrd = push_bit (unat (dstrd + 2)) 1"

definition NVME_REG_DOORBELL_BASE :: u32 where "NVME_REG_DOORBELL_BASE = 0x1000"

definition NVME_DOORBELL_SQ_OFFSET :: "CNVMeDevice \<Rightarrow> u16 \<Rightarrow> u32" where
  "NVME_DOORBELL_SQ_OFFSET d index =
     NVME_REG_DOORBELL_BASE + (ucast index * m_nDoorbellStride d * 2)"

definition NVME_DOORBELL_CQ_OFFSET :: "CNVMeDevice \<Rightarrow> u16 \<Rightarrow> u32" where
  "NVME_DOORBELL_CQ_OFFSET d index =
     NVME_REG_DOORBELL_BASE + (ucast index * m_nDoorbellStride d * 2) + 4"

definition NVME_ADMIN_OPC_CREATE_IO_SQ :: u8 where "NVME_ADMIN_OPC_CREATE_IO_SQ = 0x01"
definition NVME_ADMIN_OPC_CREATE_IO_CQ :: u8 where "NVME_ADMIN_OPC_CREATE_IO_CQ = 0x05"
definition NVME_ADMIN_OPC_IDENTIFY :: u8 where "NVME_ADMIN_OPC_IDENTIFY = 0x06"
definition NVME_IO_OPC_FLUSH :: u8 where "NVME_IO_OPC_FLUSH = 0x00"
definition NVME_IO_OPC_WRITE :: u8 where "NVME_IO_OPC_WRITE = 0x01"
definition NVME_IO_OPC_READ :: u8 where "NVME_IO_OPC_READ = 0x02"

definition NSID :: u32 where "NSID = 1"
definition AQID :: u16 where "AQID = 0"
definition IOQID :: u16 where "IOQID = 1"
definition NVME_ADMIN_QUEUE_ENTRIES :: u16 where "NVME_ADMIN_QUEUE_ENTRIES = 64"
definition NVME_IO_QUEUE_ENTRIES :: u16 where "NVME_IO_QUEUE_ENTRIES = 64"

definition POLL_TIMEOUT_HZ :: "platform \<Rightarrow> u32" where
  "POLL_TIMEOUT_HZ plat = ucast (MSEC2HZ plat 5000)"

definition CQE_STATUS_SCT__SHIFT :: nat where "CQE_STATUS_SCT__SHIFT = 9"
definition CQE_STATUS_SCT__MASK :: u32 where "CQE_STATUS_SCT__MASK = push_bit 9 7"
definition CQE_STATUS_SC__SHIFT :: nat where "CQE_STATUS_SC__SHIFT = 1"
definition CQE_STATUS_SC__MASK :: u32 where "CQE_STATUS_SC__MASK = push_bit 1 0xFF"
definition CQE_STATUS_PHASE_BIT :: u32 where "CQE_STATUS_PHASE_BIT = 1"

subsection \<open>Waiting for a completion\<close>

text \<open>
  What one command sees of the controller and the timer: the tick count at the start of
  \<^verbatim>\<open>PollForCompletion\<close>, whether \<^verbatim>\<open>m_Event.WaitWithTimeout\<close> ran into its timeout
  (read with \<^verbatim>\<open>NO_BUSY_WAIT\<close> only), and, for each turn of the poll loop, the completion
  entry found at \<^verbatim>\<open>pCq[pQueue->nCqHead]\<close> and the tick count read in that turn.
\<close>

record cmd_env =
  nStart :: u32
  event_timed_out :: bool
  polls :: "(TNVMeCompletion \<times> u32) list"

text \<open>Lines ``Advance head'': the head moves on, and the phase flips when it wraps to 0.
  The operands of \<^verbatim>\<open>%\<close> are promoted to \<^verbatim>\<open>int\<close>.\<close>

definition advance_head :: "TQueue \<Rightarrow> TQueue" where
  "advance_head q =
     (let q1 = q\<lparr>nCqHead := ucast (((ucast (nCqHead q) :: u32) + 1) mod ucast (nEntries q))\<rparr>
      in if nCqHead q1 = 0 then q1\<lparr>bCqPhase := \<not> bCqPhase q1\<rparr> else q1)"

definition status_SCT :: "u16 \<Rightarrow> u32" where
  "status_SCT usStatus = drop_bit CQE_STATUS_SCT__SHIFT (ucast usStatus AND CQE_STATUS_SCT__MASK)"

definition status_SC :: "u16 \<Rightarrow> u32" where
  "status_SC usStatus = drop_bit CQE_STATUS_SC__SHIFT (ucast usStatus AND CQE_STATUS_SC__MASK)"

text \<open>The test of the poll loop: phase, command identifier and queue identifier.\<close>

definition completion_matches :: "TQueue \<Rightarrow> u16 \<Rightarrow> TNVMeCompletion \<Rightarrow> bool" where
  "completion_matches q usCid ce \<longleftrightarrow>
     ((ucast (status ce) AND CQE_STATUS_PHASE_BIT \<noteq> 0) = bCqPhase q)
     \<and> ce_cid ce = usCid \<and> sqid ce = usID q"

fun PollForCompletion_loop ::
  "platform \<Rightarrow> queue_ptr \<Rightarrow> u16 \<Rightarrow> u32 \<Rightarrow> u32 \<Rightarrow> (TNVMeCompletion \<times> u32) list
     \<Rightarrow> CNVMeDevice \<times> world \<Rightarrow> (fault + int) \<times> CNVMeDevice \<times> world" where
  "PollForCompletion_loop plat pQueue usCid nTimeoutHZ nStart' [] dw =
     (Inl StillPolling, dw)"
| "PollForCompletion_loop plat pQueue usCid nTimeoutHZ nStart' (obs # rest) dw =
     (let d = fst dw; w = snd dw; ce = fst obs; now = snd obs;
          q = deref pQueue d;
          w1 = emit DataMemBarrier w;
          usStatus = status ce
      in if completion_matches q usCid ce
         then
           (if nEntries q = 0 then (Inl DivisionByZero, d, w1)
            else
              let d1 = assign pQueue (advance_head q) d;
                  q1 = deref pQueue d1;
                  w2 = emit (MmioWrite32 (NVME_DOORBELL_CQ_OFFSET d1 (usID q1)) (ucast (nCqHead q1)))
                         (emit DataSyncBarrier w1);
                  nSCT = status_SCT usStatus;
                  nSC = status_SC usStatus
              in if nSCT \<noteq> 0 \<or> nSC \<noteq> 0
                 then
                   let w3 = emit (LogDbgCommandFailed (usID q1) nSCT nSC) w2
                   in if nSCT = 0 \<and> nSC = 0x80
                      then (Inr NVME_STATUS_ERROR_LBA_RANGE, d1, w3)
                      else (Inr NVME_STATUS_ERROR_CONTROLLER, d1, w3)
                 else (Inr NVME_STATUS_OK, d1, w2))
         else if now - nStart' > nTimeoutHZ
         then (Inr NVME_STATUS_ERROR_TIMEOUT, d, w1)
         else PollForCompletion_loop plat pQueue usCid nTimeoutHZ nStart' rest
                (d, if NO_BUSY_WAIT plat then w1 else emit (UsDelay 1) w1))"

definition PollForCompletion ::
  "platform \<Rightarrow> cmd_env \<Rightarrow> queue_ptr \<Rightarrow> u16 \<Rightarrow> u32 \<Rightarrow> CNVMeDevice \<times> world
     \<Rightarrow> (fault + int) \<times> CNVMeDevice \<times> world" where
  "PollForCompletion plat env pQueue usCid nTimeoutHZ dw =
     (let d = fst dw; w = snd dw in
      if \<not> usCid < nEntries (deref pQueue d) then (Inl AssertFailed, d, w)
      else if NO_BUSY_WAIT plat \<and> event_timed_out env
      then (Inr NVME_STATUS_ERROR_TIMEOUT, d, w)
      else PollForCompletion_loop plat pQueue usCid nTimeoutHZ (nStart env) (polls env) (d, w))"

subsection \<open>Submitting a command\<close>

definition SubmitCommand ::
  "platform \<Rightarrow> cmd_env \<Rightarrow> queue_ptr \<Rightarrow> u8 \<Rightarrow> u32 \<Rightarrow> u32 \<Rightarrow> u32 \<Rightarrow> u32 \<Rightarrow> u64 \<Rightarrow> u64
     \<Rightarrow> CNVMeDevice \<times> world \<Rightarrow> (fault + int) \<times> CNVMeDevice \<times> world" where
  "SubmitCommand plat env pQueue uchOpcode nNsId nCdw10 nCdw11 nCdw12 ulPrp1 ulPrp2 dw =
     (let d = fst dw; w = snd dw; q = deref pQueue d;
          usCid = nSqTail q;
          pCmd = pSqVirt q + sizeof_TNVMeCommand * ucast (nSqTail q);
          w1 = w\<lparr>cmd_mem := (cmd_mem w)(pCmd :=
                 \<lparr>opc = uchOpcode, fuse = 0, cid = usCid, nsid = nNsId, reserved = 0, mptr = 0,
                  prp1 = ulPrp1, prp2 = ulPrp2, cdw10 = nCdw10, cdw11 = nCdw11, cdw12 = nCdw12,
                  cdw13 = 0, cdw14 = 0, cdw15 = 0\<rparr>)\<rparr>;
          w2 = (if NO_BUSY_WAIT plat
                then emit (MmioWrite32 NVME_REG_INTMC NVME_REG_INTM_VECTOR0) (emit EventClear w1)
                else w1)
      in if nEntries q = 0 then (Inl DivisionByZero, d, w2)
         else
           let q1 = q\<lparr>nSqTail := ucast (((ucast (nSqTail q) :: u32) + 1) mod ucast (nEntries q))\<rparr>;
               d1 = assign pQueue q1 d;
               w3 = emit (MmioWrite32 (NVME_DOORBELL_SQ_OFFSET d1 (usID q1)) (ucast (nSqTail q1)))
                      (emit DataSyncBarrier w2)
           in PollForCompletion plat env pQueue usCid (POLL_TIMEOUT_HZ plat) (d1, w3))"

definition AdminCommand ::
  "platform \<Rightarrow> cmd_env \<Rightarrow> u8 \<Rightarrow> u32 \<Rightarrow> u32 \<Rightarrow> u32 \<Rightarrow> u64
     \<Rightarrow> CNVMeDevice \<times> world \<Rightarrow> (fault + int) \<times> CNVMeDevice \<times> world" where
  "AdminCommand plat env uchOpcode nNsId uCdw10 uCdw11 ulDataPhysAddr dw =
     (if ulDataPhysAddr = 0 then (Inl AssertFailed, dw)
      else SubmitCommand plat env AdminQueue uchOpcode nNsId uCdw10 uCdw11 0 ulDataPhysAddr 0 dw)"

definition Flush ::
  "platform \<Rightarrow> cmd_env \<Rightarrow> u32 \<Rightarrow> CNVMeDevice \<times> world \<Rightarrow> (fault + int) \<times> CNVMeDevice \<times> world" where
  "Flush plat env nNsId dw = SubmitCommand plat env IoQueue NVME_IO_OPC_FLUSH nNsId 0 0 0 0 0 dw"

definition Identify ::
  "platform \<Rightarrow> cmd_env \<Rightarrow> u32 \<Rightarrow> u64 \<Rightarrow> u32 \<Rightarrow> CNVMeDevice \<times> world
     \<Rightarrow> (fault + int) \<times> CNVMeDevice \<times> world" where
  "Identify plat env uCns pOutBuf uNsId dw =
     (let uPhys = PhysicalOf plat pOutBuf; uCdw10 = uCns
      in AdminCommand plat env NVME_ADMIN_OPC_IDENTIFY uNsId uCdw10 0 uPhys dw)"

text \<open>\<^verbatim>\<open>PrpBuilder\<close> is a local object: its destructor runs on every return.\<close>

definition IoPassThrough ::
  "platform \<Rightarrow> cmd_env \<Rightarrow> u32 \<Rightarrow> u64 \<Rightarrow> u32 \<Rightarrow> u64 \<Rightarrow> bool
     \<Rightarrow> CNVMeDevice \<times> world \<Rightarrow> (fault + int) \<times> CNVMeDevice \<times> world" where
  "IoPassThrough plat env nNsId nLba nBlocks pBuffer bIsWrite dw =
     (let d = fst dw; w = snd dw in
      if pBuffer = 0 \<or> nBlocks = 0 then (Inl AssertFailed, d, w)
      else
        case BuildForBuffer plat pBuffer (ucast nBlocks * NVME_LBA_SIZE)
               (CNVMePRP_ctor, m_Allocator d, w) of
          (Inl f, PrpBuilder, a1, w1) \<Rightarrow> (Inl f, d\<lparr>m_Allocator := a1\<rparr>, w1)
        | (Inr ok, PrpBuilder, a1, w1) \<Rightarrow>
            (case (if \<not> ok then (Inr NVME_STATUS_ERROR_NO_RESOURCE, d\<lparr>m_Allocator := a1\<rparr>, w1)
                   else SubmitCommand plat env IoQueue
                          (if bIsWrite then NVME_IO_OPC_WRITE else NVME_IO_OPC_READ)
                          nNsId
                          (ucast (nLba AND 0xffffffff))
                          (ucast (drop_bit 32 nLba AND 0xffffffff))
                          (nBlocks - 1)
                          (m_uPrp1 PrpBuilder) (m_uPrp2 PrpBuilder)
                          (d\<lparr>m_Allocator := a1\<rparr>, w1)) of
               (Inl f, d2, w2) \<Rightarrow> (Inl f, d2, w2)
             | (Inr nRet, d2, w2) \<Rightarrow>
                 (case CNVMePRP_dtor (PrpBuilder, m_Allocator d2, w2) of
                    (Inl f, prp', a3, w3) \<Rightarrow> (Inl f, d2\<lparr>m_Allocator := a3\<rparr>, w3)
                  | (Inr u, prp', a3, w3) \<Rightarrow> (Inr nRet, d2\<lparr>m_Allocator := a3\<rparr>, w3))))"

subsection \<open>The block device interface\<close>

text \<open>
  What a \<^verbatim>\<open>Read\<close> or \<^verbatim>\<open>Write\<close> sees of its surroundings: the pointer that
  \<^verbatim>\<open>new u8[ulCount]\<close> returns when a bounce buffer is needed (0 when the heap is exhausted),
  and what its one command sees.
\<close>

record rw_env =
  new_result :: u64
  cmd :: cmd_env

text \<open>The value of type \<^verbatim>\<open>size_t\<close> returned as an \<^verbatim>\<open>int\<close>.\<close>

definition int_of_size_t :: "u64 \<Rightarrow> int" where
  "int_of_size_t n = sint (ucast n :: u32)"

definition Read ::
  "platform \<Rightarrow> rw_env \<Rightarrow> u64 \<Rightarrow> u64 \<Rightarrow> CNVMeDevice \<times> world
     \<Rightarrow> (fault + int) \<times> CNVMeDevice \<times> world" where
  "Read plat env pBuffer ulCount dw =
     (let d = fst dw; w = snd dw in
      if pBuffer = 0 then (Inl AssertFailed, d, w)
      else if m_ulOffset d AND (NVME_LBA_SIZE - 1) \<noteq> 0
      then (Inr NVME_STATUS_ERROR_BAD_PARAM, d, w)
      else
        let nLBA = (ucast (m_ulOffset d div NVME_LBA_SIZE) :: u32) in
        if ulCount = 0 \<or> ulCount AND (NVME_LBA_SIZE - 1) \<noteq> 0
        then (Inr NVME_STATUS_ERROR_BAD_PARAM, d, w)
        else
          let bounce = \<not> IS_CACHE_ALIGNED plat pBuffer ulCount;
              pDMABuffer = (if bounce then new_result env else 0);
              w1 = (if bounce then emit (NewArray ulCount pDMABuffer) w else w)
          in if bounce \<and> pDMABuffer = 0 then (Inr NVME_STATUS_ERROR_NO_RESOURCE, d, w1)
             else
               let pTransferBuffer = (if bounce then pDMABuffer else pBuffer);
                   w2 = emit (InvalidateDataCacheRange pTransferBuffer ulCount) w1
               in case IoPassThrough plat (cmd env) NSID (ucast nLBA)
                         (ucast (ulCount div NVME_LBA_SIZE)) pTransferBuffer False (d, w2) of
                    (Inl f, d3, w3) \<Rightarrow> (Inl f, d3, w3)
                  | (Inr nRet, d3, w3) \<Rightarrow>
                      if nRet \<noteq> NVME_STATUS_OK
                      then (Inr nRet, d3,
                            if pDMABuffer \<noteq> 0 then emit (DeleteArray pDMABuffer) w3 else w3)
                      else
                        let w4 = emit (InvalidateDataCacheRange pTransferBuffer ulCount) w3;
                            w5 = (if pDMABuffer \<noteq> 0
                                  then emit (DeleteArray pDMABuffer)
                                         (emit (Memcpy pBuffer pDMABuffer ulCount) w4)
                                  else w4)
                        in (Inr (int_of_size_t ulCount), d3, w5))"

definition Write ::
  "platform \<Rightarrow> rw_env \<Rightarrow> u64 \<Rightarrow> u64 \<Rightarrow> CNVMeDevice \<times> world
     \<Rightarrow> (fault + int) \<times> CNVMeDevice \<times> world" where
  "Write plat env pBuffer ulCount dw =
     (let d = fst dw; w = snd dw in
      if pBuffer = 0 then (Inl AssertFailed, d, w)
      else if m_ulOffset d AND (NVME_LBA_SIZE - 1) \<noteq> 0
      then (Inr NVME_STATUS_ERROR_BAD_PARAM, d, w)
      else
        let nLBA = (ucast (m_ulOffset d div NVME_LBA_SIZE) :: u32) in
        if ulCount = 0 \<or> ulCount AND (NVME_LBA_SIZE - 1) \<noteq> 0
        then (Inr NVME_STATUS_ERROR_BAD_PARAM, d, w)
        else if NVME_READ_ONLY plat then (Inr NVME_STATUS_ERROR_READ_ONLY, d, w)
        else
          let bounce = \<not> IS_CACHE_ALIGNED plat pBuffer ulCount;
              pDMABuffer = (if bounce then new_result env else 0);
              w1 = (if bounce then emit (NewArray ulCount pDMABuffer) w else w)
          in if bounce \<and> pDMABuffer = 0 then (Inr NVME_STATUS_ERROR_NO_RESOURCE, d, w1)
             else
               let pTransferBuffer = (if bounce then pDMABuffer else pBuffer);
                   w1' = (if bounce then emit (Memcpy pDMABuffer pBuffer ulCount) w1 else w1);
                   w2 = emit (CleanDataCacheRange pTransferBuffer ulCount) w1'
               in case IoPassThrough plat (cmd env) NSID (ucast nLBA)
                         (ucast (ulCount div NVME_LBA_SIZE)) pTransferBuffer True (d, w2) of
                    (Inl f, d3, w3) \<Rightarrow> (Inl f, d3, w3)
                  | (Inr nRet, d3, w3) \<Rightarrow>
                      let w4 = (if pDMABuffer \<noteq> 0 then emit (DeleteArray pDMABuffer) w3 else w3)
                      in if nRet \<noteq> NVME_STATUS_OK then (Inr nRet, d3, w4)
                         else (Inr (int_of_size_t ulCount), d3, w4))"

definition Seek :: "u64 \<Rightarrow> CNVMeDevice \<Rightarrow> u64 \<times> CNVMeDevice" where
  "Seek ulOffset d = (ulOffset, d\<lparr>m_ulOffset := ulOffset\<rparr>)"


definition IOCtl ::
  "platform \<Rightarrow> cmd_env \<Rightarrow> u64 \<Rightarrow> CNVMeDevice \<times> world \<Rightarrow> (fault + int) \<times> CNVMeDevice \<times> world" where
  "IOCtl plat env ulCmd dw =
     (if ulCmd = DEVICE_IOCTL_SYNC plat then Flush plat env NSID dw
      else (Inr NVME_STATUS_ERROR_BAD_PARAM, dw))"

subsection \<open>Bringing the controller up\<close>

text \<open>What \<^verbatim>\<open>WaitReady\<close> sees: the tick count at its start and, for each turn of its loop,
  the value read from \<^verbatim>\<open>CSTS\<close> and the tick count read in that turn.\<close>

record wait_env =
  wStart :: u32
  wpolls :: "(u32 \<times> u32) list"

fun WaitReady_loop ::
  "platform \<Rightarrow> bool \<Rightarrow> u32 \<Rightarrow> (u32 \<times> u32) list \<Rightarrow> CNVMeDevice \<times> world
     \<Rightarrow> (fault + bool) \<times> CNVMeDevice \<times> world" where
  "WaitReady_loop plat bOn nStart' [] dw = (Inl StillPolling, dw)"
| "WaitReady_loop plat bOn nStart' (obs # rest) dw =
     (let d = fst dw; w = snd dw; csts = fst obs; now = snd obs in
      if (csts AND NVME_REG_CSTS_RDY \<noteq> 0) = bOn then (Inr True, d, w)
      else if now - nStart' \<ge> m_nTimeoutHZ d then (Inr False, d, w)
      else WaitReady_loop plat bOn nStart' rest
             (d, emit (if NO_BUSY_WAIT plat then MsSleep 1 else MsDelay 1) w))"

definition WaitReady ::
  "platform \<Rightarrow> wait_env \<Rightarrow> bool \<Rightarrow> CNVMeDevice \<times> world
     \<Rightarrow> (fault + bool) \<times> CNVMeDevice \<times> world" where
  "WaitReady plat env bOn dw = WaitReady_loop plat bOn (wStart env) (wpolls env) dw"

definition zero_command :: TNVMeCommand where
  "zero_command = \<lparr>opc = 0, fuse = 0, cid = 0, nsid = 0, reserved = 0, mptr = 0, prp1 = 0,
     prp2 = 0, cdw10 = 0, cdw11 = 0, cdw12 = 0, cdw13 = 0, cdw14 = 0, cdw15 = 0\<rparr>"

text \<open>\<^verbatim>\<open>memset (pSq, 0, n)\<close> on the slots of a submission queue. The completion queue is
  written by the controller and read through \<open>cmd_env\<close>; its \<^verbatim>\<open>memset\<close> leaves no trace
  in \<open>world\<close>.\<close>

definition memset0_cmd :: "u64 \<Rightarrow> u64 \<Rightarrow> (u64 \<Rightarrow> TNVMeCommand) \<Rightarrow> (u64 \<Rightarrow> TNVMeCommand)" where
  "memset0_cmd pSq n m = (\<lambda>p. if p - pSq < n then zero_command else m p)"

definition CreateAdminQueues ::
  "platform \<Rightarrow> CNVMeDevice \<times> world \<Rightarrow> (fault + int) \<times> CNVMeDevice \<times> world" where
  "CreateAdminQueues plat dw =
     (let d = fst dw; w = snd dw;
          uSqSize = sizeof_TNVMeCommand * ucast NVME_ADMIN_QUEUE_ENTRIES;
          uCqSize = sizeof_TNVMeCompletion * ucast NVME_ADMIN_QUEUE_ENTRIES
      in case Allocate uSqSize NVME_PAGE_SIZE NVME_BLOCK_BOUNDARY (m_Allocator d, w) of
           (Inl f, a1, w1) \<Rightarrow> (Inl f, d\<lparr>m_Allocator := a1\<rparr>, w1)
         | (Inr pSq, a1, w1) \<Rightarrow>
             if pSq = 0 then (Inr NVME_STATUS_ERROR_NO_RESOURCE, d\<lparr>m_Allocator := a1\<rparr>, w1)
             else
               (case Allocate uCqSize NVME_PAGE_SIZE NVME_BLOCK_BOUNDARY (a1, w1) of
                  (Inl f, a2, w2) \<Rightarrow> (Inl f, d\<lparr>m_Allocator := a2\<rparr>, w2)
                | (Inr pCq, a2, w2) \<Rightarrow>
                    if pCq = 0 then (Inr NVME_STATUS_ERROR_NO_RESOURCE, d\<lparr>m_Allocator := a2\<rparr>, w2)
                    else
                      let w3 = w2\<lparr>cmd_mem := memset0_cmd pSq uSqSize (cmd_mem w2)\<rparr>;
                          q = (m_AdminQueue d)\<lparr>pSqVirt := pSq, pCqVirt := pCq,
                                nSqPhys := PhysicalOf plat pSq, nCqPhys := PhysicalOf plat pCq\<rparr>;
                          uAqa = (push_bit 16 (ucast NVME_ADMIN_QUEUE_ENTRIES - 1)
                                    OR (ucast NVME_ADMIN_QUEUE_ENTRIES - 1) :: u32);
                          w4 = emits [MmioWrite32 NVME_REG_AQA uAqa,
                                      MmioWrite64 NVME_REG_ASQ (nSqPhys q),
                                      MmioWrite64 NVME_REG_ACQ (nCqPhys q)] w3;
                          q' = q\<lparr>nSqTail := 0, nCqHead := 0, bCqPhase := True\<rparr>
                      in (Inr NVME_STATUS_OK, d\<lparr>m_Allocator := a2, m_AdminQueue := q'\<rparr>, w4)))"

definition CreateIoQueue ::
  "platform \<Rightarrow> cmd_env \<Rightarrow> cmd_env \<Rightarrow> u16 \<Rightarrow> u16 \<Rightarrow> CNVMeDevice \<times> world
     \<Rightarrow> (fault + int) \<times> CNVMeDevice \<times> world" where
  "CreateIoQueue plat env_cq env_sq uQueueId uEntries dw =
     (let d = fst dw; w = snd dw;
          uSqSize = sizeof_TNVMeCommand * ucast uEntries;
          uCqSize = sizeof_TNVMeCompletion * ucast uEntries
      in case Allocate uSqSize NVME_PAGE_SIZE NVME_BLOCK_BOUNDARY (m_Allocator d, w) of
           (Inl f, a1, w1) \<Rightarrow> (Inl f, d\<lparr>m_Allocator := a1\<rparr>, w1)
         | (Inr pSq, a1, w1) \<Rightarrow>
             if pSq = 0 then (Inr NVME_STATUS_ERROR_NO_RESOURCE, d\<lparr>m_Allocator := a1\<rparr>, w1)
             else
               (case Allocate uCqSize NVME_PAGE_SIZE NVME_BLOCK_BOUNDARY (a1, w1) of
                  (Inl f, a2, w2) \<Rightarrow> (Inl f, d\<lparr>m_Allocator := a2\<rparr>, w2)
                | (Inr pCq, a2, w2) \<Rightarrow>
                    if pCq = 0 then (Inr NVME_STATUS_ERROR_NO_RESOURCE, d\<lparr>m_Allocator := a2\<rparr>, w2)
                    else
                      (let w3 = w2\<lparr>cmd_mem := memset0_cmd pSq uSqSize (cmd_mem w2)\<rparr>;
                           q = (m_IoQueue d)\<lparr>pSqVirt := pSq, pCqVirt := pCq,
                                 nSqPhys := PhysicalOf plat pSq, nCqPhys := PhysicalOf plat pCq\<rparr>;
                           d3 = d\<lparr>m_Allocator := a2, m_IoQueue := q\<rparr>;
                           uCdw10 = ((ucast uQueueId AND 0xffff)
                                       OR push_bit 16 (ucast uEntries - 1) :: u32);
                           uCdw11 = (3 :: u32)
                       in (case AdminCommand plat env_cq NVME_ADMIN_OPC_CREATE_IO_CQ 0 uCdw10 uCdw11
                                  (nCqPhys q) (d3, w3) of
                             (Inl f, d4, w4) \<Rightarrow> (Inl f, d4, w4)
                           | (Inr nRet, d4, w4) \<Rightarrow>
                               if nRet \<noteq> NVME_STATUS_OK then (Inr nRet, d4, w4)
                               else
                                 (let uCdw11' = (push_bit 16 (ucast uQueueId) OR 1 :: u32)
                                  in (case AdminCommand plat env_sq NVME_ADMIN_OPC_CREATE_IO_SQ 0
                                             uCdw10 uCdw11' (nSqPhys (m_IoQueue d4)) (d4, w4) of
                                        (Inl f, d5, w5) \<Rightarrow> (Inl f, d5, w5)
                                      | (Inr nRet', d5, w5) \<Rightarrow>
                                          if nRet' \<noteq> NVME_STATUS_OK then (Inr nRet', d5, w5)
                                          else (Inr NVME_STATUS_OK,
                                                d5\<lparr>m_IoQueue := (m_IoQueue d5)\<lparr>nSqTail := 0,
                                                     nCqHead := 0, bCqPhase := True\<rparr>\<rparr>,
                                                w5)))))))"

text \<open>
  What \<^verbatim>\<open>Initialize\<close> sees: the answers of the PCIe host bridge, the values read from
  the controller's registers, what each wait and each admin command sees, the bytes the
  controller has put into the Identify buffer after each of the two Identify commands, and
  the partition manager, which works on the device through its public interface.
\<close>

record init_env =
  pcie_Initialize :: bool
  pcie_EnableDevice :: bool
  reg_VER :: u32
  reg_CAP :: u64
  reg_CC_at_reset :: u32
  wait_reset :: wait_env
  reg_CC_at_enable :: u32
  wait_enable :: wait_env
  env_create_cq :: cmd_env
  env_create_sq :: cmd_env
  env_identify_ns :: cmd_env
  id_ns_data :: "nat \<Rightarrow> u8"
  env_identify_ctrl :: cmd_env
  id_ctrl_data :: "nat \<Rightarrow> u8"
  partition_manager_Initialize :: "CNVMeDevice \<times> world \<Rightarrow> bool \<times> CNVMeDevice \<times> world"

text \<open>Little-endian reads from the Identify buffer.\<close>

definition le32 :: "(nat \<Rightarrow> u8) \<Rightarrow> nat \<Rightarrow> u32" where
  "le32 buf i = word_rcat [buf (i + 3), buf (i + 2), buf (i + 1), buf i]"

definition le64 :: "(nat \<Rightarrow> u8) \<Rightarrow> nat \<Rightarrow> u64" where
  "le64 buf i = word_rcat [buf (i + 7), buf (i + 6), buf (i + 5), buf (i + 4),
                           buf (i + 3), buf (i + 2), buf (i + 1), buf i]"

text \<open>``Check capabilities'': the doorbell stride and the ready timeout from \<^verbatim>\<open>CAP\<close>.\<close>

definition Initialize_capabilities :: "platform \<Rightarrow> u64 \<Rightarrow> CNVMeDevice \<times> world \<Rightarrow> CNVMeDevice \<times> world" where
  "Initialize_capabilities plat caps dw =
     (let d = fst dw; w = snd dw;
          d1 = d\<lparr>m_ulCaps := caps\<rparr>;
          d2 = d1\<lparr>m_nDoorbellStride :=
                  DOORBELL_STRIDE (push_bit NVME_REG_CAP_DSTRD__SHIFT
                                     (m_ulCaps d1 AND NVME_REG_CAP_DSTRD__MASK))\<rparr>;
          d3 = d2\<lparr>m_nTimeoutHZ :=
                  ucast (MSEC2HZ plat (drop_bit NVME_REG_CAP_TO__SHIFT
                                         (m_ulCaps d2 AND NVME_REG_CAP_TO__MASK) * 500))\<rparr>
      in if m_nTimeoutHZ d3 = 0
         then (d3\<lparr>m_nTimeoutHZ := 5 * HZ plat\<rparr>, emit (LogMsg ''Timeout adjusted'') w)
         else (d3, w))"

text \<open>``Choose SQ/CQ entry sizes and enable controller'': the value written to \<^verbatim>\<open>CC\<close>,
  from the value read from it.\<close>

definition Initialize_enable_CC :: "u32 \<Rightarrow> u32" where
  "Initialize_enable_CC nCC =
     (nCC AND NOT (NVME_REG_CC_IOCQES__MASK OR NVME_REG_CC_IOCQES__MASK))
       OR (push_bit NVME_REG_CC_IOSQES__SHIFT NVME_REG_CC_IOSQES_64B
           OR push_bit NVME_REG_CC_IOCQES__SHIFT NVME_REG_CC_IOCQES_16B
           OR NVME_REG_CC_EN)"

text \<open>The first turn of the Identify loop (\<^verbatim>\<open>nCNS = 0\<close>), after the command has succeeded.\<close>

definition Initialize_namespace ::
  "(nat \<Rightarrow> u8) \<Rightarrow> u64 \<Rightarrow> CNVMeDevice \<times> world \<Rightarrow> (fault + bool) \<times> CNVMeDevice \<times> world" where
  "Initialize_namespace pIdBuf pIdBufVirt dw =
     (let d = fst dw; w = snd dw;
          uchFLBAS = pIdBuf 26;
          nLBAFormat = le32 pIdBuf (128 + 4 * unat (uchFLBAS AND 0xF));
          uchLBADS = (ucast (drop_bit 16 nLBAFormat AND 0xFF) :: u8);
          nLBASize = (push_bit (unat uchLBADS) 1 :: u32)
      in if nLBASize \<noteq> ucast NVME_LBA_SIZE
         then (case Free pIdBufVirt (m_Allocator d, emit (LogMsg ''LBA size not supported'') w) of
                 (Inl f, a1, w1) \<Rightarrow> (Inl f, d\<lparr>m_Allocator := a1\<rparr>, w1)
               | (Inr u, a1, w1) \<Rightarrow> (Inr False, d\<lparr>m_Allocator := a1\<rparr>, w1))
         else
           (let d1 = d\<lparr>m_ulNamespaceSize := le64 pIdBuf 0 * ucast nLBASize\<rparr>;
                usMS = (ucast (nLBAFormat AND 0xFFFF) :: u16)
            in if usMS \<noteq> 0
               then (case Free pIdBufVirt (m_Allocator d1, emit (LogMsg ''Metadata not supported'') w) of
                       (Inl f, a1, w1) \<Rightarrow> (Inl f, d1\<lparr>m_Allocator := a1\<rparr>, w1)
                     | (Inr u, a1, w1) \<Rightarrow> (Inr False, d1\<lparr>m_Allocator := a1\<rparr>, w1))
               else (Inr True, d1, w)))"

text \<open>``Identify namespace and controller'', from the allocation of the buffer to its release.\<close>

definition Initialize_identify ::
  "platform \<Rightarrow> init_env \<Rightarrow> CNVMeDevice \<times> world \<Rightarrow> (fault + bool) \<times> CNVMeDevice \<times> world" where
  "Initialize_identify plat env dw =
     (let d = fst dw; w = snd dw in
      case Allocate 4096 NVME_PAGE_SIZE NVME_BLOCK_BOUNDARY (m_Allocator d, w) of
        (Inl f, a1, w1) \<Rightarrow> (Inl f, d\<lparr>m_Allocator := a1\<rparr>, w1)
      | (Inr pIdBuf, a1, w1) \<Rightarrow>
          if pIdBuf = 0
          then (Inr False, d\<lparr>m_Allocator := a1\<rparr>, emit (LogMsg ''Allocation failed'') w1)
          else
            (case Identify plat (env_identify_ns env) 0 pIdBuf NSID (d\<lparr>m_Allocator := a1\<rparr>, w1) of
               (Inl f, d2, w2) \<Rightarrow> (Inl f, d2, w2)
             | (Inr nRet, d2, w2) \<Rightarrow>
                 if nRet \<noteq> NVME_STATUS_OK
                 then (Inr False, d2, emit (LogMsg ''Identify failed'') w2)
                 else
                   (case Initialize_namespace (id_ns_data env) pIdBuf (d2, w2) of
                      (Inl f, d3, w3) \<Rightarrow> (Inl f, d3, w3)
                    | (Inr ok, d3, w3) \<Rightarrow>
                        if \<not> ok then (Inr False, d3, w3)
                        else
                          (case Identify plat (env_identify_ctrl env) 1 pIdBuf 0 (d3, w3) of
                             (Inl f, d4, w4) \<Rightarrow> (Inl f, d4, w4)
                           | (Inr nRet', d4, w4) \<Rightarrow>
                               if nRet' \<noteq> NVME_STATUS_OK
                               then (Inr False, d4, emit (LogMsg ''Identify failed'') w4)
                               else
                                 (case Free pIdBuf (m_Allocator d4, w4) of
                                    (Inl f, a5, w5) \<Rightarrow> (Inl f, d4\<lparr>m_Allocator := a5\<rparr>, w5)
                                  | (Inr u, a5, w5) \<Rightarrow>
                                      (Inr True, d4\<lparr>m_Allocator := a5\<rparr>,
                                       emit (LogMsg ''NVMe Model'') w5))))))"

text \<open>
  \<^verbatim>\<open>Initialize\<close> up to the log line that reports the model: everything the driver does
  to the controller. \<^verbatim>\<open>m_nDoorbellStride\<close> and \<^verbatim>\<open>m_nTimeoutHZ\<close> are set here and nowhere
  else.
\<close>

definition Initialize_controller ::
  "platform \<Rightarrow> init_env \<Rightarrow> CNVMeDevice \<times> world \<Rightarrow> (fault + bool) \<times> CNVMeDevice \<times> world" where
  "Initialize_controller plat env dw =
     (let d = fst dw; w = snd dw in
      if \<not> pcie_Initialize env
      then (Inr False, d, emit (LogMsg ''Cannot init external PCIe'') w)
      else if \<not> pcie_EnableDevice env
      then (Inr False, d, emit (LogMsg ''Cannot enable PCIe device'') w)
      else
        (let d1 = d\<lparr>m_nVersion := reg_VER env\<rparr>;
             nMjr = drop_bit NVME_REG_VER_MJR__SHIFT (m_nVersion d1 AND NVME_REG_VER_MJR__MASK);
             nMnr = drop_bit NVME_REG_VER_MNR__SHIFT (m_nVersion d1 AND NVME_REG_VER_MNR__MASK)
         in if nMjr \<noteq> 1 \<or> (nMnr \<noteq> 3 \<and> nMnr \<noteq> 4)
            then (Inr False, d1, emit (LogMsg ''NVMe version not supported'') w)
            else
              (let dw2 = Initialize_capabilities plat (reg_CAP env) (d1, w);
                   w3 = emit (MmioWrite32 NVME_REG_CC (reg_CC_at_reset env AND NOT NVME_REG_CC_EN))
                          (snd dw2)
               in (case WaitReady plat (wait_reset env) False (fst dw2, w3) of
                     (Inl f, d4, w4) \<Rightarrow> (Inl f, d4, w4)
                   | (Inr ready, d4, w4) \<Rightarrow>
                       if \<not> ready then (Inr False, d4, emit (LogMsg ''Cannot reset controller'') w4)
                       else if NO_BUSY_WAIT plat \<and> m_bIRQConnected d4 then (Inl AssertFailed, d4, w4)
                       else
                         (let d5 = (if NO_BUSY_WAIT plat then d4\<lparr>m_bIRQConnected := True\<rparr> else d4);
                              w5 = (if NO_BUSY_WAIT plat
                                    then emits [MmioWrite32 NVME_REG_INTMS NVME_REG_INTM_ALL_VECTORS,
                                                ConnectIRQ] w4
                                    else w4)
                          in (case CreateAdminQueues plat (d5, w5) of
                                (Inl f, d6, w6) \<Rightarrow> (Inl f, d6, w6)
                              | (Inr nRet, d6, w6) \<Rightarrow>
                                  if nRet \<noteq> NVME_STATUS_OK
                                  then (Inr False, d6, emit (LogMsg ''Cannot create admin queues'') w6)
                                  else
                                    (let nCC = Initialize_enable_CC (reg_CC_at_enable env);
                                         w7 = emit (MmioWrite32 NVME_REG_CC nCC) w6
                                     in (case WaitReady plat (wait_enable env) True (d6, w7) of
                                           (Inl f, d8, w8) \<Rightarrow> (Inl f, d8, w8)
                                         | (Inr ready', d8, w8) \<Rightarrow>
                                             if \<not> ready'
                                             then (Inr False, d8,
                                                   emit (LogMsg ''Cannot enable controller'') w8)
                                             else
                                               (case CreateIoQueue plat (env_create_cq env)
                                                       (env_create_sq env) IOQID
                                                       NVME_IO_QUEUE_ENTRIES (d8, w8) of
                                                  (Inl f, d9, w9) \<Rightarrow> (Inl f, d9, w9)
                                                | (Inr nRet', d9, w9) \<Rightarrow>
                                                    if nRet' \<noteq> NVME_STATUS_OK
                                                    then (Inr False, d9,
                                                          emit (LogMsg ''Cannot create I/O queue'') w9)
                                                    else Initialize_identify plat env (d9, w9))))))))))"

text \<open>The whole of \<^verbatim>\<open>Initialize\<close>: the partition manager and the device name come last.\<close>

definition Initialize ::
  "platform \<Rightarrow> init_env \<Rightarrow> CNVMeDevice \<times> world \<Rightarrow> (fault + bool) \<times> CNVMeDevice \<times> world" where
  "Initialize plat env dw =
     (case Initialize_controller plat env dw of
        (Inl f, d1, w1) \<Rightarrow> (Inl f, d1, w1)
      | (Inr ok, d1, w1) \<Rightarrow>
          if \<not> ok then (Inr False, d1, w1)
          else if m_pPartitionManager d1 then (Inl AssertFailed, d1, w1)
          else
            (case partition_manager_Initialize env (d1\<lparr>m_pPartitionManager := True\<rparr>, w1) of
               (ok', d2, w2) \<Rightarrow>
                 if \<not> ok' then (Inr False, d2, w2)
                 else (Inr True, d2, emit (AddDevice ''nvme1'') w2)))"

text \<open>The constructor, on the two ends of the coherent region given to the allocator.\<close>

definition CNVMeSharedMemAllocator_ctor :: "u64 \<Rightarrow> u64 \<Rightarrow> fault + CNVMeSharedMemAllocator" where
  "CNVMeSharedMemAllocator_ctor nMemStart nMemEnd =
     (if nMemStart \<noteq> 0 \<and> nMemEnd > nMemStart
      then Inr \<lparr>m_nMemStart = nMemStart, m_nMemEnd = nMemEnd, m_pFreeList = 0\<rparr>
      else Inl AssertFailed)"

definition TQueue_zero :: TQueue where
  "TQueue_zero = \<lparr>pName = [], usID = 0, nEntries = 0, pSqVirt = 0, pCqVirt = 0, nSqPhys = 0,
     nCqPhys = 0, nSqTail = 0, nCqHead = 0, bCqPhase = False\<rparr>"

text \<open>Members without an initialiser are indeterminate after the constructor; they are
  parameters here.\<close>

definition CNVMeDevice_ctor ::
  "CNVMeSharedMemAllocator \<Rightarrow> u32 \<Rightarrow> u64 \<Rightarrow> u32 \<Rightarrow> u32 \<Rightarrow> u64 \<Rightarrow> CNVMeDevice" where
  "CNVMeDevice_ctor a nVersion ulCaps nDoorbellStride nTimeoutHZ ulNamespaceSize =
     \<lparr>m_Allocator = a, m_bIRQConnected = False, m_nVersion = nVersion, m_ulCaps = ulCaps,
      m_nDoorbellStride = nDoorbellStride, m_nTimeoutHZ = nTimeoutHZ,
      m_AdminQueue = TQueue_zero\<lparr>pName := ''Admin'', usID := AQID,
                                  nEntries := NVME_ADMIN_QUEUE_ENTRIES\<rparr>,
      m_IoQueue = TQueue_zero\<lparr>pName := ''I/O'', usID := IOQID, nEntries := NVME_IO_QUEUE_ENTRIES\<rparr>,
      m_ulNamespaceSize = ulNamespaceSize, m_ulOffset = 0, m_pPartitionManager = False\<rparr>"

section \<open>A concrete machine\<close>

text \<open>
  A platform with 64-byte cache lines, a timer of 100 ticks per second and no bus offset; an
  empty memory; the device as the constructor leaves it on a 2 MiB coherent region at
  \<open>0x10000000\<close>; and the device as a successful \<^verbatim>\<open>Initialize\<close> leaves it there (four
  admin commands done, the Identify buffer back on the free-list).
\<close>

definition plat0 :: platform where
  "plat0 = \<lparr>dma_address = 0, IS_CACHE_ALIGNED = (\<lambda>p n. p AND 63 = 0 \<and> n AND 63 = 0), HZ = 100,
     MSEC2HZ = (\<lambda>ms. ms * 100 div 1000), DEVICE_IOCTL_SYNC = 1, NO_BUSY_WAIT = False,
     NVME_READ_ONLY = False\<rparr>"

definition zero_header :: TNVMeBlockHeader where
  "zero_header = \<lparr>nMagic = 0, nSize = 0, nAlign = 0, nBoundary = 0, pNext = 0\<rparr>"

definition page_header :: TNVMeBlockHeader where
  "page_header = \<lparr>nMagic = NVME_BLOCK_MAGIC, nSize = 4096, nAlign = 4096, nBoundary = 0x100000,
     pNext = 0\<rparr>"

definition world0 :: world where
  "world0 = \<lparr>hdr_mem = (\<lambda>_. zero_header), prp_mem = (\<lambda>_. 0), cmd_mem = (\<lambda>_. zero_command),
     events = []\<rparr>"

definition dev_new :: CNVMeDevice where
  "dev_new = CNVMeDevice_ctor \<lparr>m_nMemStart = 0x10000000, m_nMemEnd = 0x10200000, m_pFreeList = 0\<rparr>
     0 0 0 0 0"

definition dev_up :: CNVMeDevice where
  "dev_up = \<lparr>m_Allocator = \<lparr>m_nMemStart = 0x1000A000, m_nMemEnd = 0x10200000,
                             m_pFreeList = 0x10008FE8\<rparr>,
     m_bIRQConnected = False, m_nVersion = 0x10400, m_ulCaps = 0,
     m_nDoorbellStride = 4, m_nTimeoutHZ = 500,
     m_AdminQueue = \<lparr>pName = ''Admin'', usID = 0, nEntries = 64, pSqVirt = 0x10001000,
        pCqVirt = 0x10003000, nSqPhys = 0x10001000, nCqPhys = 0x10003000,
        nSqTail = 4, nCqHead = 4, bCqPhase = True\<rparr>,
     m_IoQueue = \<lparr>pName = ''I/O'', usID = 1, nEntries = 64, pSqVirt = 0x10005000,
        pCqVirt = 0x10007000, nSqPhys = 0x10005000, nCqPhys = 0x10007000,
        nSqTail = 0, nCqHead = 0, bCqPhase = True\<rparr>,
     m_ulNamespaceSize = 0x200000, m_ulOffset = 0, m_pPartitionManager = True\<rparr>"

definition world_up :: world where
  "world_up = world0\<lparr>hdr_mem := (\<lambda>p. if p = 0x10008FE8 then page_header else zero_header)\<rparr>"

text \<open>A completion entry, and what a command sees when the controller answers at once, or
  leaves a stale entry in the slot for one turn of the loop first.\<close>

definition completion :: "u16 \<Rightarrow> u16 \<Rightarrow> u16 \<Rightarrow> TNVMeCompletion" where
  "completion q c st = \<lparr>dw0 = 0, dw1 = 0, sqhead = 0, sqid = q, ce_cid = c, status = st\<rparr>"

definition answered :: "u16 \<Rightarrow> u16 \<Rightarrow> u16 \<Rightarrow> cmd_env" where
  "answered q c st = \<lparr>nStart = 0, event_timed_out = False, polls = [(completion q c st, 0)]\<rparr>"

definition answered_late :: "u16 \<Rightarrow> u16 \<Rightarrow> u16 \<Rightarrow> cmd_env" where
  "answered_late q c st = \<lparr>nStart = 0, event_timed_out = False,
     polls = [(completion 0 0 0, 1), (completion q c st, 2)]\<rparr>"

text \<open>What a \<^verbatim>\<open>Read\<close> or \<^verbatim>\<open>Write\<close> sees when its buffer needs no bounce buffer and the
  controller answers command \<open>c\<close> on queue 1 with status word \<open>st\<close>; and the device after
  \<^verbatim>\<open>Seek\<close> to a byte offset.\<close>

definition rw_answered :: "u16 \<Rightarrow> u16 \<Rightarrow> rw_env" where
  "rw_answered c st = \<lparr>new_result = 0, cmd = answered 1 c st\<rparr>"

definition dev_at :: "u64 \<Rightarrow> CNVMeDevice" where
  "dev_at ulOffset = snd (Seek ulOffset dev_up)"

section \<open>Notions used in the statements\<close>

text \<open>An outcome with the namespace size of its device replaced.\<close>

definition with_namespace_size ::
  "u64 \<Rightarrow> 'a \<times> CNVMeDevice \<times> world \<Rightarrow> 'a \<times> CNVMeDevice \<times> world" where
  "with_namespace_size n x = (fst x, (fst (snd x))\<lparr>m_ulNamespaceSize := n\<rparr>, snd (snd x))"

text \<open>The slot of the I/O submission queue that the next command goes to
  (\<^verbatim>\<open>&pSq[pQueue->nSqTail]\<close>), and the doorbell write that follows it.\<close>

definition io_slot :: "CNVMeDevice \<Rightarrow> u64" where
  "io_slot d = pSqVirt (m_IoQueue d) + sizeof_TNVMeCommand * ucast (nSqTail (m_IoQueue d))"


text \<open>The outcomes of a \<^verbatim>\<open>Read\<close> or \<^verbatim>\<open>Write\<close> that ends before its command is in the
  queue for a reason of the driver's own: no memory, a failed assertion, a queue of no
  entries, a read-only build.\<close>

definition ends_locally :: "fault + int \<Rightarrow> bool" where
  "ends_locally r \<longleftrightarrow>
     r = Inr NVME_STATUS_ERROR_NO_RESOURCE \<or> r = Inr NVME_STATUS_ERROR_READ_ONLY
     \<or> r = Inl AssertFailed \<or> r = Inl DivisionByZero"

text \<open>A run of commands, each on the admin queue or the I/O queue, in the order in which
  \<^verbatim>\<open>SubmitCommand\<close> is called for them; a failed assertion or a division by zero ends the
  run. The results of a command that has consumed its completion entry are OK, LBA_RANGE and
  CONTROLLER (the others are the timeout and the faults); \<open>consumed_on p\<close> counts the
  commands of a run on queue \<open>p\<close> that have.\<close>

record submission =
  s_queue :: queue_ptr
  s_env :: cmd_env
  s_opc :: u8
  s_nsid :: u32
  s_cdw10 :: u32
  s_cdw11 :: u32
  s_cdw12 :: u32
  s_prp1 :: u64
  s_prp2 :: u64

fun SubmitCommands ::
  "platform \<Rightarrow> submission list \<Rightarrow> CNVMeDevice \<times> world
     \<Rightarrow> (fault + int) list \<times> CNVMeDevice \<times> world" where
  "SubmitCommands plat [] dw = ([], dw)"
| "SubmitCommands plat (sub # subs) dw =
     (case SubmitCommand plat (s_env sub) (s_queue sub) (s_opc sub) (s_nsid sub) (s_cdw10 sub)
             (s_cdw11 sub) (s_cdw12 sub) (s_prp1 sub) (s_prp2 sub) dw of
        (Inl f, dwa) \<Rightarrow> ([Inl f], dwa)
      | (Inr ret, dwa) \<Rightarrow>
          (case SubmitCommands plat subs dwa of (res, dwb) \<Rightarrow> (Inr ret # res, dwb)))"

definition completion_consumed :: "fault + int \<Rightarrow> bool" where
  "completion_consumed r \<longleftrightarrow>
     r = Inr NVME_STATUS_OK \<or> r = Inr NVME_STATUS_ERROR_LBA_RANGE
     \<or> r = Inr NVME_STATUS_ERROR_CONTROLLER"

fun consumed_on :: "queue_ptr \<Rightarrow> submission list \<Rightarrow> (fault + int) list \<Rightarrow> nat" where
  "consumed_on p (sub # subs) (ret # res) =
     (if s_queue sub = p \<and> completion_consumed ret then 1 else 0) + consumed_on p subs res"
| "consumed_on p subs res = 0"

text \<open>What \<open>k\<close> commands in a row see of a controller that answers each of them at once and
  without error on a queue of 64 entries whose expected phase is 1: the entry carries the
  identifier that the driver gives the command, its tail, starting at \<open>usCid\<close>. Then a Flush
  and an Identify to make such runs of, the two runs of 64 commands on the queues of the
  concrete machine, and its first Flush.\<close>

primrec answered_run :: "submission \<Rightarrow> u16 \<Rightarrow> nat \<Rightarrow> u16 \<Rightarrow> submission list" where
  "answered_run sub sq 0 usCid = []"
| "answered_run sub sq (Suc k) usCid =
     sub\<lparr>s_env := answered sq usCid 1\<rparr>
       # answered_run sub sq k (ucast (((ucast usCid :: u32) + 1) mod 64))"

definition flush_command :: submission where
  "flush_command = \<lparr>s_queue = IoQueue, s_env = answered 1 0 1, s_opc = NVME_IO_OPC_FLUSH,
     s_nsid = NSID, s_cdw10 = 0, s_cdw11 = 0, s_cdw12 = 0, s_prp1 = 0, s_prp2 = 0\<rparr>"

definition identify_command :: submission where
  "identify_command = \<lparr>s_queue = AdminQueue, s_env = answered 0 0 1,
     s_opc = NVME_ADMIN_OPC_IDENTIFY, s_nsid = NSID, s_cdw10 = 0, s_cdw11 = 0, s_cdw12 = 0,
     s_prp1 = 0x10009000, s_prp2 = 0\<rparr>"

definition admin_run64 :: "(fault + int) list \<times> CNVMeDevice \<times> world" where
  "admin_run64 = SubmitCommands plat0 (answered_run identify_command 0 64 0)
                   (snd (CreateAdminQueues plat0 (dev_new, world0)))"

definition io_run64 :: "(fault + int) list \<times> CNVMeDevice \<times> world" where
  "io_run64 = SubmitCommands plat0 (answered_run flush_command 1 64 0)
                (snd (CreateIoQueue plat0 (answered 0 4 1) (answered 0 5 1) IOQID
                        NVME_IO_QUEUE_ENTRIES (dev_up, world_up)))"

definition first_flush :: "(fault + int) \<times> CNVMeDevice \<times> world" where
  "first_flush = SubmitCommand plat0 (answered 1 0 1) IoQueue NVME_IO_OPC_FLUSH NSID 0 0 0 0 0
                   (dev_up, world_up)"

text \<open>The specification of the blocks that the free-list keeps, as a header records it and
  as a request fits it (the first test of \<^verbatim>\<open>Allocate\<close>).\<close>

definition page_spec :: "TNVMeBlockHeader \<Rightarrow> bool" where
  "page_spec h \<longleftrightarrow> nSize h = 4096 \<and> nAlign h = 4096 \<and> nBoundary h = 0x100000"

definition fits_page_spec :: "u64 \<Rightarrow> u64 \<Rightarrow> u64 \<Rightarrow> bool" where
  "fits_page_spec nSize' nAlign' nBoundary' \<longleftrightarrow>
     nSize' \<le> 4096 \<and> nAlign' \<le> 4096 \<and> nBoundary' \<le> 0x100000"

text \<open>One cycle of a client that allocates a block and frees it again (a null result is
  not freed), and \<open>k\<close> such cycles.\<close>

definition allocate_free ::
  "u64 \<Rightarrow> u64 \<Rightarrow> u64 \<Rightarrow> CNVMeSharedMemAllocator \<times> world
     \<Rightarrow> (fault + unit) \<times> CNVMeSharedMemAllocator \<times> world" where
  "allocate_free nSize' nAlign' nBoundary' aw =
     (case Allocate nSize' nAlign' nBoundary' aw of
        (Inl f, aw1) \<Rightarrow> (Inl f, aw1)
      | (Inr p, aw1) \<Rightarrow> if p = 0 then (Inr (), aw1) else Free p aw1)"

primrec allocate_free_cycles ::
  "nat \<Rightarrow> u64 \<Rightarrow> u64 \<Rightarrow> u64 \<Rightarrow> CNVMeSharedMemAllocator \<times> world
     \<Rightarrow> (fault + unit) \<times> CNVMeSharedMemAllocator \<times> world" where
  "allocate_free_cycles 0 nSize' nAlign' nBoundary' aw = (Inr (), aw)"
| "allocate_free_cycles (Suc k) nSize' nAlign' nBoundary' aw =
     (case allocate_free_cycles k nSize' nAlign' nBoundary' aw of
        (Inl f, aw1) \<Rightarrow> (Inl f, aw1)
      | (Inr u, aw1) \<Rightarrow> allocate_free nSize' nAlign' nBoundary' aw1)"

text \<open>The assertions of \<^verbatim>\<open>Allocate\<close> on its arguments. A free-list is ready when its first
  header is one that \<^verbatim>\<open>Allocate\<close> accepts: the magic number, the specification of a page
  block, and data behind it that are aligned and not at address 0.\<close>

definition request_ok :: "u64 \<Rightarrow> u64 \<Rightarrow> u64 \<Rightarrow> bool" where
  "request_ok nSize' nAlign' nBoundary' \<longleftrightarrow>
     nSize' > 0 \<and> nAlign' \<noteq> 0 \<and> nAlign' \<le> nBoundary'"

definition free_list_ready :: "CNVMeSharedMemAllocator \<times> world \<Rightarrow> bool" where
  "free_list_ready aw \<longleftrightarrow>
     (let pBlockHeader = m_pFreeList (fst aw); h = hdr_mem (snd aw) pBlockHeader in
      pBlockHeader \<noteq> 0 \<and> pBlockHeader + sizeof_TNVMeBlockHeader \<noteq> 0
      \<and> (pBlockHeader + sizeof_TNVMeBlockHeader) AND (NVME_BLOCK_ALIGN - 1) = 0
      \<and> nMagic h = NVME_BLOCK_MAGIC \<and> page_spec h)"

text \<open>An arena of 2 MiB at \<open>0x10000000\<close>, new, and after a page block and a block of two
  pages have been allocated from it.\<close>

definition arena0 :: "CNVMeSharedMemAllocator \<times> world" where
  "arena0 = (\<lparr>m_nMemStart = 0x10000000, m_nMemEnd = 0x10200000, m_pFreeList = 0\<rparr>, world0)"

definition arena_two_blocks :: "CNVMeSharedMemAllocator \<times> world" where
  "arena_two_blocks =
     snd (Allocate 8192 4096 0x100000 (snd (Allocate 4096 4096 0x100000 arena0)))"

section \<open>Status decoding and the phase bit\<close>

lemmas NVME_STATUS_defs =
  NVME_STATUS_OK_def NVME_STATUS_ERROR_BAD_PARAM_def NVME_STATUS_ERROR_NO_RESOURCE_def
  NVME_STATUS_ERROR_CONTROLLER_def NVME_STATUS_ERROR_TIMEOUT_def
  NVME_STATUS_ERROR_READ_ONLY_def NVME_STATUS_ERROR_LBA_RANGE_def

lemma deref_assign [simp]: "deref p (assign p q d) = q"
  by (cases p) simp_all

text \<open>Turns of the poll loop that neither match nor time out change nothing but the log.\<close>

lemma PollForCompletion_loop_skip:
  assumes "\<forall>obs \<in> set pre. \<not> completion_matches (deref pQueue d) usCid (fst obs)
             \<and> \<not> (snd obs - nStart' > nTimeoutHZ)"
  shows "\<exists>w'. PollForCompletion_loop plat pQueue usCid nTimeoutHZ nStart' (pre @ obs) (d, w)
           = PollForCompletion_loop plat pQueue usCid nTimeoutHZ nStart' obs (d, w')"
  using assms
proof (induction pre arbitrary: w)
  case Nil
  then show ?case by auto
next
  case (Cons a pre)
  then show ?case by (simp add: Let_def)
qed

lemma PollForCompletion_loop_match:
  assumes "completion_matches (deref pQueue d) usCid ce" "nEntries (deref pQueue d) \<noteq> 0"
  shows "fst (PollForCompletion_loop plat pQueue usCid nTimeoutHZ nStart' ((ce, now) # rest) (d, w))
     = Inr (if status_SCT (status ce) = 0 \<and> status_SC (status ce) = 0 then NVME_STATUS_OK
            else if status_SCT (status ce) = 0 \<and> status_SC (status ce) = 0x80
                 then NVME_STATUS_ERROR_LBA_RANGE else NVME_STATUS_ERROR_CONTROLLER)"
  using assms by (simp add: Let_def)

text \<open>The two fields that the loop takes from the status word, read as bits: the three bits
  from bit 9 and the eight bits from bit 1.\<close>

lemma status_field_bits:
  "drop_bit k ((ucast (s :: u16) :: u32) AND push_bit k (mask n)) = ucast (take_bit n (drop_bit k s))"
  by (rule bit_word_eqI) (auto simp add: bit_simps dest: bit_imp_le_length)

lemma status_SCT_bits: "status_SCT s = ucast (take_bit 3 (drop_bit 9 s))"
proof -
  have m: "(7 :: u32) = mask 3" by (simp add: mask_eq_exp_minus_1)
  show ?thesis
    unfolding status_SCT_def CQE_STATUS_SCT__MASK_def CQE_STATUS_SCT__SHIFT_def m
    by (rule status_field_bits)
qed

lemma status_SC_bits: "status_SC s = ucast (take_bit 8 (drop_bit 1 s))"
proof -
  have m: "(0xFF :: u32) = mask 8" by (simp add: mask_eq_exp_minus_1)
  show ?thesis
    unfolding status_SC_def CQE_STATUS_SC__MASK_def CQE_STATUS_SC__SHIFT_def m
    by (rule status_field_bits)
qed

lemma ucast_u16_u32_back: "(ucast (ucast (x :: u16) :: u32) :: u16) = x"
  by (rule bit_word_eqI) (auto simp add: bit_simps)

lemma ucast_u16_u32_eq: "(ucast (x :: u16) :: u32) = ucast y \<longleftrightarrow> x = y"
  by (metis ucast_u16_u32_back)

lemma status_SCT_0: "status_SCT s = 0 \<longleftrightarrow> take_bit 3 (drop_bit 9 s) = 0"
  using ucast_u16_u32_eq [of "take_bit 3 (drop_bit 9 s)" 0] by (simp add: status_SCT_bits)

lemma status_SC_0: "status_SC s = 0 \<longleftrightarrow> take_bit 8 (drop_bit 1 s) = 0"
  using ucast_u16_u32_eq [of "take_bit 8 (drop_bit 1 s)" 0] by (simp add: status_SC_bits)

lemma status_SC_0x80: "status_SC s = 0x80 \<longleftrightarrow> take_bit 8 (drop_bit 1 s) = 0x80"
  using ucast_u16_u32_eq [of "take_bit 8 (drop_bit 1 s)" "0x80"] by (simp add: status_SC_bits)

text \<open>
  Claim C6. When \<^verbatim>\<open>PollForCompletion\<close> finds the completion entry of its command (after any
  number of turns that neither match nor time out), it returns a result \<open>r\<close>, and \<open>r\<close> is
  \<open>0\<close> (OK) exactly when SCT = 0 and SC = 0, \<open>-6\<close> (LBA_RANGE) exactly when SCT = 0 and
  SC = 0x80, and \<open>-3\<close> (CONTROLLER) for every other combination. SCT is read off the status
  word of the entry as its bits 9 to 11, SC as its bits 1 to 8.
\<close>

theorem PollForCompletion_result:
  assumes "usCid < nEntries (deref pQueue d)"
      and "\<not> (NO_BUSY_WAIT plat \<and> event_timed_out env)"
      and "polls env = pre @ (ce, now) # rest"
      and "\<forall>obs \<in> set pre. \<not> completion_matches (deref pQueue d) usCid (fst obs)
             \<and> \<not> (snd obs - nStart env > nTimeoutHZ)"
      and "completion_matches (deref pQueue d) usCid ce"
  shows "\<exists>r. fst (PollForCompletion plat env pQueue usCid nTimeoutHZ (d, w)) = Inr r
       \<and> (r = 0 \<longleftrightarrow> take_bit 3 (drop_bit 9 (status ce)) = 0
                     \<and> take_bit 8 (drop_bit 1 (status ce)) = 0)
       \<and> (r = - 6 \<longleftrightarrow> take_bit 3 (drop_bit 9 (status ce)) = 0
                       \<and> take_bit 8 (drop_bit 1 (status ce)) = 0x80)
       \<and> (r = - 3 \<longleftrightarrow> \<not> (take_bit 3 (drop_bit 9 (status ce)) = 0
                            \<and> take_bit 8 (drop_bit 1 (status ce)) = 0)
                       \<and> \<not> (take_bit 3 (drop_bit 9 (status ce)) = 0
                            \<and> take_bit 8 (drop_bit 1 (status ce)) = 0x80))
       \<and> r \<in> {NVME_STATUS_OK, NVME_STATUS_ERROR_LBA_RANGE, NVME_STATUS_ERROR_CONTROLLER}"
proof -
  have ne: "nEntries (deref pQueue d) \<noteq> 0" using assms(1) by auto
  obtain w' where
    "PollForCompletion_loop plat pQueue usCid nTimeoutHZ (nStart env) (pre @ (ce, now) # rest) (d, w)
       = PollForCompletion_loop plat pQueue usCid nTimeoutHZ (nStart env) ((ce, now) # rest) (d, w')"
    using PollForCompletion_loop_skip [OF assms(4)] by blast
  moreover have "PollForCompletion plat env pQueue usCid nTimeoutHZ (d, w)
      = PollForCompletion_loop plat pQueue usCid nTimeoutHZ (nStart env) (polls env) (d, w)"
    using assms(1,2) by (auto simp: PollForCompletion_def Let_def)
  ultimately have "fst (PollForCompletion plat env pQueue usCid nTimeoutHZ (d, w))
     = Inr (if status_SCT (status ce) = 0 \<and> status_SC (status ce) = 0 then NVME_STATUS_OK
            else if status_SCT (status ce) = 0 \<and> status_SC (status ce) = 0x80
                 then NVME_STATUS_ERROR_LBA_RANGE else NVME_STATUS_ERROR_CONTROLLER)"
    using PollForCompletion_loop_match [OF assms(5) ne, of plat nTimeoutHZ "nStart env" now rest w']
      assms(3)
    by (simp del: PollForCompletion_loop.simps)
  then show ?thesis
    unfolding status_SCT_0 [symmetric] status_SC_0 [symmetric] status_SC_0x80 [symmetric]
    by (auto simp: NVME_STATUS_defs)
qed

lemmas machine_defs = plat0_def world0_def world_up_def dev_up_def dev_new_def completion_def
  answered_def answered_late_def zero_header_def page_header_def rw_answered_def dev_at_def Seek_def

theorem PollForCompletion_result_witness:
  "(0 :: u16) < nEntries (deref IoQueue dev_up)
   \<and> \<not> (NO_BUSY_WAIT plat0 \<and> event_timed_out (answered_late 1 0 0x101))
   \<and> polls (answered_late 1 0 0x101) = [(completion 0 0 0, 1)] @ (completion 1 0 0x101, 2) # []
   \<and> \<not> completion_matches (deref IoQueue dev_up) 0 (completion 0 0 0)
   \<and> \<not> ((1 :: u32) - nStart (answered_late 1 0 0x101) > 500)
   \<and> completion_matches (deref IoQueue dev_up) 0 (completion 1 0 0x101)
   \<and> take_bit 3 (drop_bit 9 (0x101 :: u16)) = 0
   \<and> take_bit 8 (drop_bit 1 (0x101 :: u16)) = 0x80
   \<and> fst (PollForCompletion plat0 (answered_late 1 0 0x101) IoQueue 0 500 (dev_up, world_up))
       = Inr (- 6)"
proof -
  have h1: "(0 :: u16) < nEntries (deref IoQueue dev_up)" by (simp add: machine_defs)
  have h2: "\<not> (NO_BUSY_WAIT plat0 \<and> event_timed_out (answered_late 1 0 0x101))"
    by (simp add: machine_defs)
  have h3: "polls (answered_late 1 0 0x101) = [(completion 0 0 0, 1)] @ (completion 1 0 0x101, 2) # []"
    by (simp add: machine_defs)
  have h4: "\<forall>obs \<in> set [(completion 0 0 0, 1 :: u32)].
         \<not> completion_matches (deref IoQueue dev_up) 0 (fst obs)
         \<and> \<not> (snd obs - nStart (answered_late 1 0 0x101) > 500)"
    by (simp add: machine_defs completion_matches_def CQE_STATUS_PHASE_BIT_def)
  have h5: "completion_matches (deref IoQueue dev_up) 0 (completion 1 0 0x101)"
    by (simp add: machine_defs completion_matches_def CQE_STATUS_PHASE_BIT_def)
  have "status_SCT 0x101 = 0" "status_SC 0x101 = 0x80"
    by (simp_all add: status_SCT_def status_SC_def CQE_STATUS_SCT__MASK_def CQE_STATUS_SC__MASK_def
          CQE_STATUS_SCT__SHIFT_def CQE_STATUS_SC__SHIFT_def)
  then have s: "take_bit 3 (drop_bit 9 (0x101 :: u16)) = 0"
      "take_bit 8 (drop_bit 1 (0x101 :: u16)) = 0x80"
    by (simp_all only: status_SCT_0 status_SC_0x80)
  have st: "status (completion 1 0 0x101) = 0x101" by (simp add: completion_def)
  from PollForCompletion_result [OF h1 h2 h3 h4 h5, of world_up] s
  have "fst (PollForCompletion plat0 (answered_late 1 0 0x101) IoQueue 0 500 (dev_up, world_up))
       = Inr (- 6)"
    unfolding st by auto
  with h1 h2 h3 h4 h5 s show ?thesis by simp
qed


subsection \<open>Head and phase of a completion queue\<close>

lemma CreateAdminQueues_OK:
  assumes "fst (CreateAdminQueues plat dw) = Inr NVME_STATUS_OK"
  shows "bCqPhase (m_AdminQueue (fst (snd (CreateAdminQueues plat dw))))
       \<and> nCqHead (m_AdminQueue (fst (snd (CreateAdminQueues plat dw)))) = 0"
  using assms
  by (auto simp: CreateAdminQueues_def Let_def NVME_STATUS_defs split: prod.splits sum.splits if_splits)

lemma CreateIoQueue_OK:
  assumes "fst (CreateIoQueue plat e1 e2 qid n dw) = Inr NVME_STATUS_OK"
  shows "bCqPhase (m_IoQueue (fst (snd (CreateIoQueue plat e1 e2 qid n dw))))
       \<and> nCqHead (m_IoQueue (fst (snd (CreateIoQueue plat e1 e2 qid n dw)))) = 0"
  using assms
  by (auto simp: CreateIoQueue_def Let_def NVME_STATUS_defs split: prod.splits sum.splits if_splits)

lemma deref_assign_other: "deref p0 (assign p q d) = (if p0 = p then q else deref p0 d)"
  by (cases p0; cases p; simp)

lemma advance_head_unat_gen:
  assumes "nEntries q \<noteq> 0"
  shows "unat (nCqHead (advance_head q)) = (unat (nCqHead q) + 1) mod unat (nEntries q)"
proof -
  have lt: "unat (nCqHead q) < 65536" using unsigned_less [of "nCqHead q"] by simp
  have ln: "unat (nEntries q) < 65536" using unsigned_less [of "nEntries q"] by simp
  have n0: "0 < unat (nEntries q)" using assms by (simp add: unat_gt_0)
  have "unat (((ucast (nCqHead q) :: u32) + 1) mod ucast (nEntries q))
          = (unat (nCqHead q) + 1) mod unat (nEntries q)"
    using lt ln by (simp add: unat_mod unat_word_ariths unsigned_ucast_eq take_bit_nat_eq_self)
  moreover have "(unat (nCqHead q) + 1) mod unat (nEntries q) < 65536"
    using mod_less_divisor [OF n0, of "unat (nCqHead q) + 1"] ln by linarith
  ultimately have "unat (ucast (((ucast (nCqHead q) :: u32) + 1) mod ucast (nEntries q)) :: u16)
      = (unat (nCqHead q) + 1) mod unat (nEntries q)"
    by (simp add: unsigned_ucast_eq take_bit_nat_eq_self)
  moreover have "nCqHead (advance_head q)
      = ucast (((ucast (nCqHead q) :: u32) + 1) mod ucast (nEntries q))"
    by (simp add: advance_head_def Let_def)
  ultimately show ?thesis by simp
qed

lemma advance_head_phase_gen:
  "bCqPhase (advance_head q)
     = (if unat (nCqHead (advance_head q)) = 0 then \<not> bCqPhase q else bCqPhase q)"
  by (simp add: advance_head_def Let_def unat_eq_0)

lemma advance_head_tail [simp]:
  "nCqHead (advance_head (q\<lparr>nSqTail := t\<rparr>)) = nCqHead (advance_head q)"
  "bCqPhase (advance_head (q\<lparr>nSqTail := t\<rparr>)) = bCqPhase (advance_head q)"
  "nEntries (advance_head q) = nEntries q"
  "usID (advance_head q) = usID q"
  "nSqTail (advance_head q) = nSqTail q"
  by (simp_all add: advance_head_def Let_def)

text \<open>If a queue has consumed \<open>h\<close> completions since head 0 and phase 1, in the sense that
  its head is \<open>h mod n\<close> and its phase is 1 exactly when \<open>h div n\<close> is even, then one more
  makes that \<open>h + 1\<close>.\<close>

lemma advance_head_count:
  assumes "nEntries q \<noteq> 0"
      and "unat (nCqHead q) = h mod unat (nEntries q)"
      and "bCqPhase q = even (h div unat (nEntries q))"
  shows "unat (nCqHead (advance_head q)) = Suc h mod unat (nEntries q)"
    and "bCqPhase (advance_head q) = even (Suc h div unat (nEntries q))"
proof -
  show h: "unat (nCqHead (advance_head q)) = Suc h mod unat (nEntries q)"
    using advance_head_unat_gen [OF assms(1)] assms(2) by (simp add: mod_Suc_eq)
  show "bCqPhase (advance_head q) = even (Suc h div unat (nEntries q))"
    unfolding advance_head_phase_gen h using assms(3) by (simp add: div_Suc)
qed

lemma PollForCompletion_loop_queue:
  assumes "PollForCompletion_loop plat p usCid nTimeoutHZ nStart' obs (d, w) = (r, d', w')"
  shows "d' = (if completion_consumed r then assign p (advance_head (deref p d)) d else d)
       \<and> (completion_consumed r \<longrightarrow> nEntries (deref p d) \<noteq> 0)"
  using assms
proof (induction obs arbitrary: w)
  case Nil
  then show ?case by (auto simp: completion_consumed_def)
next
  case (Cons a obs)
  show ?case
  proof (cases "completion_matches (deref p d) usCid (fst a)")
    case True
    with Cons.prems show ?thesis
      by (auto simp: Let_def completion_consumed_def split: if_splits)
  next
    case False
    show ?thesis
    proof (cases "snd a - nStart' > nTimeoutHZ")
      case True
      with False Cons.prems show ?thesis
        by (auto simp: Let_def completion_consumed_def NVME_STATUS_defs)
    next
      case nt: False
      let ?w1 = "if NO_BUSY_WAIT plat then emit DataMemBarrier w
                 else emit (UsDelay 1) (emit DataMemBarrier w)"
      have "PollForCompletion_loop plat p usCid nTimeoutHZ nStart' obs (d, ?w1) = (r, d', w')"
        using Cons.prems False nt by (simp add: Let_def)
      from Cons.IH [OF this] show ?thesis .
    qed
  qed
qed

lemma PollForCompletion_queue:
  assumes "PollForCompletion plat env p usCid nTimeoutHZ (d, w) = (r, d', w')"
  shows "d' = (if completion_consumed r then assign p (advance_head (deref p d)) d else d)
       \<and> (completion_consumed r \<longrightarrow> nEntries (deref p d) \<noteq> 0)"
proof (cases "usCid < nEntries (deref p d) \<and> \<not> (NO_BUSY_WAIT plat \<and> event_timed_out env)")
  case True
  then have "PollForCompletion_loop plat p usCid nTimeoutHZ (nStart env) (polls env) (d, w)
               = (r, d', w')"
    using assms by (auto simp: PollForCompletion_def Let_def)
  then show ?thesis by (rule PollForCompletion_loop_queue)
next
  case False
  then show ?thesis
    using assms
    by (auto simp: PollForCompletion_def Let_def completion_consumed_def NVME_STATUS_defs
          split: if_splits)
qed

lemma SubmitCommand_queue:
  assumes "SubmitCommand plat env p opc' ns c10 c11 c12 p1 p2 (d, w) = (r, d', w')"
  shows "nEntries (deref p0 d') = nEntries (deref p0 d)"
    and "usID (deref p0 d') = usID (deref p0 d)"
    and "nCqHead (deref p0 d') = (if p0 = p \<and> completion_consumed r
            then nCqHead (advance_head (deref p d)) else nCqHead (deref p0 d))"
    and "bCqPhase (deref p0 d') = (if p0 = p \<and> completion_consumed r
            then bCqPhase (advance_head (deref p d)) else bCqPhase (deref p0 d))"
    and "completion_consumed r \<Longrightarrow> nEntries (deref p d) \<noteq> 0"
    and "nEntries (deref p d) \<noteq> 0 \<Longrightarrow> nSqTail (deref p d')
           = ucast (((ucast (nSqTail (deref p d)) :: u32) + 1) mod ucast (nEntries (deref p d)))"
proof -
  let ?q1 = "(deref p d)\<lparr>nSqTail := ucast (((ucast (nSqTail (deref p d)) :: u32) + 1)
                          mod ucast (nEntries (deref p d)))\<rparr>"
  have "d' = (if nEntries (deref p d) = 0 then d
              else if completion_consumed r then assign p (advance_head ?q1) d
              else assign p ?q1 d)
        \<and> (completion_consumed r \<longrightarrow> nEntries (deref p d) \<noteq> 0)"
  proof (cases "nEntries (deref p d) = 0")
    case True
    with assms show ?thesis
      by (auto simp: SubmitCommand_def Let_def completion_consumed_def)
  next
    case False
    then obtain w3 where
      "PollForCompletion plat env p (nSqTail (deref p d)) (POLL_TIMEOUT_HZ plat)
         (assign p ?q1 d, w3) = (r, d', w')"
      using assms by (simp add: SubmitCommand_def Let_def)
    from PollForCompletion_queue [OF this] False show ?thesis
      by (cases p) auto
  qed
  then have d': "d' = (if nEntries (deref p d) = 0 then d
              else if completion_consumed r then assign p (advance_head ?q1) d
              else assign p ?q1 d)"
    and ne: "completion_consumed r \<longrightarrow> nEntries (deref p d) \<noteq> 0"
    by simp_all
  show "nEntries (deref p0 d') = nEntries (deref p0 d)"
    unfolding d' by (simp add: deref_assign_other)
  show "usID (deref p0 d') = usID (deref p0 d)"
    unfolding d' by (simp add: deref_assign_other)
  show "nCqHead (deref p0 d') = (if p0 = p \<and> completion_consumed r
            then nCqHead (advance_head (deref p d)) else nCqHead (deref p0 d))"
    unfolding d' using ne by (simp add: deref_assign_other)
  show "bCqPhase (deref p0 d') = (if p0 = p \<and> completion_consumed r
            then bCqPhase (advance_head (deref p d)) else bCqPhase (deref p0 d))"
    unfolding d' using ne by (simp add: deref_assign_other)
  show "completion_consumed r \<Longrightarrow> nEntries (deref p d) \<noteq> 0"
    using ne by simp
  show "nEntries (deref p d) \<noteq> 0 \<Longrightarrow> nSqTail (deref p d')
           = ucast (((ucast (nSqTail (deref p d)) :: u32) + 1) mod ucast (nEntries (deref p d)))"
    unfolding d' by simp
qed


lemma consumed_on_Nil [simp]: "consumed_on p subs [] = 0"
  by (cases subs) simp_all

lemma SubmitCommands_phase:
  assumes "SubmitCommands plat subs (d, w) = (res, d', w')"
      and "unat (nCqHead (deref p d)) = h mod unat (nEntries (deref p d))"
      and "bCqPhase (deref p d) = even (h div unat (nEntries (deref p d)))"
  shows "nEntries (deref p d') = nEntries (deref p d)
       \<and> usID (deref p d') = usID (deref p d)
       \<and> unat (nCqHead (deref p d'))
           = (h + consumed_on p subs res) mod unat (nEntries (deref p d))
       \<and> bCqPhase (deref p d')
           = even ((h + consumed_on p subs res) div unat (nEntries (deref p d)))"
  using assms
proof (induction subs arbitrary: d w h res d' w')
  case Nil
  then show ?case by simp
next
  case (Cons sub subs)
  obtain r d1 w1 where s: "SubmitCommand plat (s_env sub) (s_queue sub) (s_opc sub) (s_nsid sub)
      (s_cdw10 sub) (s_cdw11 sub) (s_cdw12 sub) (s_prp1 sub) (s_prp2 sub) (d, w) = (r, d1, w1)"
    by (metis prod_cases3)
  define k :: nat where "k = (if s_queue sub = p \<and> completion_consumed r then 1 else 0)"
  have ne: "nEntries (deref p d1) = nEntries (deref p d)"
    and us: "usID (deref p d1) = usID (deref p d)"
    by (rule SubmitCommand_queue [OF s])+
  have hd: "unat (nCqHead (deref p d1)) = (h + k) mod unat (nEntries (deref p d))"
    and ph: "bCqPhase (deref p d1) = even ((h + k) div unat (nEntries (deref p d)))"
  proof -
    show "unat (nCqHead (deref p d1)) = (h + k) mod unat (nEntries (deref p d))"
    proof (cases "s_queue sub = p \<and> completion_consumed r")
      case True
      then have n0: "nEntries (deref p d) \<noteq> 0"
        using SubmitCommand_queue(5) [OF s] by auto
      show ?thesis
        using True SubmitCommand_queue(3) [OF s, of p]
          advance_head_count(1) [OF n0 Cons.prems(2,3)]
        by (simp add: k_def)
    next
      case False
      then show ?thesis
        using SubmitCommand_queue(3) [OF s, of p] Cons.prems(2) by (auto simp: k_def)
    qed
    show "bCqPhase (deref p d1) = even ((h + k) div unat (nEntries (deref p d)))"
    proof (cases "s_queue sub = p \<and> completion_consumed r")
      case True
      then have n0: "nEntries (deref p d) \<noteq> 0"
        using SubmitCommand_queue(5) [OF s] by auto
      show ?thesis
        using True SubmitCommand_queue(4) [OF s, of p]
          advance_head_count(2) [OF n0 Cons.prems(2,3)]
        by (simp add: k_def)
    next
      case False
      then show ?thesis
        using SubmitCommand_queue(4) [OF s, of p] Cons.prems(3) by (auto simp: k_def)
    qed
  qed
  show ?case
  proof (cases r)
    case (Inl f)
    then have "res = [Inl f]" "d' = d1"
      using Cons.prems(1) s by simp_all
    moreover have "k = 0"
      using Inl by (simp add: k_def completion_consumed_def)
    ultimately show ?thesis
      using ne us hd ph by (simp add: completion_consumed_def)
  next
    case (Inr ret)
    obtain res1 d2 w2 where run: "SubmitCommands plat subs (d1, w1) = (res1, d2, w2)"
      by (metis prod_cases3)
    have res: "res = Inr ret # res1" and d': "d' = d2"
      using Cons.prems(1) s Inr run by simp_all
    have c: "consumed_on p (sub # subs) res = k + consumed_on p subs res1"
      using Inr by (simp add: res k_def)
    from Cons.IH [OF run, of "h + k"] hd ph ne us
    show ?thesis
      unfolding c d' by (simp add: add.assoc)
  qed
qed

lemma CreateAdminQueues_nEntries:
  "nEntries (m_AdminQueue (fst (snd (CreateAdminQueues plat (d, w))))) = nEntries (m_AdminQueue d)"
  by (auto simp: CreateAdminQueues_def Let_def split: prod.splits sum.splits if_splits)

lemma AdminCommand_IoQueue:
  assumes "AdminCommand plat env opc' ns c10 c11 phys (d, w) = (r, d', w')"
  shows "m_IoQueue d' = m_IoQueue d"
proof (cases "phys = 0")
  case True
  with assms show ?thesis by (simp add: AdminCommand_def)
next
  case False
  then have s: "SubmitCommand plat env AdminQueue opc' ns c10 c11 0 phys 0 (d, w) = (r, d', w')"
    using assms by (simp add: AdminCommand_def)
  have "d' = d \<or> (\<exists>q. d' = assign AdminQueue q d)"
  proof (cases "nEntries (deref AdminQueue d) = 0")
    case True
    with s show ?thesis by (auto simp: SubmitCommand_def Let_def)
  next
    case False
    then obtain q1 w3 where
      "PollForCompletion plat env AdminQueue (nSqTail (deref AdminQueue d)) (POLL_TIMEOUT_HZ plat)
         (assign AdminQueue q1 d, w3) = (r, d', w')"
      using s by (simp add: SubmitCommand_def Let_def)
    from PollForCompletion_queue [OF this] show ?thesis
      by (auto split: if_splits)
  qed
  then show ?thesis by auto
qed

lemma CreateIoQueue_nEntries:
  "nEntries (m_IoQueue (fst (snd (CreateIoQueue plat e1 e2 qid n (d, w))))) = nEntries (m_IoQueue d)"
  by (auto simp: CreateIoQueue_def Let_def split: prod.splits sum.splits if_splits
        dest!: AdminCommand_IoQueue)


lemma CreateAdminQueues_tail:
  assumes "fst (CreateAdminQueues plat dw) = Inr NVME_STATUS_OK"
  shows "nSqTail (m_AdminQueue (fst (snd (CreateAdminQueues plat dw)))) = 0"
  using assms
  by (auto simp: CreateAdminQueues_def Let_def NVME_STATUS_defs split: prod.splits sum.splits if_splits)

lemma CreateAdminQueues_usID:
  "usID (m_AdminQueue (fst (snd (CreateAdminQueues plat (d, w))))) = usID (m_AdminQueue d)"
  by (auto simp: CreateAdminQueues_def Let_def split: prod.splits sum.splits if_splits)

lemma CreateIoQueue_tail:
  assumes "fst (CreateIoQueue plat e1 e2 qid n dw) = Inr NVME_STATUS_OK"
  shows "nSqTail (m_IoQueue (fst (snd (CreateIoQueue plat e1 e2 qid n dw)))) = 0"
  using assms
  by (auto simp: CreateIoQueue_def Let_def NVME_STATUS_defs split: prod.splits sum.splits if_splits)

lemma CreateIoQueue_usID:
  "usID (m_IoQueue (fst (snd (CreateIoQueue plat e1 e2 qid n (d, w))))) = usID (m_IoQueue d)"
  by (auto simp: CreateIoQueue_def Let_def split: prod.splits sum.splits if_splits
        dest!: AdminCommand_IoQueue)

text \<open>A command whose completion entry is there at the first look, with the expected phase
  and no error, returns OK.\<close>

lemma answered_OK:
  assumes "usID (deref p d) = sq" "nEntries (deref p d) = 64" "nSqTail (deref p d) = t" "t < 64"
      and "bCqPhase (deref p d)"
  shows "fst (SubmitCommand plat (answered sq t 1) p opc' ns c10 c11 c12 p1 p2 (d, w))
           = Inr NVME_STATUS_OK"
  using assms
  by (cases p)
     (simp_all add: SubmitCommand_def PollForCompletion_def answered_def completion_def
        completion_matches_def Let_def CQE_STATUS_PHASE_BIT_def status_SCT_def status_SC_def
        CQE_STATUS_SCT__MASK_def CQE_STATUS_SC__MASK_def CQE_STATUS_SCT__SHIFT_def
        CQE_STATUS_SC__SHIFT_def)

lemma next_tail_less: "(ucast (((ucast (t :: u16) :: u32) + 1) mod 64) :: u16) < 64"
proof -
  have "((ucast t :: u32) + 1) mod 64 < 64"
    by (rule word_mod_less_divisor) simp
  then have "unat (((ucast t :: u32) + 1) mod 64) < 64"
    by (simp add: word_less_nat_alt)
  then have "unat (ucast (((ucast t :: u32) + 1) mod 64) :: u16) < 64"
    by (simp add: unsigned_ucast_eq take_bit_nat_eq_self)
  then show ?thesis
    by (simp add: word_less_nat_alt)
qed

lemma answered_run_consumed:
  assumes "SubmitCommands plat (answered_run sub sq k t) (d, w) = (res, d', w')"
      and "h + k \<le> 64" and "s_queue sub = p"
      and "usID (deref p d) = sq" "nEntries (deref p d) = 64" "nSqTail (deref p d) = t" "t < 64"
      and "unat (nCqHead (deref p d)) = h" "bCqPhase (deref p d)"
  shows "consumed_on p (answered_run sub sq k t) res = k"
  using assms
proof (induction k arbitrary: d w h t res d' w')
  case 0
  then show ?case by simp
next
  case (Suc k)
  let ?sub = "sub\<lparr>s_env := answered sq t 1\<rparr>"
  let ?t = "ucast (((ucast t :: u32) + 1) mod 64) :: u16"
  obtain r d1 w1 where s: "SubmitCommand plat (answered sq t 1) p (s_opc sub) (s_nsid sub)
      (s_cdw10 sub) (s_cdw11 sub) (s_cdw12 sub) (s_prp1 sub) (s_prp2 sub) (d, w) = (r, d1, w1)"
    by (metis prod_cases3)
  have r: "r = Inr NVME_STATUS_OK"
    using answered_OK [OF Suc.prems(4,5,6,7,9), of plat "s_opc sub" "s_nsid sub" "s_cdw10 sub"
        "s_cdw11 sub" "s_cdw12 sub" "s_prp1 sub" "s_prp2 sub" w] s by simp
  have cons: "completion_consumed r"
    by (simp add: r completion_consumed_def)
  obtain res1 d2 w2 where run: "SubmitCommands plat (answered_run sub sq k ?t) (d1, w1) = (res1, d2, w2)"
    by (metis prod_cases3)
  have res: "res = Inr NVME_STATUS_OK # res1"
    using Suc.prems(1,3) s r run by simp
  have c: "consumed_on p (answered_run sub sq (Suc k) t) res
             = Suc (consumed_on p (answered_run sub sq k ?t) res1)"
    using Suc.prems(3) by (simp add: res completion_consumed_def)
  show ?case
  proof (cases k)
    case 0
    then show ?thesis unfolding c by simp
  next
    case (Suc k')
    then have h: "h + 1 < 64" using Suc.prems(2) by simp
    have n0: "nEntries (deref p d) \<noteq> 0" using Suc.prems(5) by simp
    have us: "usID (deref p d1) = sq" and ne: "nEntries (deref p d1) = 64"
      using SubmitCommand_queue(1,2) [OF s, of p] Suc.prems(4,5) by simp_all
    have tl: "nSqTail (deref p d1) = ?t"
      using SubmitCommand_queue(6) [OF s n0] Suc.prems(5,6) by simp
    have hd: "unat (nCqHead (deref p d1)) = h + 1"
      using SubmitCommand_queue(3) [OF s, of p] cons advance_head_unat_gen [OF n0]
        Suc.prems(5,8) h by simp
    have ph: "bCqPhase (deref p d1)"
      using SubmitCommand_queue(4) [OF s, of p] cons advance_head_phase_gen [of "deref p d"]
        advance_head_unat_gen [OF n0] Suc.prems(5,8,9) h by simp
    have "consumed_on p (answered_run sub sq k ?t) res1 = k"
      using Suc.IH [OF run _ Suc.prems(3) us ne tl next_tail_less hd ph] Suc.prems(2) by simp
    then show ?thesis unfolding c by simp
  qed
qed


text \<open>
  Claim C5. The constructor gives both queues 64 entries. A command moves the head of its
  completion queue by 1 modulo the number of entries when it consumes its completion entry
  (that is, when it returns OK, LBA_RANGE or CONTROLLER) and leaves it alone otherwise, and
  the expected phase flips exactly when a consumed completion brings the head to 0. After
  \<^verbatim>\<open>CreateAdminQueues\<close> or \<^verbatim>\<open>CreateIoQueue\<close> has succeeded the expected phase is 1 and the
  head is 0; and after any run of commands from there, on either queue, in which \<open>k\<close>
  completions of the queue have been consumed, its head is \<open>k mod n\<close> and its expected phase
  is 1 exactly when \<open>k div n\<close> is even, \<open>n\<close> being the entries of the queue: with the 64
  entries of the constructor, after exactly 64 consumed completions the head is 0 again and
  the phase has flipped once.
\<close>

theorem phase_discipline:
  "nEntries (m_AdminQueue (CNVMeDevice_ctor a v c s t n)) = 64
   \<and> nEntries (m_IoQueue (CNVMeDevice_ctor a v c s t n)) = 64
   \<and> (SubmitCommand plat env p opc' ns c10 c11 c12 p1 p2 (d0, w0) = (r, d1, w1) \<longrightarrow>
        nEntries (deref p d1) = nEntries (deref p d0)
        \<and> unat (nCqHead (deref p d1))
            = (if completion_consumed r
               then (unat (nCqHead (deref p d0)) + 1) mod unat (nEntries (deref p d0))
               else unat (nCqHead (deref p d0)))
        \<and> bCqPhase (deref p d1)
            = (if completion_consumed r \<and> nCqHead (deref p d1) = 0
               then \<not> bCqPhase (deref p d0) else bCqPhase (deref p d0)))
   \<and> (fst (CreateAdminQueues plat (dA, wA)) = Inr NVME_STATUS_OK \<longrightarrow>
        bCqPhase (m_AdminQueue (fst (snd (CreateAdminQueues plat (dA, wA)))))
        \<and> nCqHead (m_AdminQueue (fst (snd (CreateAdminQueues plat (dA, wA))))) = 0
        \<and> (SubmitCommands plat subsA (snd (CreateAdminQueues plat (dA, wA))) = (resA, dA', wA') \<longrightarrow>
             nEntries (m_AdminQueue dA') = nEntries (m_AdminQueue dA)
             \<and> unat (nCqHead (m_AdminQueue dA'))
                 = consumed_on AdminQueue subsA resA mod unat (nEntries (m_AdminQueue dA))
             \<and> bCqPhase (m_AdminQueue dA')
                 = even (consumed_on AdminQueue subsA resA div unat (nEntries (m_AdminQueue dA)))
             \<and> (nEntries (m_AdminQueue dA) = NVME_ADMIN_QUEUE_ENTRIES
                  \<and> consumed_on AdminQueue subsA resA = 64 \<longrightarrow>
                nCqHead (m_AdminQueue dA') = 0 \<and> \<not> bCqPhase (m_AdminQueue dA'))))
   \<and> (fst (CreateIoQueue plat e1 e2 qid n' (d, w)) = Inr NVME_STATUS_OK \<longrightarrow>
        bCqPhase (m_IoQueue (fst (snd (CreateIoQueue plat e1 e2 qid n' (d, w)))))
        \<and> nCqHead (m_IoQueue (fst (snd (CreateIoQueue plat e1 e2 qid n' (d, w))))) = 0
        \<and> (SubmitCommands plat subs (snd (CreateIoQueue plat e1 e2 qid n' (d, w))) = (res, d', w') \<longrightarrow>
             nEntries (m_IoQueue d') = nEntries (m_IoQueue d)
             \<and> unat (nCqHead (m_IoQueue d'))
                 = consumed_on IoQueue subs res mod unat (nEntries (m_IoQueue d))
             \<and> bCqPhase (m_IoQueue d')
                 = even (consumed_on IoQueue subs res div unat (nEntries (m_IoQueue d)))
             \<and> (nEntries (m_IoQueue d) = NVME_IO_QUEUE_ENTRIES
                  \<and> consumed_on IoQueue subs res = 64 \<longrightarrow>
                nCqHead (m_IoQueue d') = 0 \<and> \<not> bCqPhase (m_IoQueue d'))))"
proof -
  have ctor: "nEntries (m_AdminQueue (CNVMeDevice_ctor a v c s t n)) = 64"
    "nEntries (m_IoQueue (CNVMeDevice_ctor a v c s t n)) = 64"
    by (simp_all add: CNVMeDevice_ctor_def NVME_ADMIN_QUEUE_ENTRIES_def NVME_IO_QUEUE_ENTRIES_def)
  have step: "nEntries (deref p d1) = nEntries (deref p d0)
        \<and> unat (nCqHead (deref p d1))
            = (if completion_consumed r
               then (unat (nCqHead (deref p d0)) + 1) mod unat (nEntries (deref p d0))
               else unat (nCqHead (deref p d0)))
        \<and> bCqPhase (deref p d1)
            = (if completion_consumed r \<and> nCqHead (deref p d1) = 0
               then \<not> bCqPhase (deref p d0) else bCqPhase (deref p d0))"
    if s: "SubmitCommand plat env p opc' ns c10 c11 c12 p1 p2 (d0, w0) = (r, d1, w1)"
  proof (cases "completion_consumed r")
    case True
    then have n0: "nEntries (deref p d0) \<noteq> 0"
      by (rule SubmitCommand_queue(5) [OF s])
    have z: "(nCqHead (advance_head (deref p d0)) = 0)
               = (unat (nCqHead (advance_head (deref p d0))) = 0)"
      by (simp add: unat_eq_0)
    show ?thesis
      using True SubmitCommand_queue(1,3,4) [OF s, of p] advance_head_unat_gen [OF n0]
        advance_head_phase_gen [of "deref p d0"]
      by (simp add: z)
  next
    case False
    then show ?thesis
      using SubmitCommand_queue(1,3,4) [OF s, of p] by simp
  qed
  have run: "nEntries (deref q dr') = nEntries (deref q dr)
       \<and> unat (nCqHead (deref q dr')) = consumed_on q sr rr mod unat (nEntries (deref q dr))
       \<and> bCqPhase (deref q dr') = even (consumed_on q sr rr div unat (nEntries (deref q dr)))
       \<and> (nEntries (deref q dr) = 64 \<and> consumed_on q sr rr = 64 \<longrightarrow>
            nCqHead (deref q dr') = 0 \<and> \<not> bCqPhase (deref q dr'))"
    if r: "SubmitCommands plat sr (dr, wr) = (rr, dr', wr')"
      and h: "nCqHead (deref q dr) = 0" and ph: "bCqPhase (deref q dr)"
    for q sr dr wr rr dr' wr'
  proof -
    have "unat (nCqHead (deref q dr)) = 0 mod unat (nEntries (deref q dr))"
      "bCqPhase (deref q dr) = even (0 div unat (nEntries (deref q dr)))"
      using h ph by simp_all
    from SubmitCommands_phase [OF r this]
    have cf: "nEntries (deref q dr') = nEntries (deref q dr)"
      "unat (nCqHead (deref q dr')) = consumed_on q sr rr mod unat (nEntries (deref q dr))"
      "bCqPhase (deref q dr') = even (consumed_on q sr rr div unat (nEntries (deref q dr)))"
      by simp_all
    have "nCqHead (deref q dr') = 0 \<and> \<not> bCqPhase (deref q dr')"
      if "nEntries (deref q dr) = 64" "consumed_on q sr rr = 64"
      using cf(2,3) that by (simp add: unat_eq_0)
    with cf show ?thesis by simp
  qed
  have admin: "bCqPhase (m_AdminQueue (fst (snd (CreateAdminQueues plat (dA, wA)))))
        \<and> nCqHead (m_AdminQueue (fst (snd (CreateAdminQueues plat (dA, wA))))) = 0
        \<and> (SubmitCommands plat subsA (snd (CreateAdminQueues plat (dA, wA))) = (resA, dA', wA') \<longrightarrow>
             nEntries (m_AdminQueue dA') = nEntries (m_AdminQueue dA)
             \<and> unat (nCqHead (m_AdminQueue dA'))
                 = consumed_on AdminQueue subsA resA mod unat (nEntries (m_AdminQueue dA))
             \<and> bCqPhase (m_AdminQueue dA')
                 = even (consumed_on AdminQueue subsA resA div unat (nEntries (m_AdminQueue dA)))
             \<and> (nEntries (m_AdminQueue dA) = NVME_ADMIN_QUEUE_ENTRIES
                  \<and> consumed_on AdminQueue subsA resA = 64 \<longrightarrow>
                nCqHead (m_AdminQueue dA') = 0 \<and> \<not> bCqPhase (m_AdminQueue dA')))"
    if ok: "fst (CreateAdminQueues plat (dA, wA)) = Inr NVME_STATUS_OK"
  proof -
    define X where "X = snd (CreateAdminQueues plat (dA, wA))"
    have i: "bCqPhase (deref AdminQueue (fst X))" "nCqHead (deref AdminQueue (fst X)) = 0"
      using CreateAdminQueues_OK [OF ok] by (simp_all add: X_def)
    have n: "nEntries (deref AdminQueue (fst X)) = nEntries (m_AdminQueue dA)"
      using CreateAdminQueues_nEntries [of plat dA wA] by (simp add: X_def)
    have "nEntries (m_AdminQueue dA') = nEntries (m_AdminQueue dA)
             \<and> unat (nCqHead (m_AdminQueue dA'))
                 = consumed_on AdminQueue subsA resA mod unat (nEntries (m_AdminQueue dA))
             \<and> bCqPhase (m_AdminQueue dA')
                 = even (consumed_on AdminQueue subsA resA div unat (nEntries (m_AdminQueue dA)))
             \<and> (nEntries (m_AdminQueue dA) = NVME_ADMIN_QUEUE_ENTRIES
                  \<and> consumed_on AdminQueue subsA resA = 64 \<longrightarrow>
                nCqHead (m_AdminQueue dA') = 0 \<and> \<not> bCqPhase (m_AdminQueue dA'))"
      if "SubmitCommands plat subsA X = (resA, dA', wA')"
    proof -
      from that have "SubmitCommands plat subsA (fst X, snd X) = (resA, dA', wA')" by simp
      from run [OF this i(2) i(1)] show ?thesis
        unfolding n by (simp add: NVME_ADMIN_QUEUE_ENTRIES_def)
    qed
    moreover have "bCqPhase (m_AdminQueue (fst X))" "nCqHead (m_AdminQueue (fst X)) = 0"
      using i by simp_all
    ultimately show ?thesis
      unfolding X_def by blast
  qed
  have io: "bCqPhase (m_IoQueue (fst (snd (CreateIoQueue plat e1 e2 qid n' (d, w)))))
        \<and> nCqHead (m_IoQueue (fst (snd (CreateIoQueue plat e1 e2 qid n' (d, w))))) = 0
        \<and> (SubmitCommands plat subs (snd (CreateIoQueue plat e1 e2 qid n' (d, w))) = (res, d', w') \<longrightarrow>
             nEntries (m_IoQueue d') = nEntries (m_IoQueue d)
             \<and> unat (nCqHead (m_IoQueue d'))
                 = consumed_on IoQueue subs res mod unat (nEntries (m_IoQueue d))
             \<and> bCqPhase (m_IoQueue d')
                 = even (consumed_on IoQueue subs res div unat (nEntries (m_IoQueue d)))
             \<and> (nEntries (m_IoQueue d) = NVME_IO_QUEUE_ENTRIES
                  \<and> consumed_on IoQueue subs res = 64 \<longrightarrow>
                nCqHead (m_IoQueue d') = 0 \<and> \<not> bCqPhase (m_IoQueue d')))"
    if ok: "fst (CreateIoQueue plat e1 e2 qid n' (d, w)) = Inr NVME_STATUS_OK"
  proof -
    define X where "X = snd (CreateIoQueue plat e1 e2 qid n' (d, w))"
    have i: "bCqPhase (deref IoQueue (fst X))" "nCqHead (deref IoQueue (fst X)) = 0"
      using CreateIoQueue_OK [OF ok] by (simp_all add: X_def)
    have n: "nEntries (deref IoQueue (fst X)) = nEntries (m_IoQueue d)"
      using CreateIoQueue_nEntries [of plat e1 e2 qid n' d w] by (simp add: X_def)
    have "nEntries (m_IoQueue d') = nEntries (m_IoQueue d)
             \<and> unat (nCqHead (m_IoQueue d'))
                 = consumed_on IoQueue subs res mod unat (nEntries (m_IoQueue d))
             \<and> bCqPhase (m_IoQueue d')
                 = even (consumed_on IoQueue subs res div unat (nEntries (m_IoQueue d)))
             \<and> (nEntries (m_IoQueue d) = NVME_IO_QUEUE_ENTRIES
                  \<and> consumed_on IoQueue subs res = 64 \<longrightarrow>
                nCqHead (m_IoQueue d') = 0 \<and> \<not> bCqPhase (m_IoQueue d'))"
      if "SubmitCommands plat subs X = (res, d', w')"
    proof -
      from that have "SubmitCommands plat subs (fst X, snd X) = (res, d', w')" by simp
      from run [OF this i(2) i(1)] show ?thesis
        unfolding n by (simp add: NVME_IO_QUEUE_ENTRIES_def)
    qed
    moreover have "bCqPhase (m_IoQueue (fst X))" "nCqHead (m_IoQueue (fst X)) = 0"
      using i by simp_all
    ultimately show ?thesis
      unfolding X_def by blast
  qed
  from ctor step admin io show ?thesis
    by blast
qed


lemmas eval_defs = Allocate_def Allocate_bump_def Free_def Let_def
  NVME_PAGE_SIZE_def NVME_BLOCK_SIZE_def NVME_BLOCK_ALIGN_def NVME_BLOCK_BOUNDARY_def
  NVME_BLOCK_MAGIC_def sizeof_TNVMeBlockHeader_def sizeof_TNVMeCommand_def sizeof_TNVMeCompletion_def
  NVME_ADMIN_QUEUE_ENTRIES_def NVME_IO_QUEUE_ENTRIES_def AQID_def IOQID_def NSID_def emits_def emit_def
  PhysicalOf_def NVME_STATUS_defs

lemmas queue_defs = SubmitCommand_def AdminCommand_def PollForCompletion_def completion_matches_def
  advance_head_def status_SCT_def status_SC_def CQE_STATUS_SCT__MASK_def CQE_STATUS_SC__MASK_def
  CQE_STATUS_SCT__SHIFT_def CQE_STATUS_SC__SHIFT_def CQE_STATUS_PHASE_BIT_def
  NVME_DOORBELL_SQ_OFFSET_def NVME_DOORBELL_CQ_OFFSET_def NVME_REG_DOORBELL_BASE_def
  POLL_TIMEOUT_HZ_def NVME_REG_INTMC_def NVME_REG_INTM_VECTOR0_def

theorem phase_discipline_witness:
  "fst first_flush = Inr NVME_STATUS_OK
   \<and> completion_consumed (fst first_flush)
   \<and> nCqHead (m_IoQueue dev_up) = 0
   \<and> unat (nCqHead (m_IoQueue (fst (snd first_flush)))) = 1
   \<and> bCqPhase (m_IoQueue (fst (snd first_flush)))
   \<and> fst (CreateAdminQueues plat0 (dev_new, world0)) = Inr NVME_STATUS_OK
   \<and> nEntries (m_AdminQueue dev_new) = NVME_ADMIN_QUEUE_ENTRIES
   \<and> consumed_on AdminQueue (answered_run identify_command 0 64 0) (fst admin_run64) = 64
   \<and> nCqHead (m_AdminQueue (fst (snd admin_run64))) = 0
   \<and> \<not> bCqPhase (m_AdminQueue (fst (snd admin_run64)))
   \<and> fst (CreateIoQueue plat0 (answered 0 4 1) (answered 0 5 1) IOQID NVME_IO_QUEUE_ENTRIES
             (dev_up, world_up)) = Inr NVME_STATUS_OK
   \<and> nEntries (m_IoQueue dev_up) = NVME_IO_QUEUE_ENTRIES
   \<and> consumed_on IoQueue (answered_run flush_command 1 64 0) (fst io_run64) = 64
   \<and> nCqHead (m_IoQueue (fst (snd io_run64))) = 0
   \<and> \<not> bCqPhase (m_IoQueue (fst (snd io_run64)))"
proof -
  define XA where "XA = snd (CreateAdminQueues plat0 (dev_new, world0))"
  define XI where "XI = snd (CreateIoQueue plat0 (answered 0 4 1) (answered 0 5 1) IOQID
                               NVME_IO_QUEUE_ENTRIES (dev_up, world_up))"
  have hA: "fst (CreateAdminQueues plat0 (dev_new, world0)) = Inr NVME_STATUS_OK"
    by (simp add: machine_defs CreateAdminQueues_def CNVMeDevice_ctor_def TQueue_zero_def eval_defs)
  have hI: "fst (CreateIoQueue plat0 (answered 0 4 1) (answered 0 5 1) IOQID NVME_IO_QUEUE_ENTRIES
             (dev_up, world_up)) = Inr NVME_STATUS_OK"
    by (simp add: machine_defs CreateIoQueue_def eval_defs queue_defs
          NVME_ADMIN_OPC_CREATE_IO_CQ_def NVME_ADMIN_OPC_CREATE_IO_SQ_def)
  have nA: "nEntries (m_AdminQueue dev_new) = NVME_ADMIN_QUEUE_ENTRIES"
    and uA: "usID (m_AdminQueue dev_new) = 0"
    by (simp_all add: machine_defs CNVMeDevice_ctor_def TQueue_zero_def AQID_def)
  have nI: "nEntries (m_IoQueue dev_up) = NVME_IO_QUEUE_ENTRIES"
    and uI: "usID (m_IoQueue dev_up) = 1" and h0: "nCqHead (m_IoQueue dev_up) = 0"
    and p0: "bCqPhase (m_IoQueue dev_up)" and t0: "nSqTail (m_IoQueue dev_up) = 0"
    by (simp_all add: machine_defs NVME_IO_QUEUE_ENTRIES_def)
  have iA: "usID (deref AdminQueue (fst XA)) = 0" "nEntries (deref AdminQueue (fst XA)) = 64"
    "nSqTail (deref AdminQueue (fst XA)) = 0" "unat (nCqHead (deref AdminQueue (fst XA))) = 0"
    "bCqPhase (deref AdminQueue (fst XA))"
    using CreateAdminQueues_usID [of plat0 dev_new world0]
      CreateAdminQueues_nEntries [of plat0 dev_new world0]
      CreateAdminQueues_tail [OF hA] CreateAdminQueues_OK [OF hA] nA uA
    by (simp_all add: XA_def NVME_ADMIN_QUEUE_ENTRIES_def)
  have iI: "usID (deref IoQueue (fst XI)) = 1" "nEntries (deref IoQueue (fst XI)) = 64"
    "nSqTail (deref IoQueue (fst XI)) = 0" "unat (nCqHead (deref IoQueue (fst XI))) = 0"
    "bCqPhase (deref IoQueue (fst XI))"
    using CreateIoQueue_usID [of plat0 "answered 0 4 1" "answered 0 5 1" IOQID
        NVME_IO_QUEUE_ENTRIES dev_up world_up]
      CreateIoQueue_nEntries [of plat0 "answered 0 4 1" "answered 0 5 1" IOQID
        NVME_IO_QUEUE_ENTRIES dev_up world_up]
      CreateIoQueue_tail [OF hI] CreateIoQueue_OK [OF hI] nI uI
    by (simp_all add: XI_def NVME_IO_QUEUE_ENTRIES_def)
  have rA: "SubmitCommands plat0 (answered_run identify_command 0 64 0) (fst XA, snd XA)
              = (fst admin_run64, fst (snd admin_run64), snd (snd admin_run64))"
    by (simp add: admin_run64_def XA_def)
  have rI: "SubmitCommands plat0 (answered_run flush_command 1 64 0) (fst XI, snd XI)
              = (fst io_run64, fst (snd io_run64), snd (snd io_run64))"
    by (simp add: io_run64_def XI_def)
  have cA: "consumed_on AdminQueue (answered_run identify_command 0 64 0) (fst admin_run64) = 64"
    by (rule answered_run_consumed [OF rA _ _ iA(1,2,3) _ iA(4,5)])
       (simp_all add: identify_command_def)
  have cI: "consumed_on IoQueue (answered_run flush_command 1 64 0) (fst io_run64) = 64"
    by (rule answered_run_consumed [OF rI _ _ iI(1,2,3) _ iI(4,5)])
       (simp_all add: flush_command_def)
  have f1: "fst first_flush = Inr NVME_STATUS_OK"
    unfolding first_flush_def
    by (rule answered_OK [where p = IoQueue]) (simp_all add: uI nI t0 p0 NVME_IO_QUEUE_ENTRIES_def)
  have f2: "completion_consumed (fst first_flush)"
    by (simp add: f1 completion_consumed_def)
  have eA: "SubmitCommands plat0 (answered_run identify_command 0 64 0)
               (snd (CreateAdminQueues plat0 (dev_new, world0)))
              = (fst admin_run64, fst (snd admin_run64), snd (snd admin_run64))"
    by (simp add: admin_run64_def)
  have eI: "SubmitCommands plat0 (answered_run flush_command 1 64 0)
               (snd (CreateIoQueue plat0 (answered 0 4 1) (answered 0 5 1) IOQID
                       NVME_IO_QUEUE_ENTRIES (dev_up, world_up)))
              = (fst io_run64, fst (snd io_run64), snd (snd io_run64))"
    by (simp add: io_run64_def)
  have eF: "SubmitCommand plat0 (answered 1 0 1) IoQueue NVME_IO_OPC_FLUSH NSID 0 0 0 0 0
              (dev_up, world_up) = (fst first_flush, fst (snd first_flush), snd (snd first_flush))"
    by (simp add: first_flush_def)
  note th = phase_discipline [where plat = plat0 and env = "answered 1 0 1" and p = IoQueue
      and opc' = NVME_IO_OPC_FLUSH and ns = NSID and ?c10.0 = 0 and ?c11.0 = 0 and ?c12.0 = 0
      and ?p1.0 = 0 and ?p2.0 = 0 and ?d0.0 = dev_up and ?w0.0 = world_up
      and r = "fst first_flush" and ?d1.0 = "fst (snd first_flush)" and ?w1.0 = "snd (snd first_flush)"
      and dA = dev_new and wA = world0 and subsA = "answered_run identify_command 0 64 0"
      and resA = "fst admin_run64" and dA' = "fst (snd admin_run64)" and wA' = "snd (snd admin_run64)"
      and ?e1.0 = "answered 0 4 1" and ?e2.0 = "answered 0 5 1" and qid = IOQID
      and n' = NVME_IO_QUEUE_ENTRIES and d = dev_up and w = world_up
      and subs = "answered_run flush_command 1 64 0"
      and res = "fst io_run64" and d' = "fst (snd io_run64)" and w' = "snd (snd io_run64)"]
  from th eF f2 have s: "unat (nCqHead (deref IoQueue (fst (snd first_flush))))
       = (unat (nCqHead (deref IoQueue dev_up)) + 1) mod unat (nEntries (deref IoQueue dev_up))"
    "bCqPhase (deref IoQueue (fst (snd first_flush)))
       = (if nCqHead (deref IoQueue (fst (snd first_flush))) = 0
          then \<not> bCqPhase (deref IoQueue dev_up) else bCqPhase (deref IoQueue dev_up))"
    by simp_all
  have s1: "unat (nCqHead (m_IoQueue (fst (snd first_flush)))) = 1"
    using s(1) by (simp add: h0 nI NVME_IO_QUEUE_ENTRIES_def)
  have s2: "bCqPhase (m_IoQueue (fst (snd first_flush)))"
    using s(2) s1 p0 by (auto simp: unat_eq_0 [symmetric])
  from th hA eA nA cA have a: "nCqHead (m_AdminQueue (fst (snd admin_run64))) = 0"
      "\<not> bCqPhase (m_AdminQueue (fst (snd admin_run64)))"
    by blast+
  from th hI eI nI cI have i: "nCqHead (m_IoQueue (fst (snd io_run64))) = 0"
      "\<not> bCqPhase (m_IoQueue (fst (snd io_run64)))"
    by blast+
  from f1 f2 h0 s1 s2 hA nA cA a hI nI cI i show ?thesis
    by blast
qed


section \<open>The doorbell stride\<close>

text \<open>The DSTRD field of \<^verbatim>\<open>CAP\<close> (bits 32 to 35) is masked and then shifted left by 32 in a
  64-bit word: nothing is left of it, whatever \<^verbatim>\<open>CAP\<close> holds, and the stride is always 4.\<close>

lemma DSTRD_shifted_out: "push_bit 32 ((caps :: u64) AND push_bit 32 0x0F) = 0"
proof -
  have e: "push_bit (32 + 32) (0x0F :: u64) = 0" by (rule push_bit_word_beyond) simp
  show ?thesis by (simp only: push_bit_and push_bit_push_bit e and_zero_eq)
qed

lemma Initialize_capabilities_stride:
  "m_nDoorbellStride (fst (Initialize_capabilities plat caps dw)) = 4"
proof -
  have "DOORBELL_STRIDE (push_bit NVME_REG_CAP_DSTRD__SHIFT (caps AND NVME_REG_CAP_DSTRD__MASK)) = 4"
    unfolding NVME_REG_CAP_DSTRD__SHIFT_def NVME_REG_CAP_DSTRD__MASK_def DSTRD_shifted_out
    by (simp add: DOORBELL_STRIDE_def)
  then show ?thesis
    by (simp add: Initialize_capabilities_def Let_def)
qed

lemma doorbell_offsets_of_stride_4:
  "m_nDoorbellStride d = 4 \<Longrightarrow> NVME_DOORBELL_SQ_OFFSET d IOQID = 0x1008"
  "m_nDoorbellStride d = 4 \<Longrightarrow> NVME_DOORBELL_CQ_OFFSET d IOQID = 0x100C"
  by (simp_all add: NVME_DOORBELL_SQ_OFFSET_def NVME_DOORBELL_CQ_OFFSET_def
        NVME_REG_DOORBELL_BASE_def IOQID_def)

text \<open>
  Claim C1, at \<^verbatim>\<open>CAP = 0x100000000\<close> (DSTRD = 1). \<^verbatim>\<open>Initialize\<close> sets the stride to 4, so the
  doorbells of queue 1 are at \<open>0x1008\<close> and \<open>0x100C\<close>, and a \<^verbatim>\<open>Flush\<close> on the I/O queue writes
  there; the claim's offset for DSTRD = 1 is \<open>0x1000 + 2 * (4 << 1) = 0x1010\<close>.
\<close>

theorem doorbell_stride_ignores_DSTRD:
  "m_nDoorbellStride (fst (Initialize_capabilities plat0 (push_bit 32 1) (dev_new, world0))) = 4
   \<and> NVME_DOORBELL_SQ_OFFSET (fst (Initialize_capabilities plat0 (push_bit 32 1) (dev_new, world0)))
        IOQID = 0x1008
   \<and> NVME_DOORBELL_CQ_OFFSET (fst (Initialize_capabilities plat0 (push_bit 32 1) (dev_new, world0)))
        IOQID = 0x100C
   \<and> events (snd (snd (Flush plat0 (answered 1 0 1) NSID
                (fst (Initialize_capabilities plat0 (push_bit 32 1) (dev_up, world_up)), world_up))))
       = [DataSyncBarrier, MmioWrite32 0x1008 1, DataMemBarrier, DataSyncBarrier, MmioWrite32 0x100C 1]
   \<and> NVME_REG_DOORBELL_BASE + 2 * push_bit 1 4 = (0x1010 :: u32)"
proof -
  have d: "fst (Initialize_capabilities plat0 (push_bit 32 1) (dev_up, world_up))
      = dev_up\<lparr>m_ulCaps := 0x100000000, m_nTimeoutHZ := 12800\<rparr>"
    by (simp add: Initialize_capabilities_def DOORBELL_STRIDE_def NVME_REG_CAP_DSTRD__SHIFT_def
        NVME_REG_CAP_DSTRD__MASK_def NVME_REG_CAP_TO__MASK_def NVME_REG_CAP_TO__SHIFT_def
        machine_defs)
  have "events (snd (snd (Flush plat0 (answered 1 0 1) NSID
                (dev_up\<lparr>m_ulCaps := 0x100000000, m_nTimeoutHZ := 12800\<rparr>, world_up))))
       = [DataSyncBarrier, MmioWrite32 0x1008 1, DataMemBarrier, DataSyncBarrier, MmioWrite32 0x100C 1]"
    by (simp add: machine_defs Flush_def eval_defs queue_defs NVME_IO_OPC_FLUSH_def)
  then show ?thesis
    unfolding d
    using Initialize_capabilities_stride [of plat0 "push_bit 32 1" "(dev_new, world0)"]
    by (simp add: doorbell_offsets_of_stride_4 NVME_REG_DOORBELL_BASE_def)
qed

section \<open>Enabling the controller\<close>

text \<open>The value written to \<^verbatim>\<open>CC\<close>: IOCQES is cleared and set to 4 and EN is set, for every
  value read; IOSQES is not cleared, 6 is or-ed into what was there.\<close>

lemma Initialize_enable_CC_word:
  "Initialize_enable_CC nCC = (nCC AND NOT 0xF00000) OR 0x460001"
  by (simp add: Initialize_enable_CC_def NVME_REG_CC_IOCQES__MASK_def NVME_REG_CC_IOSQES__SHIFT_def
        NVME_REG_CC_IOCQES__SHIFT_def NVME_REG_CC_IOSQES_64B_def NVME_REG_CC_IOCQES_16B_def
        NVME_REG_CC_EN_def)

lemma Initialize_enable_CC_fields:
  "drop_bit 20 (Initialize_enable_CC nCC) AND 0xF = 4"
  "Initialize_enable_CC nCC AND 1 = 1"
  "drop_bit 16 (Initialize_enable_CC nCC) AND 0xF = (drop_bit 16 nCC AND 0xF) OR 6"
  unfolding Initialize_enable_CC_word
  by (simp_all add: bit.conj_disj_distrib2 and.assoc)

text \<open>
  Claim C3, at a \<^verbatim>\<open>CC\<close> that reads \<open>0x10000\<close> (IOSQES = 1) in the enable step: the value
  written is \<open>0x470001\<close>, whose IOSQES field is 7, not 6; its IOCQES field is 4 and EN is 1.
\<close>

theorem enable_keeps_old_IOSQES:
  "Initialize_enable_CC 0x10000 = 0x470001
   \<and> drop_bit NVME_REG_CC_IOSQES__SHIFT (Initialize_enable_CC 0x10000 AND NVME_REG_CC_IOSQES__MASK) = 7
   \<and> drop_bit NVME_REG_CC_IOCQES__SHIFT (Initialize_enable_CC 0x10000 AND NVME_REG_CC_IOCQES__MASK) = 4
   \<and> Initialize_enable_CC 0x10000 AND NVME_REG_CC_EN = 1"
  by (simp add: Initialize_enable_CC_def NVME_REG_CC_IOCQES__MASK_def NVME_REG_CC_IOSQES__SHIFT_def
        NVME_REG_CC_IOCQES__SHIFT_def NVME_REG_CC_IOSQES_64B_def NVME_REG_CC_IOCQES_16B_def
        NVME_REG_CC_EN_def NVME_REG_CC_IOSQES__MASK_def)


section \<open>Frames\<close>

subsection \<open>What the allocator and the PRP builder leave alone\<close>

lemma Allocate_bump_frame:
  assumes "Allocate_bump s al b (a, w) = (r, a', w')"
  shows "prp_mem w' = prp_mem w \<and> cmd_mem w' = cmd_mem w \<and> events w' = events w
         \<and> (\<forall>f. r = Inl f \<longrightarrow> f = AssertFailed)"
  using assms by (auto simp: Allocate_bump_def Let_def split: if_splits)

lemma Allocate_frame:
  assumes "Allocate s al b (a, w) = (r, a', w')"
  shows "prp_mem w' = prp_mem w \<and> cmd_mem w' = cmd_mem w \<and> events w' = events w
         \<and> (\<forall>f. r = Inl f \<longrightarrow> f = AssertFailed)"
  using assms by (auto simp: Allocate_def Let_def split: if_splits dest: Allocate_bump_frame)

lemma Free_frame:
  assumes "Free p (a, w) = (r, a', w')"
  shows "prp_mem w' = prp_mem w \<and> cmd_mem w' = cmd_mem w \<and> set (events w) \<subseteq> set (events w')
         \<and> (\<forall>f. r = Inl f \<longrightarrow> f = AssertFailed)"
  using assms by (auto simp: Free_def Let_def emit_def split: if_splits)

lemma BuildForBuffer_frame:
  assumes "BuildForBuffer plat p n (prp, a, w) = (r, prp', a', w')"
  shows "cmd_mem w' = cmd_mem w \<and> events w' = events w
         \<and> (\<forall>f. r = Inl f \<longrightarrow> f = AssertFailed)"
  using assms
  by (auto simp: BuildForBuffer_def Let_def split: if_splits prod.splits sum.splits
        dest: Allocate_frame)

lemma CNVMePRP_dtor_frame:
  assumes "CNVMePRP_dtor (prp, a, w) = (r, prp', a', w')"
  shows "cmd_mem w' = cmd_mem w \<and> set (events w) \<subseteq> set (events w')
         \<and> (\<forall>f. r = Inl f \<longrightarrow> f = AssertFailed)"
  using assms
  by (auto simp: CNVMePRP_dtor_def Let_def split: if_splits prod.splits sum.splits
        dest: Free_frame)


subsection \<open>What a command changes\<close>

lemma deref_frame [simp]:
  "deref p (d\<lparr>m_Allocator := a\<rparr>) = deref p d"
  "deref p (d\<lparr>m_ulNamespaceSize := n\<rparr>) = deref p d"
  "deref p (d\<lparr>m_ulOffset := off\<rparr>) = deref p d"
  by (cases p; simp)+

lemma assign_frame [simp]:
  "m_ulOffset (assign p q d) = m_ulOffset d"
  "m_ulNamespaceSize (assign p q d) = m_ulNamespaceSize d"
  "m_Allocator (assign p q d) = m_Allocator d"
  "m_nDoorbellStride (assign p q d) = m_nDoorbellStride d"
  "m_nTimeoutHZ (assign p q d) = m_nTimeoutHZ d"
  by (cases p; simp)+

lemma assign_commute [simp]:
  "assign p q (d\<lparr>m_ulNamespaceSize := n\<rparr>) = (assign p q d)\<lparr>m_ulNamespaceSize := n\<rparr>"
  "assign p q (d\<lparr>m_Allocator := a\<rparr>) = (assign p q d)\<lparr>m_Allocator := a\<rparr>"
  by (cases p; simp)+

lemma doorbell_offset_frame [simp]:
  "NVME_DOORBELL_SQ_OFFSET (assign p q d) i = NVME_DOORBELL_SQ_OFFSET d i"
  "NVME_DOORBELL_CQ_OFFSET (assign p q d) i = NVME_DOORBELL_CQ_OFFSET d i"
  "NVME_DOORBELL_SQ_OFFSET (d\<lparr>m_ulNamespaceSize := n\<rparr>) i = NVME_DOORBELL_SQ_OFFSET d i"
  "NVME_DOORBELL_CQ_OFFSET (d\<lparr>m_ulNamespaceSize := n\<rparr>) i = NVME_DOORBELL_CQ_OFFSET d i"
  "NVME_DOORBELL_SQ_OFFSET (d\<lparr>m_Allocator := a\<rparr>) i = NVME_DOORBELL_SQ_OFFSET d i"
  "NVME_DOORBELL_CQ_OFFSET (d\<lparr>m_Allocator := a\<rparr>) i = NVME_DOORBELL_CQ_OFFSET d i"
  by (simp_all add: NVME_DOORBELL_SQ_OFFSET_def NVME_DOORBELL_CQ_OFFSET_def)

lemma emit_frame [simp]:
  "hdr_mem (emit e w) = hdr_mem w" "prp_mem (emit e w) = prp_mem w"
  "cmd_mem (emit e w) = cmd_mem w" "events (emit e w) = events w @ [e]"
  by (simp_all add: emit_def)

lemma PollForCompletion_loop_frame:
  assumes "PollForCompletion_loop plat pQueue usCid nTimeoutHZ nStart' obs (d, w) = (r, d', w')"
  shows "m_ulOffset d' = m_ulOffset d \<and> m_ulNamespaceSize d' = m_ulNamespaceSize d
       \<and> m_Allocator d' = m_Allocator d \<and> m_nDoorbellStride d' = m_nDoorbellStride d
       \<and> hdr_mem w' = hdr_mem w \<and> prp_mem w' = prp_mem w \<and> cmd_mem w' = cmd_mem w
       \<and> set (events w) \<subseteq> set (events w') \<and> r \<noteq> Inl AssertFailed"
  using assms
proof (induction obs arbitrary: w)
  case Nil
  then show ?case by auto
next
  case (Cons a obs)
  show ?case
  proof (cases "completion_matches (deref pQueue d) usCid (fst a)")
    case True
    with Cons.prems show ?thesis
      by (auto simp: Let_def split: if_splits)
  next
    case False
    show ?thesis
    proof (cases "snd a - nStart' > nTimeoutHZ")
      case True
      with False Cons.prems show ?thesis by (auto simp: Let_def)
    next
      case nt: False
      let ?w1 = "if NO_BUSY_WAIT plat then emit DataMemBarrier w
                 else emit (UsDelay 1) (emit DataMemBarrier w)"
      have "PollForCompletion_loop plat pQueue usCid nTimeoutHZ nStart' obs (d, ?w1) = (r, d', w')"
        using Cons.prems False nt by (simp add: Let_def)
      from Cons.IH [OF this] show ?thesis by (auto split: if_splits)
    qed
  qed
qed


lemma PollForCompletion_frame:
  assumes "PollForCompletion plat env pQueue usCid nTimeoutHZ (d, w) = (r, d', w')"
  shows "m_ulOffset d' = m_ulOffset d \<and> m_ulNamespaceSize d' = m_ulNamespaceSize d
       \<and> m_Allocator d' = m_Allocator d \<and> m_nDoorbellStride d' = m_nDoorbellStride d
       \<and> hdr_mem w' = hdr_mem w \<and> prp_mem w' = prp_mem w \<and> cmd_mem w' = cmd_mem w
       \<and> set (events w) \<subseteq> set (events w')"
  using assms
  by (auto simp: PollForCompletion_def Let_def split: if_splits dest: PollForCompletion_loop_frame)


text \<open>The slot that the next command on a queue goes to.\<close>

lemma SubmitCommand_effect:
  assumes "SubmitCommand plat env pQueue uchOpcode nNsId nCdw10 nCdw11 nCdw12 ulPrp1 ulPrp2 (d, w)
             = (r, d', w')"
  shows "m_ulOffset d' = m_ulOffset d \<and> m_ulNamespaceSize d' = m_ulNamespaceSize d
       \<and> m_Allocator d' = m_Allocator d \<and> m_nDoorbellStride d' = m_nDoorbellStride d
       \<and> hdr_mem w' = hdr_mem w \<and> prp_mem w' = prp_mem w
       \<and> set (events w) \<subseteq> set (events w')
       \<and> cmd_mem w' = (cmd_mem w)
            (pSqVirt (deref pQueue d) + sizeof_TNVMeCommand * ucast (nSqTail (deref pQueue d)) :=
               \<lparr>opc = uchOpcode, fuse = 0, cid = nSqTail (deref pQueue d), nsid = nNsId,
                reserved = 0, mptr = 0, prp1 = ulPrp1, prp2 = ulPrp2, cdw10 = nCdw10,
                cdw11 = nCdw11, cdw12 = nCdw12, cdw13 = 0, cdw14 = 0, cdw15 = 0\<rparr>)
       \<and> (r = Inl DivisionByZero
           \<or> MmioWrite32 (NVME_DOORBELL_SQ_OFFSET d (usID (deref pQueue d)))
                (ucast (ucast (((ucast (nSqTail (deref pQueue d)) :: u32) + 1)
                          mod ucast (nEntries (deref pQueue d))) :: u16))
               \<in> set (events w'))"
proof (cases "nEntries (deref pQueue d) = 0")
  case True
  with assms show ?thesis
    by (auto simp: SubmitCommand_def Let_def emit_def split: if_splits)
next
  case False
  let ?q1 = "(deref pQueue d)\<lparr>nSqTail := ucast (((ucast (nSqTail (deref pQueue d)) :: u32) + 1)
                          mod ucast (nEntries (deref pQueue d)))\<rparr>"
  let ?c = "\<lparr>opc = uchOpcode, fuse = 0, cid = nSqTail (deref pQueue d), nsid = nNsId,
                reserved = 0, mptr = 0, prp1 = ulPrp1, prp2 = ulPrp2, cdw10 = nCdw10,
                cdw11 = nCdw11, cdw12 = nCdw12, cdw13 = 0, cdw14 = 0, cdw15 = 0\<rparr>"
  let ?w1 = "w\<lparr>cmd_mem := (cmd_mem w)
            (pSqVirt (deref pQueue d) + sizeof_TNVMeCommand * ucast (nSqTail (deref pQueue d)) := ?c)\<rparr>"
  define w3 where "w3 = emit (MmioWrite32 (NVME_DOORBELL_SQ_OFFSET d (usID (deref pQueue d)))
                (ucast (ucast (((ucast (nSqTail (deref pQueue d)) :: u32) + 1)
                          mod ucast (nEntries (deref pQueue d))) :: u16)))
             (emit DataSyncBarrier
               (if NO_BUSY_WAIT plat
                then emit (MmioWrite32 NVME_REG_INTMC NVME_REG_INTM_VECTOR0) (emit EventClear ?w1)
                else ?w1))"
  have p: "PollForCompletion plat env pQueue (nSqTail (deref pQueue d)) (POLL_TIMEOUT_HZ plat)
        (assign pQueue ?q1 d, w3) = (r, d', w')"
    using assms False by (simp add: SubmitCommand_def Let_def w3_def)
  have w3: "hdr_mem w3 = hdr_mem w" "prp_mem w3 = prp_mem w"
      "cmd_mem w3 = (cmd_mem w)
            (pSqVirt (deref pQueue d) + sizeof_TNVMeCommand * ucast (nSqTail (deref pQueue d)) := ?c)"
      "set (events w) \<subseteq> set (events w3)"
      "MmioWrite32 (NVME_DOORBELL_SQ_OFFSET d (usID (deref pQueue d)))
                (ucast (ucast (((ucast (nSqTail (deref pQueue d)) :: u32) + 1)
                          mod ucast (nEntries (deref pQueue d))) :: u16)) \<in> set (events w3)"
    by (auto simp: w3_def)
  from PollForCompletion_frame [OF p] w3 show ?thesis by auto
qed

lemma IoPassThrough_assert:
  "pBuffer = 0 \<or> nBlocks = 0 \<Longrightarrow>
   IoPassThrough plat env nNsId nLba nBlocks pBuffer bIsWrite (d, w) = (Inl AssertFailed, d, w)"
  by (simp add: IoPassThrough_def)

lemma IoPassThrough_build_fault:
  "pBuffer \<noteq> 0 \<Longrightarrow> nBlocks \<noteq> 0 \<Longrightarrow>
   BuildForBuffer plat pBuffer (ucast nBlocks * NVME_LBA_SIZE) (CNVMePRP_ctor, m_Allocator d, w)
     = (Inl f, prp, a1, w1) \<Longrightarrow>
   IoPassThrough plat env nNsId nLba nBlocks pBuffer bIsWrite (d, w)
     = (Inl f, d\<lparr>m_Allocator := a1\<rparr>, w1)"
  by (simp add: IoPassThrough_def)

lemma BuildForBuffer_False:
  assumes "BuildForBuffer plat p n (prp, a, w) = (Inr False, prp', a', w')"
  shows "m_pPrpListVirt prp' = m_pPrpListVirt prp"
  using assms
  by (auto simp: BuildForBuffer_def Let_def split: if_splits prod.splits sum.splits)

lemma IoPassThrough_build_fail:
  assumes "pBuffer \<noteq> 0" "nBlocks \<noteq> 0"
      and b: "BuildForBuffer plat pBuffer (ucast nBlocks * NVME_LBA_SIZE) (CNVMePRP_ctor, m_Allocator d, w)
     = (Inr False, prp, a1, w1)"
  shows "IoPassThrough plat env nNsId nLba nBlocks pBuffer bIsWrite (d, w)
     = (Inr NVME_STATUS_ERROR_NO_RESOURCE, d\<lparr>m_Allocator := a1\<rparr>, w1)"
proof -
  have "m_pPrpListVirt prp = 0"
    using BuildForBuffer_False [OF b] by (simp add: CNVMePRP_ctor_def)
  then have "CNVMePRP_dtor (prp, a1, w1) = (Inr (), prp, a1, w1)"
    by (simp add: CNVMePRP_dtor_def)
  then show ?thesis using assms by (simp add: IoPassThrough_def)
qed

lemma IoPassThrough_submit_fault:
  "pBuffer \<noteq> 0 \<Longrightarrow> nBlocks \<noteq> 0 \<Longrightarrow>
   BuildForBuffer plat pBuffer (ucast nBlocks * NVME_LBA_SIZE) (CNVMePRP_ctor, m_Allocator d, w)
     = (Inr True, prp, a1, w1) \<Longrightarrow>
   SubmitCommand plat env IoQueue
          (if bIsWrite then NVME_IO_OPC_WRITE else NVME_IO_OPC_READ) nNsId
          (ucast (nLba AND 0xffffffff)) (ucast (drop_bit 32 nLba AND 0xffffffff)) (nBlocks - 1)
          (m_uPrp1 prp) (m_uPrp2 prp) (d\<lparr>m_Allocator := a1\<rparr>, w1) = (Inl f, d2, w2) \<Longrightarrow>
   IoPassThrough plat env nNsId nLba nBlocks pBuffer bIsWrite (d, w) = (Inl f, d2, w2)"
  by (simp add: IoPassThrough_def)

lemma IoPassThrough_submitted:
  "pBuffer \<noteq> 0 \<Longrightarrow> nBlocks \<noteq> 0 \<Longrightarrow>
   BuildForBuffer plat pBuffer (ucast nBlocks * NVME_LBA_SIZE) (CNVMePRP_ctor, m_Allocator d, w)
     = (Inr True, prp, a1, w1) \<Longrightarrow>
   SubmitCommand plat env IoQueue
          (if bIsWrite then NVME_IO_OPC_WRITE else NVME_IO_OPC_READ) nNsId
          (ucast (nLba AND 0xffffffff)) (ucast (drop_bit 32 nLba AND 0xffffffff)) (nBlocks - 1)
          (m_uPrp1 prp) (m_uPrp2 prp) (d\<lparr>m_Allocator := a1\<rparr>, w1) = (Inr nRet, d2, w2) \<Longrightarrow>
   CNVMePRP_dtor (prp, m_Allocator d2, w2) = (rd, prp', a3, w3) \<Longrightarrow>
   IoPassThrough plat env nNsId nLba nBlocks pBuffer bIsWrite (d, w)
     = (case rd of Inl f \<Rightarrow> Inl f | Inr u \<Rightarrow> Inr nRet, d2\<lparr>m_Allocator := a3\<rparr>, w3)"
  by (simp add: IoPassThrough_def split: sum.splits)

text \<open>The five ways through \<^verbatim>\<open>IoPassThrough\<close>.\<close>

lemma IoPassThrough_cases:
  assumes io: "IoPassThrough plat env nNsId nLba nBlocks pBuffer bIsWrite (d, w) = (r, d', w')"
  obtains
    (assert) "pBuffer = 0 \<or> nBlocks = 0" "r = Inl AssertFailed" "d' = d" "w' = w"
  | (build_fault) prp a1 where "r = Inl AssertFailed" "d' = d\<lparr>m_Allocator := a1\<rparr>"
      "BuildForBuffer plat pBuffer (ucast nBlocks * NVME_LBA_SIZE) (CNVMePRP_ctor, m_Allocator d, w)
         = (Inl AssertFailed, prp, a1, w')"
  | (build_fail) prp a1 where "r = Inr NVME_STATUS_ERROR_NO_RESOURCE" "d' = d\<lparr>m_Allocator := a1\<rparr>"
      "BuildForBuffer plat pBuffer (ucast nBlocks * NVME_LBA_SIZE) (CNVMePRP_ctor, m_Allocator d, w)
         = (Inr False, prp, a1, w')"
  | (submit_fault) f prp a1 w1 where "pBuffer \<noteq> 0" "nBlocks \<noteq> 0" "r = Inl f"
      "BuildForBuffer plat pBuffer (ucast nBlocks * NVME_LBA_SIZE) (CNVMePRP_ctor, m_Allocator d, w)
         = (Inr True, prp, a1, w1)"
      "SubmitCommand plat env IoQueue
          (if bIsWrite then NVME_IO_OPC_WRITE else NVME_IO_OPC_READ) nNsId
          (ucast (nLba AND 0xffffffff)) (ucast (drop_bit 32 nLba AND 0xffffffff)) (nBlocks - 1)
          (m_uPrp1 prp) (m_uPrp2 prp) (d\<lparr>m_Allocator := a1\<rparr>, w1) = (Inl f, d', w')"
  | (submitted) nRet prp a1 w1 d2 w2 rd prp' a3 where "pBuffer \<noteq> 0" "nBlocks \<noteq> 0"
      "BuildForBuffer plat pBuffer (ucast nBlocks * NVME_LBA_SIZE) (CNVMePRP_ctor, m_Allocator d, w)
         = (Inr True, prp, a1, w1)"
      "SubmitCommand plat env IoQueue
          (if bIsWrite then NVME_IO_OPC_WRITE else NVME_IO_OPC_READ) nNsId
          (ucast (nLba AND 0xffffffff)) (ucast (drop_bit 32 nLba AND 0xffffffff)) (nBlocks - 1)
          (m_uPrp1 prp) (m_uPrp2 prp) (d\<lparr>m_Allocator := a1\<rparr>, w1) = (Inr nRet, d2, w2)"
      "CNVMePRP_dtor (prp, m_Allocator d2, w2) = (rd, prp', a3, w')"
      "r = (case rd of Inl f \<Rightarrow> Inl f | Inr u \<Rightarrow> Inr nRet)" "d' = d2\<lparr>m_Allocator := a3\<rparr>"
proof (cases "pBuffer = 0 \<or> nBlocks = 0")
  case True
  with io IoPassThrough_assert [OF True, of plat env nNsId nLba bIsWrite d w] assert
  show ?thesis by simp
next
  case nz: False
  obtain rb prp a1 w1 where b: "BuildForBuffer plat pBuffer (ucast nBlocks * NVME_LBA_SIZE)
      (CNVMePRP_ctor, m_Allocator d, w) = (rb, prp, a1, w1)"
    by (rule prod_cases4)
  note fb = BuildForBuffer_frame [OF b]
  show ?thesis
  proof (cases rb)
    case (Inl f)
    with fb have f: "f = AssertFailed" by simp
    from nz b Inl io IoPassThrough_build_fault [of pBuffer nBlocks plat d w f prp a1 w1 env nNsId nLba bIsWrite]
    show ?thesis using build_fault [of a1 prp] f by simp
  next
    case (Inr ok)
    show ?thesis
    proof (cases ok)
      case False
      from nz b Inr False io IoPassThrough_build_fail [of pBuffer nBlocks plat d w prp a1 w1 env nNsId nLba bIsWrite]
      show ?thesis using build_fail [of a1 prp] by simp
    next
      case True
      obtain r2 d2 w2 where sc: "SubmitCommand plat env IoQueue
          (if bIsWrite then NVME_IO_OPC_WRITE else NVME_IO_OPC_READ) nNsId
          (ucast (nLba AND 0xffffffff)) (ucast (drop_bit 32 nLba AND 0xffffffff)) (nBlocks - 1)
          (m_uPrp1 prp) (m_uPrp2 prp) (d\<lparr>m_Allocator := a1\<rparr>, w1) = (r2, d2, w2)"
        by (rule prod_cases3)
      show ?thesis
      proof (cases r2)
        case (Inl f)
        from nz b Inr True sc Inl io
          IoPassThrough_submit_fault [of pBuffer nBlocks plat d w prp a1 w1 env bIsWrite nNsId nLba f d2 w2]
        show ?thesis using submit_fault [of f prp a1 w1] by simp
      next
        case r2: (Inr nRet)
        obtain rd prp' a3 w3 where dt: "CNVMePRP_dtor (prp, m_Allocator d2, w2) = (rd, prp', a3, w3)"
          by (rule prod_cases4)
        from nz b Inr True sc r2 dt io
          IoPassThrough_submitted [of pBuffer nBlocks plat d w prp a1 w1 env bIsWrite nNsId nLba nRet d2 w2 rd prp' a3 w3]
        show ?thesis using submitted [of prp a1 w1 nRet d2 w2 rd prp' a3] by simp
      qed
    qed
  qed
qed

lemma IoPassThrough_frame:
  assumes "IoPassThrough plat env nNsId nLba nBlocks pBuffer bIsWrite (d, w) = (r, d', w')"
  shows "m_ulOffset d' = m_ulOffset d \<and> m_ulNamespaceSize d' = m_ulNamespaceSize d
       \<and> m_nDoorbellStride d' = m_nDoorbellStride d \<and> set (events w) \<subseteq> set (events w')"
  using assms
proof (cases rule: IoPassThrough_cases)
  case assert
  then show ?thesis by simp
next
  case (build_fault prp a1)
  then show ?thesis using BuildForBuffer_frame [OF build_fault(3)] by simp
next
  case (build_fail prp a1)
  then show ?thesis using BuildForBuffer_frame [OF build_fail(3)] by simp
next
  case (submit_fault f prp a1 w1)
  then show ?thesis
    using BuildForBuffer_frame [OF submit_fault(4)] SubmitCommand_effect [OF submit_fault(5)] by simp
next
  case (submitted nRet prp a1 w1 d2 w2 rd prp' a3)
  then show ?thesis
    using BuildForBuffer_frame [OF submitted(3)] SubmitCommand_effect [OF submitted(4)]
      CNVMePRP_dtor_frame [OF submitted(5)] by auto
qed

lemma IoPassThrough_submits:
  assumes io: "IoPassThrough plat env nNsId nLba nBlocks pBuffer bIsWrite (d, w) = (r, d', w')"
      and r: "r \<noteq> Inr NVME_STATUS_ERROR_NO_RESOURCE" "r \<noteq> Inl AssertFailed" "r \<noteq> Inl DivisionByZero"
  defines "slot \<equiv> pSqVirt (m_IoQueue d) + sizeof_TNVMeCommand * ucast (nSqTail (m_IoQueue d))"
  shows "opc (cmd_mem w' slot) = (if bIsWrite then NVME_IO_OPC_WRITE else NVME_IO_OPC_READ)
       \<and> nsid (cmd_mem w' slot) = nNsId
       \<and> cid (cmd_mem w' slot) = nSqTail (m_IoQueue d)
       \<and> cdw10 (cmd_mem w' slot) = ucast (nLba AND 0xffffffff)
       \<and> cdw11 (cmd_mem w' slot) = ucast (drop_bit 32 nLba AND 0xffffffff)
       \<and> cdw12 (cmd_mem w' slot) = nBlocks - 1
       \<and> MmioWrite32 (NVME_DOORBELL_SQ_OFFSET d (usID (m_IoQueue d)))
                (ucast (ucast (((ucast (nSqTail (m_IoQueue d)) :: u32) + 1)
                          mod ucast (nEntries (m_IoQueue d))) :: u16))
               \<in> set (events w')"
  using io
proof (cases rule: IoPassThrough_cases)
  case assert
  then show ?thesis using r by simp
next
  case (build_fault prp a1)
  then show ?thesis using r by simp
next
  case (build_fail prp a1)
  then show ?thesis using r by simp
next
  case (submit_fault f prp a1 w1)
  then show ?thesis
    using r SubmitCommand_effect [OF submit_fault(5)] by (simp add: slot_def)
next
  case (submitted nRet prp a1 w1 d2 w2 rd prp' a3)
  note es = SubmitCommand_effect [OF submitted(4)]
  note fd = CNVMePRP_dtor_frame [OF submitted(5)]
  have "MmioWrite32 (NVME_DOORBELL_SQ_OFFSET d (usID (m_IoQueue d)))
                (ucast (ucast (((ucast (nSqTail (m_IoQueue d)) :: u32) + 1)
                          mod ucast (nEntries (m_IoQueue d))) :: u16)) \<in> set (events w2)"
    using es by simp
  then show ?thesis
    using es fd by (auto simp: slot_def)
qed



lemma mask32: "(0xffffffff :: u64) = mask 32"
  by (simp add: mask_eq_exp_minus_1)

lemma lba_low: "(ucast ((ucast (x :: u32) :: u64) AND 0xffffffff) :: u32) = x"
  unfolding mask32 by (simp add: bit_eq_iff bit_simps)

lemma lba_high: "(ucast (drop_bit 32 (ucast (x :: u32) :: u64) AND 0xffffffff) :: u32) = 0"
  unfolding mask32 by (auto simp: bit_eq_iff bit_simps dest: bit_imp_le_length)


subsection \<open>The namespace size is never read\<close>

lemma with_namespace_size_simp [simp]:
  "with_namespace_size n (r, d, w) = (r, d\<lparr>m_ulNamespaceSize := n\<rparr>, w)"
  by (simp add: with_namespace_size_def)









section \<open>Read and Write\<close>

lemma and_511_mod: "(x :: u64) AND (NVME_LBA_SIZE - 1) = 0 \<longleftrightarrow> unat x mod 512 = 0"
proof -
  have m: "NVME_LBA_SIZE - 1 = mask 9" by (simp add: NVME_LBA_SIZE_def mask_eq_exp_minus_1)
  have "unat (x AND mask 9) = unat x mod 512"
    by (simp add: take_bit_eq_mod unat_mod flip: take_bit_eq_mask)
  then show ?thesis unfolding m by (metis unat_eq_0)
qed



lemma Read_bad_param:
  assumes "pBuffer \<noteq> 0"
      and "m_ulOffset d AND (NVME_LBA_SIZE - 1) \<noteq> 0 \<or> ulCount = 0 \<or> ulCount AND (NVME_LBA_SIZE - 1) \<noteq> 0"
  shows "Read plat env pBuffer ulCount (d, w) = (Inr NVME_STATUS_ERROR_BAD_PARAM, d, w)"
  using assms by (auto simp: Read_def Let_def)

lemma Write_bad_param:
  assumes "pBuffer \<noteq> 0"
      and "m_ulOffset d AND (NVME_LBA_SIZE - 1) \<noteq> 0 \<or> ulCount = 0 \<or> ulCount AND (NVME_LBA_SIZE - 1) \<noteq> 0"
  shows "Write plat env pBuffer ulCount (d, w) = (Inr NVME_STATUS_ERROR_BAD_PARAM, d, w)"
  using assms by (auto simp: Write_def Let_def)

text \<open>The ways through \<^verbatim>\<open>Read\<close> and \<^verbatim>\<open>Write\<close>.\<close>

lemma Read_cases:
  assumes rd: "Read plat env pBuffer ulCount (d, w) = (r, d', w')"
  obtains
    (null) "pBuffer = 0" "r = Inl AssertFailed" "d' = d" "w' = w"
  | (bad_param) "pBuffer \<noteq> 0"
      "m_ulOffset d AND (NVME_LBA_SIZE - 1) \<noteq> 0 \<or> ulCount = 0 \<or> ulCount AND (NVME_LBA_SIZE - 1) \<noteq> 0"
      "r = Inr NVME_STATUS_ERROR_BAD_PARAM" "d' = d" "w' = w"
  | (no_bounce) "r = Inr NVME_STATUS_ERROR_NO_RESOURCE" "d' = d" "cmd_mem w' = cmd_mem w"
  | (io) tb w2 r3 w3 where "pBuffer \<noteq> 0" "m_ulOffset d AND (NVME_LBA_SIZE - 1) = 0" "ulCount \<noteq> 0"
      "ulCount AND (NVME_LBA_SIZE - 1) = 0"
      "IoPassThrough plat (cmd env) NSID (ucast (ucast (m_ulOffset d div NVME_LBA_SIZE) :: u32))
         (ucast (ulCount div NVME_LBA_SIZE)) tb False (d, w2) = (r3, d', w3)"
      "cmd_mem w2 = cmd_mem w" "cmd_mem w' = cmd_mem w3" "set (events w3) \<subseteq> set (events w')"
      "r = (case r3 of Inl f \<Rightarrow> Inl f
            | Inr nRet \<Rightarrow> if nRet \<noteq> NVME_STATUS_OK then Inr nRet else Inr (int_of_size_t ulCount))"
proof (cases "pBuffer = 0")
  case True
  then have "Read plat env pBuffer ulCount (d, w) = (Inl AssertFailed, d, w)" by (simp add: Read_def)
  with rd have "r = Inl AssertFailed" "d' = d" "w' = w" by simp_all
  with True show ?thesis by (rule null)
next
  case nn: False
  show ?thesis
  proof (cases "m_ulOffset d AND (NVME_LBA_SIZE - 1) \<noteq> 0 \<or> ulCount = 0
                \<or> ulCount AND (NVME_LBA_SIZE - 1) \<noteq> 0")
    case True
    from rd Read_bad_param [OF nn True, of plat env w]
    have "r = Inr NVME_STATUS_ERROR_BAD_PARAM" "d' = d" "w' = w" by simp_all
    with nn True show ?thesis by (rule bad_param)
  next
    case False
    then have ok: "m_ulOffset d AND (NVME_LBA_SIZE - 1) = 0" "ulCount \<noteq> 0"
      "ulCount AND (NVME_LBA_SIZE - 1) = 0" by simp_all
    show ?thesis
    proof (cases "\<not> IS_CACHE_ALIGNED plat pBuffer ulCount \<and> new_result env = 0")
      case True
      then have "Read plat env pBuffer ulCount (d, w)
          = (Inr NVME_STATUS_ERROR_NO_RESOURCE, d, emit (NewArray ulCount 0) w)"
        using nn ok by (simp add: Read_def Let_def)
      with rd have "r = Inr NVME_STATUS_ERROR_NO_RESOURCE" "d' = d" "cmd_mem w' = cmd_mem w" by auto
      then show ?thesis by (rule no_bounce)
    next
      case nb: False
      define tb where "tb = (if IS_CACHE_ALIGNED plat pBuffer ulCount then pBuffer else new_result env)"
      define w2 where "w2 = emit (InvalidateDataCacheRange tb ulCount)
         (if IS_CACHE_ALIGNED plat pBuffer ulCount then w
          else emit (NewArray ulCount (new_result env)) w)"
      obtain r3 d3 w3 where iop: "IoPassThrough plat (cmd env) NSID
           (ucast (ucast (m_ulOffset d div NVME_LBA_SIZE) :: u32)) (ucast (ulCount div NVME_LBA_SIZE))
           tb False (d, w2) = (r3, d3, w3)"
        by (rule prod_cases3)
      have e: "d' = d3" "cmd_mem w' = cmd_mem w3" "set (events w3) \<subseteq> set (events w')"
        "r = (case r3 of Inl f \<Rightarrow> Inl f
            | Inr nRet \<Rightarrow> if nRet \<noteq> NVME_STATUS_OK then Inr nRet else Inr (int_of_size_t ulCount))"
        using rd nn ok nb iop
        by (auto simp: Read_def Let_def tb_def w2_def split: if_splits sum.splits)
      have c: "cmd_mem w2 = cmd_mem w" by (simp add: w2_def)
      show ?thesis
        by (rule io [OF nn ok iop [folded e(1)] c e(2,3,4)])
    qed
  qed
qed

lemma Write_cases:
  assumes wr: "Write plat env pBuffer ulCount (d, w) = (r, d', w')"
  obtains
    (null) "pBuffer = 0" "r = Inl AssertFailed" "d' = d" "w' = w"
  | (bad_param) "pBuffer \<noteq> 0"
      "m_ulOffset d AND (NVME_LBA_SIZE - 1) \<noteq> 0 \<or> ulCount = 0 \<or> ulCount AND (NVME_LBA_SIZE - 1) \<noteq> 0"
      "r = Inr NVME_STATUS_ERROR_BAD_PARAM" "d' = d" "w' = w"
  | (read_only) "NVME_READ_ONLY plat" "r = Inr NVME_STATUS_ERROR_READ_ONLY" "d' = d" "w' = w"
  | (no_bounce) "r = Inr NVME_STATUS_ERROR_NO_RESOURCE" "d' = d" "cmd_mem w' = cmd_mem w"
  | (io) tb w2 r3 w3 where "pBuffer \<noteq> 0" "m_ulOffset d AND (NVME_LBA_SIZE - 1) = 0" "ulCount \<noteq> 0"
      "ulCount AND (NVME_LBA_SIZE - 1) = 0" "\<not> NVME_READ_ONLY plat"
      "IoPassThrough plat (cmd env) NSID (ucast (ucast (m_ulOffset d div NVME_LBA_SIZE) :: u32))
         (ucast (ulCount div NVME_LBA_SIZE)) tb True (d, w2) = (r3, d', w3)"
      "cmd_mem w2 = cmd_mem w" "cmd_mem w' = cmd_mem w3" "set (events w3) \<subseteq> set (events w')"
      "r = (case r3 of Inl f \<Rightarrow> Inl f
            | Inr nRet \<Rightarrow> if nRet \<noteq> NVME_STATUS_OK then Inr nRet else Inr (int_of_size_t ulCount))"
proof (cases "pBuffer = 0")
  case True
  then have "Write plat env pBuffer ulCount (d, w) = (Inl AssertFailed, d, w)" by (simp add: Write_def)
  with wr have "r = Inl AssertFailed" "d' = d" "w' = w" by simp_all
  with True show ?thesis by (rule null)
next
  case nn: False
  show ?thesis
  proof (cases "m_ulOffset d AND (NVME_LBA_SIZE - 1) \<noteq> 0 \<or> ulCount = 0
                \<or> ulCount AND (NVME_LBA_SIZE - 1) \<noteq> 0")
    case True
    from wr Write_bad_param [OF nn True, of plat env w]
    have "r = Inr NVME_STATUS_ERROR_BAD_PARAM" "d' = d" "w' = w" by simp_all
    with nn True show ?thesis by (rule bad_param)
  next
    case False
    then have ok: "m_ulOffset d AND (NVME_LBA_SIZE - 1) = 0" "ulCount \<noteq> 0"
      "ulCount AND (NVME_LBA_SIZE - 1) = 0" by simp_all
    show ?thesis
    proof (cases "NVME_READ_ONLY plat")
      case True
      then have "Write plat env pBuffer ulCount (d, w) = (Inr NVME_STATUS_ERROR_READ_ONLY, d, w)"
        using nn ok by (simp add: Write_def Let_def)
      with wr have "r = Inr NVME_STATUS_ERROR_READ_ONLY" "d' = d" "w' = w" by simp_all
      with True show ?thesis by (rule read_only)
    next
      case rw: False
      show ?thesis
      proof (cases "\<not> IS_CACHE_ALIGNED plat pBuffer ulCount \<and> new_result env = 0")
        case True
        then have "Write plat env pBuffer ulCount (d, w)
            = (Inr NVME_STATUS_ERROR_NO_RESOURCE, d, emit (NewArray ulCount 0) w)"
          using nn ok rw by (simp add: Write_def Let_def)
        with wr have "r = Inr NVME_STATUS_ERROR_NO_RESOURCE" "d' = d" "cmd_mem w' = cmd_mem w" by auto
        then show ?thesis by (rule no_bounce)
      next
        case nb: False
        define tb where "tb = (if IS_CACHE_ALIGNED plat pBuffer ulCount then pBuffer else new_result env)"
        define w2 where "w2 = emit (CleanDataCacheRange tb ulCount)
           (if IS_CACHE_ALIGNED plat pBuffer ulCount then w
            else emit (Memcpy (new_result env) pBuffer ulCount)
                   (emit (NewArray ulCount (new_result env)) w))"
        obtain r3 d3 w3 where iop: "IoPassThrough plat (cmd env) NSID
             (ucast (ucast (m_ulOffset d div NVME_LBA_SIZE) :: u32)) (ucast (ulCount div NVME_LBA_SIZE))
             tb True (d, w2) = (r3, d3, w3)"
          by (rule prod_cases3)
        have e: "d' = d3" "cmd_mem w' = cmd_mem w3" "set (events w3) \<subseteq> set (events w')"
          "r = (case r3 of Inl f \<Rightarrow> Inl f
              | Inr nRet \<Rightarrow> if nRet \<noteq> NVME_STATUS_OK then Inr nRet else Inr (int_of_size_t ulCount))"
          using wr nn ok rw nb iop
          by (auto simp: Write_def Let_def tb_def w2_def split: if_splits sum.splits)
        have c: "cmd_mem w2 = cmd_mem w" by (simp add: w2_def)
        show ?thesis
          by (rule io [OF nn ok rw iop [folded e(1)] c e(2,3,4)])
      qed
    qed
  qed
qed


lemma Read_offset:
  "m_ulOffset (fst (snd (Read plat env pBuffer ulCount (d, w)))) = m_ulOffset d"
proof -
  obtain r d' w' where rd: "Read plat env pBuffer ulCount (d, w) = (r, d', w')"
    by (rule prod_cases3)
  then have "m_ulOffset d' = m_ulOffset d"
    by (cases rule: Read_cases) (auto dest: IoPassThrough_frame)
  with rd show ?thesis by simp
qed

lemma Write_offset:
  "m_ulOffset (fst (snd (Write plat env pBuffer ulCount (d, w)))) = m_ulOffset d"
proof -
  obtain r d' w' where wr: "Write plat env pBuffer ulCount (d, w) = (r, d', w')"
    by (rule prod_cases3)
  then have "m_ulOffset d' = m_ulOffset d"
    by (cases rule: Write_cases) (auto dest: IoPassThrough_frame)
  with wr show ?thesis by simp
qed

lemma IOCtl_offset:
  "m_ulOffset (fst (snd (IOCtl plat env ulCmd (d, w)))) = m_ulOffset d"
proof -
  obtain r d' w' where f: "Flush plat env NSID (d, w) = (r, d', w')"
    by (rule prod_cases3)
  then have "m_ulOffset d' = m_ulOffset d"
    unfolding Flush_def by (auto dest: SubmitCommand_effect)
  with f show ?thesis by (simp add: IOCtl_def)
qed

text \<open>The command that a \<^verbatim>\<open>Read\<close> or a \<^verbatim>\<open>Write\<close> puts into the submission queue, when
  it gets that far: the starting LBA is the byte offset divided by 512 and cut to 32 bits.\<close>

lemma Read_submits:
  assumes rd: "Read plat env pBuffer ulCount (d, w) = (r, d', w')"
      and ok: "m_ulOffset d AND (NVME_LBA_SIZE - 1) = 0" "ulCount \<noteq> 0" "ulCount AND (NVME_LBA_SIZE - 1) = 0"
      and r: "r \<noteq> Inr NVME_STATUS_ERROR_NO_RESOURCE" "r \<noteq> Inl AssertFailed" "r \<noteq> Inl DivisionByZero"
  defines "slot \<equiv> pSqVirt (m_IoQueue d) + sizeof_TNVMeCommand * ucast (nSqTail (m_IoQueue d))"
  shows "opc (cmd_mem w' slot) = NVME_IO_OPC_READ
       \<and> nsid (cmd_mem w' slot) = NSID
       \<and> cdw10 (cmd_mem w' slot) = ucast (m_ulOffset d div NVME_LBA_SIZE)
       \<and> cdw11 (cmd_mem w' slot) = 0
       \<and> cdw12 (cmd_mem w' slot) = ucast (ulCount div NVME_LBA_SIZE) - 1
       \<and> MmioWrite32 (NVME_DOORBELL_SQ_OFFSET d (usID (m_IoQueue d)))
                (ucast (ucast (((ucast (nSqTail (m_IoQueue d)) :: u32) + 1)
                          mod ucast (nEntries (m_IoQueue d))) :: u16))
               \<in> set (events w')"
  using rd
proof (cases rule: Read_cases)
  case (io tb w2 r3 w3)
  have r3: "r3 \<noteq> Inr NVME_STATUS_ERROR_NO_RESOURCE" "r3 \<noteq> Inl AssertFailed" "r3 \<noteq> Inl DivisionByZero"
    using r io(9) by (auto simp: NVME_STATUS_defs split: sum.splits if_splits)
  from IoPassThrough_submits [OF io(5) r3] io(6,7,8) show ?thesis
    by (auto simp: slot_def lba_low lba_high)
qed (use ok r in simp_all)

lemma Write_submits:
  assumes wr: "Write plat env pBuffer ulCount (d, w) = (r, d', w')"
      and ok: "m_ulOffset d AND (NVME_LBA_SIZE - 1) = 0" "ulCount \<noteq> 0" "ulCount AND (NVME_LBA_SIZE - 1) = 0"
      and r: "r \<noteq> Inr NVME_STATUS_ERROR_NO_RESOURCE" "r \<noteq> Inl AssertFailed" "r \<noteq> Inl DivisionByZero"
        "r \<noteq> Inr NVME_STATUS_ERROR_READ_ONLY"
  defines "slot \<equiv> pSqVirt (m_IoQueue d) + sizeof_TNVMeCommand * ucast (nSqTail (m_IoQueue d))"
  shows "opc (cmd_mem w' slot) = NVME_IO_OPC_WRITE
       \<and> nsid (cmd_mem w' slot) = NSID
       \<and> cdw10 (cmd_mem w' slot) = ucast (m_ulOffset d div NVME_LBA_SIZE)
       \<and> cdw11 (cmd_mem w' slot) = 0
       \<and> cdw12 (cmd_mem w' slot) = ucast (ulCount div NVME_LBA_SIZE) - 1
       \<and> MmioWrite32 (NVME_DOORBELL_SQ_OFFSET d (usID (m_IoQueue d)))
                (ucast (ucast (((ucast (nSqTail (m_IoQueue d)) :: u32) + 1)
                          mod ucast (nEntries (m_IoQueue d))) :: u16))
               \<in> set (events w')"
  using wr
proof (cases rule: Write_cases)
  case (io tb w2 r3 w3)
  have r3: "r3 \<noteq> Inr NVME_STATUS_ERROR_NO_RESOURCE" "r3 \<noteq> Inl AssertFailed" "r3 \<noteq> Inl DivisionByZero"
    using r io(10) by (auto simp: NVME_STATUS_defs split: sum.splits if_splits)
  from IoPassThrough_submits [OF io(6) r3] io(7,8,9) show ?thesis
    by (auto simp: slot_def lba_low lba_high)
qed (use ok r in simp_all)




lemmas rw_defs = Read_def Write_def IoPassThrough_def BuildForBuffer_def CNVMePRP_ctor_def CNVMePRP_dtor_def
  NVME_LBA_SIZE_def PRP_PAGE_SIZE_def PRP_ENTRY_SIZE_def NVME_IO_OPC_READ_def NVME_IO_OPC_WRITE_def
  int_of_size_t_def

text \<open>
  Claim C7. A \<^verbatim>\<open>Read\<close> or \<^verbatim>\<open>Write\<close> on a buffer that is not null, with a byte offset that
  is not a multiple of 512, or a count that is zero or not a multiple of 512, returns
  \<open>-1\<close> (BAD_PARAM) and leaves the device and the world as they were: no command in a
  queue, no index moved, no register written, nothing allocated.
\<close>

theorem Read_Write_BAD_PARAM:
  assumes "pBuffer \<noteq> 0"
      and "unat (m_ulOffset d) mod 512 \<noteq> 0 \<or> ulCount = 0 \<or> unat ulCount mod 512 \<noteq> 0"
  shows "Read plat env pBuffer ulCount (d, w) = (Inr (- 1), d, w)
       \<and> Write plat env pBuffer ulCount (d, w) = (Inr (- 1), d, w)"
proof -
  have "m_ulOffset d AND (NVME_LBA_SIZE - 1) \<noteq> 0 \<or> ulCount = 0 \<or> ulCount AND (NVME_LBA_SIZE - 1) \<noteq> 0"
    using assms(2) by (simp add: and_511_mod)
  from Read_bad_param [OF assms(1) this] Write_bad_param [OF assms(1) this]
  show ?thesis by (simp add: NVME_STATUS_ERROR_BAD_PARAM_def)
qed

theorem Read_Write_BAD_PARAM_witness:
  "(0x20000000 :: u64) \<noteq> 0
   \<and> unat (m_ulOffset (dev_at 100)) mod 512 \<noteq> 0
   \<and> Read plat0 (rw_answered 0 1) 0x20000000 512 (dev_at 100, world_up)
        = (Inr (- 1), dev_at 100, world_up)
   \<and> Write plat0 (rw_answered 0 1) 0x20000000 512 (dev_at 100, world_up)
        = (Inr (- 1), dev_at 100, world_up)"
proof -
  have h1: "(0x20000000 :: u64) \<noteq> 0" by simp
  have h2: "unat (m_ulOffset (dev_at 100)) mod 512 \<noteq> 0" by (simp add: dev_at_def Seek_def)
  then have h2': "unat (m_ulOffset (dev_at 100)) mod 512 \<noteq> 0 \<or> (512 :: u64) = 0
      \<or> unat (512 :: u64) mod 512 \<noteq> 0" by simp
  from Read_Write_BAD_PARAM [OF h1 h2'] h1 h2 show ?thesis by simp
qed

lemma Seek_effect: "Seek ulOffset d = (ulOffset, d\<lparr>m_ulOffset := ulOffset\<rparr>)"
  by (simp add: Seek_def)

lemma two_Reads_same_LBA:
  fixes plat enva envb ba bb na nb d w
  defines "R1 \<equiv> Read plat enva ba na (d, w)"
  defines "R2 \<equiv> Read plat envb bb nb (snd R1)"
  assumes al: "unat (m_ulOffset d) mod 512 = 0" "na \<noteq> 0" "unat na mod 512 = 0"
      "nb \<noteq> 0" "unat nb mod 512 = 0"
      and l: "\<not> ends_locally (fst R1)" "\<not> ends_locally (fst R2)"
  shows "opc (cmd_mem (snd (snd R1)) (io_slot d)) = NVME_IO_OPC_READ
       \<and> opc (cmd_mem (snd (snd R2)) (io_slot (fst (snd R1)))) = NVME_IO_OPC_READ
       \<and> cdw10 (cmd_mem (snd (snd R2)) (io_slot (fst (snd R1))))
           = cdw10 (cmd_mem (snd (snd R1)) (io_slot d))
       \<and> cdw11 (cmd_mem (snd (snd R2)) (io_slot (fst (snd R1))))
           = cdw11 (cmd_mem (snd (snd R1)) (io_slot d))"
proof -
  obtain r1 d1 w1 where r1: "Read plat enva ba na (d, w) = (r1, d1, w1)" by (rule prod_cases3)
  obtain r2 d2 w2 where r2: "Read plat envb bb nb (d1, w1) = (r2, d2, w2)" by (rule prod_cases3)
  have off: "m_ulOffset d1 = m_ulOffset d" using Read_offset [of plat enva ba na d w] r1 by simp
  have a: "m_ulOffset d AND (NVME_LBA_SIZE - 1) = 0" "na AND (NVME_LBA_SIZE - 1) = 0"
    "nb AND (NVME_LBA_SIZE - 1) = 0" "m_ulOffset d1 AND (NVME_LBA_SIZE - 1) = 0"
    using al off by (simp_all add: and_511_mod)
  have l1: "r1 \<noteq> Inr NVME_STATUS_ERROR_NO_RESOURCE" "r1 \<noteq> Inl AssertFailed" "r1 \<noteq> Inl DivisionByZero"
    and l2: "r2 \<noteq> Inr NVME_STATUS_ERROR_NO_RESOURCE" "r2 \<noteq> Inl AssertFailed" "r2 \<noteq> Inl DivisionByZero"
    using l r1 r2 by (auto simp: R1_def R2_def ends_locally_def)
  from Read_submits [OF r1 a(1) al(2) a(2) l1] Read_submits [OF r2 a(4) al(4) a(3) l2] off
  show ?thesis by (simp add: R1_def R2_def r1 r2 io_slot_def)
qed

lemma two_Writes_same_LBA:
  fixes plat enva envb ba bb na nb d w
  defines "R1 \<equiv> Write plat enva ba na (d, w)"
  defines "R2 \<equiv> Write plat envb bb nb (snd R1)"
  assumes al: "unat (m_ulOffset d) mod 512 = 0" "na \<noteq> 0" "unat na mod 512 = 0"
      "nb \<noteq> 0" "unat nb mod 512 = 0"
      and l: "\<not> ends_locally (fst R1)" "\<not> ends_locally (fst R2)"
  shows "opc (cmd_mem (snd (snd R1)) (io_slot d)) = NVME_IO_OPC_WRITE
       \<and> opc (cmd_mem (snd (snd R2)) (io_slot (fst (snd R1)))) = NVME_IO_OPC_WRITE
       \<and> cdw10 (cmd_mem (snd (snd R2)) (io_slot (fst (snd R1))))
           = cdw10 (cmd_mem (snd (snd R1)) (io_slot d))
       \<and> cdw11 (cmd_mem (snd (snd R2)) (io_slot (fst (snd R1))))
           = cdw11 (cmd_mem (snd (snd R1)) (io_slot d))"
proof -
  obtain r1 d1 w1 where r1: "Write plat enva ba na (d, w) = (r1, d1, w1)" by (rule prod_cases3)
  obtain r2 d2 w2 where r2: "Write plat envb bb nb (d1, w1) = (r2, d2, w2)" by (rule prod_cases3)
  have off: "m_ulOffset d1 = m_ulOffset d" using Write_offset [of plat enva ba na d w] r1 by simp
  have a: "m_ulOffset d AND (NVME_LBA_SIZE - 1) = 0" "na AND (NVME_LBA_SIZE - 1) = 0"
    "nb AND (NVME_LBA_SIZE - 1) = 0" "m_ulOffset d1 AND (NVME_LBA_SIZE - 1) = 0"
    using al off by (simp_all add: and_511_mod)
  have l1: "r1 \<noteq> Inr NVME_STATUS_ERROR_NO_RESOURCE" "r1 \<noteq> Inl AssertFailed" "r1 \<noteq> Inl DivisionByZero"
      "r1 \<noteq> Inr NVME_STATUS_ERROR_READ_ONLY"
    and l2: "r2 \<noteq> Inr NVME_STATUS_ERROR_NO_RESOURCE" "r2 \<noteq> Inl AssertFailed" "r2 \<noteq> Inl DivisionByZero"
      "r2 \<noteq> Inr NVME_STATUS_ERROR_READ_ONLY"
    using l r1 r2 by (auto simp: R1_def R2_def ends_locally_def)
  from Write_submits [OF r1 a(1) al(2) a(2) l1] Write_submits [OF r2 a(4) al(4) a(3) l2] off
  show ?thesis by (simp add: R1_def R2_def r1 r2 io_slot_def)
qed

text \<open>
  Claim C9. \<^verbatim>\<open>Read\<close>, \<^verbatim>\<open>Write\<close> and \<^verbatim>\<open>IOCtl\<close> leave \<^verbatim>\<open>m_ulOffset\<close> as it was, whatever
  they return, also when they halt or are still polling; \<^verbatim>\<open>Seek\<close> sets it. So of two
  \<^verbatim>\<open>Read\<close>s (or two \<^verbatim>\<open>Write\<close>s) in a row that both get their command into the queue, the
  second carries the same starting LBA in CDW10 and CDW11 as the first.
\<close>

theorem offset_changed_by_Seek_only:
  "m_ulOffset (fst (snd (Read plat env pBuffer ulCount (d, w)))) = m_ulOffset d
   \<and> m_ulOffset (fst (snd (Write plat env pBuffer ulCount (d, w)))) = m_ulOffset d
   \<and> m_ulOffset (fst (snd (IOCtl plat (cmd env) ulCmd (d, w)))) = m_ulOffset d
   \<and> Seek ulOffset d = (ulOffset, d\<lparr>m_ulOffset := ulOffset\<rparr>)
   \<and> (unat (m_ulOffset d) mod 512 = 0 \<and> ulCount \<noteq> 0 \<and> unat ulCount mod 512 = 0
        \<and> ulCount' \<noteq> 0 \<and> unat ulCount' mod 512 = 0
        \<and> \<not> ends_locally (fst (Read plat env pBuffer ulCount (d, w)))
        \<and> \<not> ends_locally (fst (Read plat env' pBuffer' ulCount'
                                    (snd (Read plat env pBuffer ulCount (d, w)))))
      \<longrightarrow> opc (cmd_mem (snd (snd (Read plat env pBuffer ulCount (d, w)))) (io_slot d))
            = NVME_IO_OPC_READ
        \<and> opc (cmd_mem (snd (snd (Read plat env' pBuffer' ulCount'
                  (snd (Read plat env pBuffer ulCount (d, w))))))
              (io_slot (fst (snd (Read plat env pBuffer ulCount (d, w)))))) = NVME_IO_OPC_READ
        \<and> cdw10 (cmd_mem (snd (snd (Read plat env' pBuffer' ulCount'
                  (snd (Read plat env pBuffer ulCount (d, w))))))
              (io_slot (fst (snd (Read plat env pBuffer ulCount (d, w))))))
            = cdw10 (cmd_mem (snd (snd (Read plat env pBuffer ulCount (d, w)))) (io_slot d))
        \<and> cdw11 (cmd_mem (snd (snd (Read plat env' pBuffer' ulCount'
                  (snd (Read plat env pBuffer ulCount (d, w))))))
              (io_slot (fst (snd (Read plat env pBuffer ulCount (d, w))))))
            = cdw11 (cmd_mem (snd (snd (Read plat env pBuffer ulCount (d, w)))) (io_slot d)))
   \<and> (unat (m_ulOffset d) mod 512 = 0 \<and> ulCount \<noteq> 0 \<and> unat ulCount mod 512 = 0
        \<and> ulCount' \<noteq> 0 \<and> unat ulCount' mod 512 = 0
        \<and> \<not> ends_locally (fst (Write plat env pBuffer ulCount (d, w)))
        \<and> \<not> ends_locally (fst (Write plat env' pBuffer' ulCount'
                                    (snd (Write plat env pBuffer ulCount (d, w)))))
      \<longrightarrow> opc (cmd_mem (snd (snd (Write plat env pBuffer ulCount (d, w)))) (io_slot d))
            = NVME_IO_OPC_WRITE
        \<and> opc (cmd_mem (snd (snd (Write plat env' pBuffer' ulCount'
                  (snd (Write plat env pBuffer ulCount (d, w))))))
              (io_slot (fst (snd (Write plat env pBuffer ulCount (d, w)))))) = NVME_IO_OPC_WRITE
        \<and> cdw10 (cmd_mem (snd (snd (Write plat env' pBuffer' ulCount'
                  (snd (Write plat env pBuffer ulCount (d, w))))))
              (io_slot (fst (snd (Write plat env pBuffer ulCount (d, w))))))
            = cdw10 (cmd_mem (snd (snd (Write plat env pBuffer ulCount (d, w)))) (io_slot d))
        \<and> cdw11 (cmd_mem (snd (snd (Write plat env' pBuffer' ulCount'
                  (snd (Write plat env pBuffer ulCount (d, w))))))
              (io_slot (fst (snd (Write plat env pBuffer ulCount (d, w))))))
            = cdw11 (cmd_mem (snd (snd (Write plat env pBuffer ulCount (d, w)))) (io_slot d)))"
proof -
  note rr = two_Reads_same_LBA [where plat = plat and enva = env and ba = pBuffer and na = ulCount
      and d = d and w = w and envb = env' and bb = pBuffer' and nb = ulCount']
  note ww = two_Writes_same_LBA [where plat = plat and enva = env and ba = pBuffer and na = ulCount
      and d = d and w = w and envb = env' and bb = pBuffer' and nb = ulCount']
  show ?thesis
    apply (intro conjI)
         apply (rule Read_offset)
        apply (rule Write_offset)
       apply (rule IOCtl_offset)
      apply (rule Seek_effect)
     apply (intro impI, elim conjE, rule rr; assumption)
    apply (intro impI, elim conjE, rule ww; assumption)
    done
qed


theorem offset_changed_by_Seek_only_witness:
  "unat (m_ulOffset (dev_at 0x1000)) mod 512 = 0
   \<and> (512 :: u64) \<noteq> 0 \<and> unat (512 :: u64) mod 512 = 0
   \<and> (1024 :: u64) \<noteq> 0 \<and> unat (1024 :: u64) mod 512 = 0
   \<and> fst (Read plat0 (rw_answered 0 1) 0x20000000 512 (dev_at 0x1000, world_up)) = Inr 512
   \<and> fst (Read plat0 (rw_answered 1 1) 0x20001000 1024
            (snd (Read plat0 (rw_answered 0 1) 0x20000000 512 (dev_at 0x1000, world_up)))) = Inr 1024
   \<and> fst (Write plat0 (rw_answered 0 1) 0x20000000 512 (dev_at 0x1000, world_up)) = Inr 512
   \<and> fst (Write plat0 (rw_answered 1 1) 0x20001000 1024
            (snd (Write plat0 (rw_answered 0 1) 0x20000000 512 (dev_at 0x1000, world_up)))) = Inr 1024
   \<and> io_slot (dev_at 0x1000) = 0x10005000
   \<and> io_slot (fst (snd (Read plat0 (rw_answered 0 1) 0x20000000 512 (dev_at 0x1000, world_up))))
        = 0x10005040
   \<and> cdw10 (cmd_mem (snd (snd (Read plat0 (rw_answered 0 1) 0x20000000 512
              (dev_at 0x1000, world_up)))) 0x10005000) = 8
   \<and> cdw10 (cmd_mem (snd (snd (Read plat0 (rw_answered 1 1) 0x20001000 1024
              (snd (Read plat0 (rw_answered 0 1) 0x20000000 512 (dev_at 0x1000, world_up))))))
        (io_slot (fst (snd (Read plat0 (rw_answered 0 1) 0x20000000 512
              (dev_at 0x1000, world_up)))))) = 8
   \<and> cdw10 (cmd_mem (snd (snd (Write plat0 (rw_answered 1 1) 0x20001000 1024
              (snd (Write plat0 (rw_answered 0 1) 0x20000000 512 (dev_at 0x1000, world_up))))))
        (io_slot (fst (snd (Write plat0 (rw_answered 0 1) 0x20000000 512
              (dev_at 0x1000, world_up)))))) = 8"
proof -
  let ?R1 = "Read plat0 (rw_answered 0 1) 0x20000000 512 (dev_at 0x1000, world_up)"
  let ?W1 = "Write plat0 (rw_answered 0 1) 0x20000000 512 (dev_at 0x1000, world_up)"
  have r1: "?R1 = (Inr 512, (dev_at 0x1000)\<lparr>m_IoQueue := (m_IoQueue dev_up)\<lparr>nSqTail := 1, nCqHead := 1\<rparr>\<rparr>,
      world_up\<lparr>cmd_mem := (cmd_mem world_up)(0x10005000 := \<lparr>opc = 2, fuse = 0, cid = 0, nsid = 1,
          reserved = 0, mptr = 0, prp1 = 0x20000000, prp2 = 0, cdw10 = 8, cdw11 = 0, cdw12 = 0,
          cdw13 = 0, cdw14 = 0, cdw15 = 0\<rparr>),
        events := [InvalidateDataCacheRange 0x20000000 512, DataSyncBarrier, MmioWrite32 0x1008 1,
          DataMemBarrier, DataSyncBarrier, MmioWrite32 0x100C 1,
          InvalidateDataCacheRange 0x20000000 512]\<rparr>)"
    by (simp add: machine_defs rw_defs eval_defs queue_defs)
  have w1: "?W1 = (Inr 512, (dev_at 0x1000)\<lparr>m_IoQueue := (m_IoQueue dev_up)\<lparr>nSqTail := 1, nCqHead := 1\<rparr>\<rparr>,
      world_up\<lparr>cmd_mem := (cmd_mem world_up)(0x10005000 := \<lparr>opc = 1, fuse = 0, cid = 0, nsid = 1,
          reserved = 0, mptr = 0, prp1 = 0x20000000, prp2 = 0, cdw10 = 8, cdw11 = 0, cdw12 = 0,
          cdw13 = 0, cdw14 = 0, cdw15 = 0\<rparr>),
        events := [CleanDataCacheRange 0x20000000 512, DataSyncBarrier, MmioWrite32 0x1008 1,
          DataMemBarrier, DataSyncBarrier, MmioWrite32 0x100C 1]\<rparr>)"
    by (simp add: machine_defs rw_defs eval_defs queue_defs)
  have r2: "fst (Read plat0 (rw_answered 1 1) 0x20001000 1024 (snd ?R1)) = Inr 1024"
    unfolding r1 by (simp add: machine_defs rw_defs eval_defs queue_defs)
  have w2: "fst (Write plat0 (rw_answered 1 1) 0x20001000 1024 (snd ?W1)) = Inr 1024"
    unfolding w1 by (simp add: machine_defs rw_defs eval_defs queue_defs)
  have h: "unat (m_ulOffset (dev_at 0x1000)) mod 512 = 0" "(512 :: u64) \<noteq> 0"
    "unat (512 :: u64) mod 512 = 0" "(1024 :: u64) \<noteq> 0" "unat (1024 :: u64) mod 512 = 0"
    by (simp_all add: machine_defs)
  have l: "\<not> ends_locally (fst ?R1)" "\<not> ends_locally (fst ?W1)"
    "\<not> ends_locally (fst (Read plat0 (rw_answered 1 1) 0x20001000 1024 (snd ?R1)))"
    "\<not> ends_locally (fst (Write plat0 (rw_answered 1 1) 0x20001000 1024 (snd ?W1)))"
    unfolding r2 w2 unfolding r1 w1 by (simp_all add: ends_locally_def NVME_STATUS_defs)
  have s: "io_slot (dev_at 0x1000) = 0x10005000" "io_slot (fst (snd ?R1)) = 0x10005040"
    "cdw10 (cmd_mem (snd (snd ?R1)) 0x10005000) = 8"
    "cdw10 (cmd_mem (snd (snd ?W1)) 0x10005000) = 8"
    unfolding r1 w1 by (simp_all add: io_slot_def machine_defs eval_defs)
  from offset_changed_by_Seek_only [where plat = plat0 and env = "rw_answered 0 1"
      and pBuffer = "0x20000000" and ulCount = 512 and d = "dev_at 0x1000" and w = world_up
      and env' = "rw_answered 1 1" and pBuffer' = "0x20001000" and ulCount' = 1024] h l s
  have "cdw10 (cmd_mem (snd (snd (Read plat0 (rw_answered 1 1) 0x20001000 1024 (snd ?R1))))
          (io_slot (fst (snd ?R1)))) = 8"
    "cdw10 (cmd_mem (snd (snd (Write plat0 (rw_answered 1 1) 0x20001000 1024 (snd ?W1))))
          (io_slot (fst (snd ?W1)))) = 8"
    by simp_all
  with h s r2 w2 show ?thesis
    unfolding r1 w1 by simp
qed








text \<open>
  Claim C2, at the byte offset \<open>0x20000000000\<close> (LBA \<open>2^32\<close>). \<^verbatim>\<open>Read\<close> and \<^verbatim>\<open>Write\<close>
  keep the LBA in an \<^verbatim>\<open>unsigned\<close>, 32 bits wide: the command they submit has CDW10 = 0 and
  CDW11 = 0, the command for LBA 0, where the high half of the LBA is 1.
\<close>

theorem Read_Write_truncate_LBA:
  "m_ulOffset (dev_at 0x20000000000) div 512 = 0x100000000
   \<and> fst (Read plat0 (rw_answered 0 1) 0x20000000 512 (dev_at 0x20000000000, world_up)) = Inr 512
   \<and> cmd_mem (snd (snd (Read plat0 (rw_answered 0 1) 0x20000000 512
        (dev_at 0x20000000000, world_up)))) 0x10005000
       = \<lparr>opc = 2, fuse = 0, cid = 0, nsid = 1, reserved = 0, mptr = 0, prp1 = 0x20000000, prp2 = 0,
          cdw10 = 0, cdw11 = 0, cdw12 = 0, cdw13 = 0, cdw14 = 0, cdw15 = 0\<rparr>
   \<and> fst (Write plat0 (rw_answered 0 1) 0x20000000 512 (dev_at 0x20000000000, world_up)) = Inr 512
   \<and> cmd_mem (snd (snd (Write plat0 (rw_answered 0 1) 0x20000000 512
        (dev_at 0x20000000000, world_up)))) 0x10005000
       = \<lparr>opc = 1, fuse = 0, cid = 0, nsid = 1, reserved = 0, mptr = 0, prp1 = 0x20000000, prp2 = 0,
          cdw10 = 0, cdw11 = 0, cdw12 = 0, cdw13 = 0, cdw14 = 0, cdw15 = 0\<rparr>
   \<and> (ucast (drop_bit 32 (0x100000000 :: u64) AND 0xffffffff) :: u32) = 1"
  by (simp add: machine_defs rw_defs eval_defs queue_defs)

section \<open>The free-list of the allocator\<close>

subsection \<open>Page alignment\<close>

lemma aligned_and_not: "((z :: u64) AND NOT 4095) AND 4095 = 0"
  by (simp add: and.assoc)

lemma and_not_le: "unat ((z :: u64) AND NOT 4095) \<le> unat z"
  by (simp add: word_and_le2 word_le_nat_alt [symmetric])

lemma page_in_boundary:
  assumes "(y :: u64) AND 4095 = 0"
  shows "(y + 4096 - 1) AND NOT 0xFFFFF = y AND NOT 0xFFFFF"
proof -
  have "y + 4096 - 1 = y + 4095" by simp
  also have "\<dots> = y OR 4095" using assms by (rule disjunctive_add_eq_or)
  finally show ?thesis by (simp add: bit.conj_disj_distrib2)
qed

lemma and_not_split: "((z :: u64) AND NOT 4095) + (z AND 4095) = z"
proof -
  have "(z AND NOT 4095) AND (z AND 4095) = 0"
    by (simp add: and.assoc and.left_commute)
  then have "(z AND NOT 4095) + (z AND 4095) = (z AND NOT 4095) OR (z AND 4095)"
    by (rule disjunctive_add_eq_or)
  also have "\<dots> = z"
    by (simp flip: bit.conj_disj_distrib)
  finally show ?thesis .
qed

lemma and_4095_le: "unat ((z :: u64) AND 4095) \<le> 4095"
proof -
  have "z AND 4095 \<le> 4095" by (rule word_and_le1)
  then show ?thesis by (simp add: word_le_nat_alt)
qed

lemma and_not_ge: "unat (z :: u64) \<le> unat (z AND NOT 4095) + 4095"
proof -
  have "unat z = unat ((z AND NOT 4095) + (z AND 4095))"
    by (simp only: and_not_split)
  also have "\<dots> \<le> unat (z AND NOT 4095) + unat (z AND 4095)"
    by (simp add: unat_word_ariths)
  also have "\<dots> \<le> unat (z AND NOT 4095) + 4095"
    using and_4095_le [of z] by simp
  finally show ?thesis .
qed

lemma not_24_aligned: "(y :: u64) AND 4095 = 0 \<Longrightarrow> y \<noteq> 24"
  by auto


lemma Allocate_bump_inside:
  assumes s2: "s2 = (if (m_nMemStart a + sizeof_TNVMeBlockHeader) AND (al - 1) \<noteq> 0
                     then (m_nMemStart a + sizeof_TNVMeBlockHeader + (al - 1)) AND NOT (al - 1)
                     else m_nMemStart a + sizeof_TNVMeBlockHeader)"
      and nb: "(s2 + sz - 1) AND NOT (bd - 1) = s2 AND NOT (bd - 1)"
      and al: "s2 AND (al - 1) = 0"
      and room: "s2 + sz \<le> m_nMemEnd a"
  shows "Allocate_bump sz al bd (a, w) =
           (Inr s2, a\<lparr>m_nMemStart := s2 + sz\<rparr>,
            w\<lparr>hdr_mem := (hdr_mem w)(s2 - sizeof_TNVMeBlockHeader :=
                 \<lparr>nMagic = NVME_BLOCK_MAGIC, nSize = ucast sz, nAlign = ucast al,
                  nBoundary = ucast bd, pNext = 0\<rparr>)\<rparr>)"
proof -
  have "\<not> s2 + sz > m_nMemEnd a"
    using room by simp
  then show ?thesis
    using nb al unfolding s2
    by (simp add: Allocate_bump_def Let_def)
qed

lemma Allocate_bump_page:
  assumes room: "unat (m_nMemStart a) + 8215 \<le> unat (m_nMemEnd a)"
  obtains p where "p \<noteq> 0" and "p AND 4095 = 0"
    and "unat (m_nMemStart a) + 24 \<le> unat p" and "unat p \<le> unat (m_nMemStart a) + 4119"
    and "unat (p + 4096) = unat p + 4096"
    and "Allocate_bump NVME_BLOCK_SIZE NVME_BLOCK_ALIGN NVME_BLOCK_BOUNDARY (a, w) =
           (Inr p, a\<lparr>m_nMemStart := p + 4096\<rparr>,
            w\<lparr>hdr_mem := (hdr_mem w)(p - 24 :=
                 \<lparr>nMagic = NVME_BLOCK_MAGIC, nSize = 4096, nAlign = 4096,
                  nBoundary = 0x100000, pNext = 0\<rparr>)\<rparr>)"
proof -
  define s1 where "s1 = m_nMemStart a + 24"
  define s2 where "s2 = (if s1 AND 4095 \<noteq> 0 then (s1 + 4095) AND NOT 4095 else s1)"
  have lim: "unat (m_nMemEnd a) < 2 ^ 64"
    using unsigned_less [of "m_nMemEnd a"] by simp
  have u1: "unat s1 = unat (m_nMemStart a) + 24"
    unfolding s1_def using room lim by (simp add: unat_add_lem [THEN iffD1])
  have u1': "unat (s1 + 4095) = unat s1 + 4095"
    using room lim u1 by (simp add: unat_add_lem [THEN iffD1])
  have al: "s2 AND 4095 = 0"
    unfolding s2_def using aligned_and_not [of "s1 + 4095"] by simp
  have lo: "unat s1 \<le> unat s2"
    unfolding s2_def using and_not_ge [of "s1 + 4095"] u1' by simp
  have hi: "unat s2 \<le> unat s1 + 4095"
    unfolding s2_def using and_not_le [of "s1 + 4095"] u1' by simp
  have u2: "unat (s2 + 4096) = unat s2 + 4096"
    using room lim u1 hi by (simp add: unat_add_lem [THEN iffD1])
  have ne: "s2 \<noteq> 0"
    using lo u1 by auto
  have le: "s2 + 4096 \<le> m_nMemEnd a"
    using u2 hi u1 room by (simp add: word_le_nat_alt)
  have nb: "(s2 + 4096 - 1) AND NOT (0x100000 - 1) = s2 AND NOT (0x100000 - 1)"
    using page_in_boundary [OF al] by simp
  have al': "s2 AND (4096 - 1) = 0"
    using al by simp
  have s2': "s2 = (if (m_nMemStart a + sizeof_TNVMeBlockHeader) AND (4096 - 1) \<noteq> 0
                     then (m_nMemStart a + sizeof_TNVMeBlockHeader + (4096 - 1)) AND NOT (4096 - 1)
                     else m_nMemStart a + sizeof_TNVMeBlockHeader)"
    unfolding s2_def s1_def by (simp add: sizeof_TNVMeBlockHeader_def)
  have "Allocate_bump 4096 4096 0x100000 (a, w) =
           (Inr s2, a\<lparr>m_nMemStart := s2 + 4096\<rparr>,
            w\<lparr>hdr_mem := (hdr_mem w)(s2 - sizeof_TNVMeBlockHeader :=
                 \<lparr>nMagic = NVME_BLOCK_MAGIC, nSize = ucast (4096 :: u64), nAlign = ucast (4096 :: u64),
                  nBoundary = ucast (0x100000 :: u64), pNext = 0\<rparr>)\<rparr>)"
    by (rule Allocate_bump_inside [OF s2' nb al' le])
  then have eq: "Allocate_bump NVME_BLOCK_SIZE NVME_BLOCK_ALIGN NVME_BLOCK_BOUNDARY (a, w) =
           (Inr s2, a\<lparr>m_nMemStart := s2 + 4096\<rparr>,
            w\<lparr>hdr_mem := (hdr_mem w)(s2 - 24 :=
                 \<lparr>nMagic = NVME_BLOCK_MAGIC, nSize = 4096, nAlign = 4096,
                  nBoundary = 0x100000, pNext = 0\<rparr>)\<rparr>)"
    by (simp add: NVME_BLOCK_SIZE_def NVME_BLOCK_ALIGN_def NVME_BLOCK_BOUNDARY_def NVME_PAGE_SIZE_def
        sizeof_TNVMeBlockHeader_def)
  show ?thesis
    using ne al lo hi u1 u2 eq by (intro that [of s2]) simp_all
qed


lemmas alloc_consts = NVME_BLOCK_SIZE_def NVME_BLOCK_ALIGN_def NVME_BLOCK_BOUNDARY_def
  NVME_PAGE_SIZE_def sizeof_TNVMeBlockHeader_def

lemma Free_page:
  assumes "pBlock \<noteq> 0" and "nMagic (hdr_mem w (pBlock - 24)) = NVME_BLOCK_MAGIC"
    and "page_spec (hdr_mem w (pBlock - 24))"
  shows "Free pBlock (a, w) =
           (Inr (), a\<lparr>m_pFreeList := pBlock - 24\<rparr>,
            w\<lparr>hdr_mem := (hdr_mem w)(pBlock - 24 :=
                 (hdr_mem w (pBlock - 24))\<lparr>pNext := m_pFreeList a\<rparr>)\<rparr>)"
  using assms by (simp add: Free_def Let_def page_spec_def alloc_consts)

lemma Free_other:
  assumes "pBlock \<noteq> 0" and "nMagic (hdr_mem w (pBlock - 24)) = NVME_BLOCK_MAGIC"
    and "\<not> page_spec (hdr_mem w (pBlock - 24))"
  shows "Free pBlock (a, w) =
           (Inr (), a, emit (LogWarnFree pBlock (nSize (hdr_mem w (pBlock - 24)))
                              (nAlign (hdr_mem w (pBlock - 24)))) w)"
  using assms by (auto simp add: Free_def Let_def page_spec_def alloc_consts)

lemma Allocate_head:
  assumes "request_ok sz al bd" and "fits_page_spec sz al bd"
    and "m_nMemStart a \<noteq> 0" and "m_nMemEnd a \<noteq> 0"
    and "m_pFreeList a \<noteq> 0" and "(m_pFreeList a + 24) AND 4095 = 0"
    and "nMagic (hdr_mem w (m_pFreeList a)) = NVME_BLOCK_MAGIC"
    and "page_spec (hdr_mem w (m_pFreeList a))"
  shows "Allocate sz al bd (a, w) =
           (Inr (m_pFreeList a + 24), a\<lparr>m_pFreeList := pNext (hdr_mem w (m_pFreeList a))\<rparr>,
            w\<lparr>hdr_mem := (hdr_mem w)(m_pFreeList a :=
                 (hdr_mem w (m_pFreeList a))\<lparr>pNext := 0\<rparr>)\<rparr>)"
  using assms
  by (simp add: Allocate_def Let_def page_spec_def request_ok_def fits_page_spec_def alloc_consts)

lemma Allocate_empty:
  assumes "request_ok sz al bd" and "fits_page_spec sz al bd"
    and "m_nMemStart a \<noteq> 0" and "m_nMemEnd a \<noteq> 0" and "m_pFreeList a = 0"
  shows "Allocate sz al bd (a, w) =
           Allocate_bump NVME_BLOCK_SIZE NVME_BLOCK_ALIGN NVME_BLOCK_BOUNDARY (a, w)"
  using assms
  by (simp add: Allocate_def Let_def request_ok_def fits_page_spec_def
      NVME_BLOCK_SIZE_def NVME_BLOCK_ALIGN_def NVME_BLOCK_BOUNDARY_def NVME_PAGE_SIZE_def)


lemma Free_then_Allocate:
  assumes p: "pBlock \<noteq> 0" and al: "pBlock AND 4095 = 0"
    and mg: "nMagic (hdr_mem w (pBlock - 24)) = NVME_BLOCK_MAGIC"
    and ps: "page_spec (hdr_mem w (pBlock - 24))"
    and rq: "request_ok sz al bd" and ft: "fits_page_spec sz al bd"
    and st: "m_nMemStart a \<noteq> 0" and en: "m_nMemEnd a \<noteq> 0"
  shows "Allocate sz al bd (snd (Free pBlock (a, w))) =
           (Inr pBlock, a,
            w\<lparr>hdr_mem := (hdr_mem w)(pBlock - 24 := (hdr_mem w (pBlock - 24))\<lparr>pNext := 0\<rparr>)\<rparr>)"
proof -
  define a1 where "a1 = a\<lparr>m_pFreeList := pBlock - 24\<rparr>"
  define w1 where "w1 = w\<lparr>hdr_mem := (hdr_mem w)(pBlock - 24 :=
                 (hdr_mem w (pBlock - 24))\<lparr>pNext := m_pFreeList a\<rparr>)\<rparr>"
  have fr: "Free pBlock (a, w) = (Inr (), a1, w1)"
    unfolding a1_def w1_def by (rule Free_page [OF p mg ps])
  have ne: "m_pFreeList a1 \<noteq> 0"
    using not_24_aligned [OF al] by (simp add: a1_def)
  have al1: "(m_pFreeList a1 + 24) AND 4095 = 0"
    using al by (simp add: a1_def)
  have mg1: "nMagic (hdr_mem w1 (m_pFreeList a1)) = NVME_BLOCK_MAGIC"
    using mg by (simp add: a1_def w1_def)
  have ps1: "page_spec (hdr_mem w1 (m_pFreeList a1))"
    using ps by (simp add: a1_def w1_def page_spec_def)
  have st1: "m_nMemStart a1 \<noteq> 0" and en1: "m_nMemEnd a1 \<noteq> 0"
    using st en by (simp_all add: a1_def)
  have "Allocate sz al bd (a1, w1) =
           (Inr (m_pFreeList a1 + 24), a1\<lparr>m_pFreeList := pNext (hdr_mem w1 (m_pFreeList a1))\<rparr>,
            w1\<lparr>hdr_mem := (hdr_mem w1)(m_pFreeList a1 :=
                 (hdr_mem w1 (m_pFreeList a1))\<lparr>pNext := 0\<rparr>)\<rparr>)"
    by (rule Allocate_head [OF rq ft st1 en1 ne al1 mg1 ps1])
  then show ?thesis
    unfolding fr by (simp add: a1_def w1_def)
qed

lemma allocate_free_ready:
  assumes rq: "request_ok sz al bd" and ft: "fits_page_spec sz al bd"
    and st: "m_nMemStart a \<noteq> 0" and en: "m_nMemEnd a \<noteq> 0"
    and rd: "free_list_ready (a, w)"
  shows "allocate_free sz al bd (a, w) = (Inr (), a, w)"
proof -
  define hd where "hd = m_pFreeList a"
  define h where "h = hdr_mem w hd"
  have ne: "m_pFreeList a \<noteq> 0" and ne2: "hd + 24 \<noteq> 0" and al: "(m_pFreeList a + 24) AND 4095 = 0"
    and mg: "nMagic (hdr_mem w (m_pFreeList a)) = NVME_BLOCK_MAGIC"
    and ps: "page_spec (hdr_mem w (m_pFreeList a))"
    using rd by (simp_all add: free_list_ready_def Let_def alloc_consts hd_def)
  define a1 where "a1 = a\<lparr>m_pFreeList := pNext h\<rparr>"
  define w1 where "w1 = w\<lparr>hdr_mem := (hdr_mem w)(hd := h\<lparr>pNext := 0\<rparr>)\<rparr>"
  have alc: "Allocate sz al bd (a, w) = (Inr (hd + 24), a1, w1)"
    unfolding a1_def w1_def h_def hd_def by (rule Allocate_head [OF rq ft st en ne al mg ps])
  have mg1: "nMagic (hdr_mem w1 (hd + 24 - 24)) = NVME_BLOCK_MAGIC"
    using mg by (simp add: w1_def hd_def h_def)
  have ps1: "page_spec (hdr_mem w1 (hd + 24 - 24))"
    using ps by (simp add: w1_def hd_def h_def page_spec_def)
  have fr: "Free (hd + 24) (a1, w1) =
           (Inr (), a1\<lparr>m_pFreeList := hd + 24 - 24\<rparr>,
            w1\<lparr>hdr_mem := (hdr_mem w1)(hd + 24 - 24 :=
                 (hdr_mem w1 (hd + 24 - 24))\<lparr>pNext := m_pFreeList a1\<rparr>)\<rparr>)"
    by (rule Free_page [OF ne2 mg1 ps1])
  have back_a: "a1\<lparr>m_pFreeList := hd\<rparr> = a"
    by (simp add: a1_def hd_def)
  have back_w: "w1\<lparr>hdr_mem := (hdr_mem w1)(hd :=
                 (hdr_mem w1 hd)\<lparr>pNext := m_pFreeList a1\<rparr>)\<rparr> = w"
    by (simp add: a1_def w1_def h_def)
  show ?thesis
    using ne2 by (simp add: allocate_free_def alc fr back_a back_w)
qed

lemma allocate_free_cycles_ready:
  assumes rq: "request_ok sz al bd" and ft: "fits_page_spec sz al bd"
    and st: "m_nMemStart a \<noteq> 0" and en: "m_nMemEnd a \<noteq> 0"
    and rd: "free_list_ready (a, w)"
  shows "allocate_free_cycles K sz al bd (a, w) = (Inr (), a, w)"
  by (induction K) (simp_all add: allocate_free_ready [OF rq ft st en rd])


lemma GetFreeSpace_unat:
  "unat (GetFreeSpace a) = unat (m_nMemEnd a) - unat (m_nMemStart a)"
  by (simp add: GetFreeSpace_def unat_sub word_less_nat_alt word_le_nat_alt)

lemma allocate_free_first:
  assumes rq: "request_ok sz al bd" and ft: "fits_page_spec sz al bd"
    and st: "m_nMemStart a \<noteq> 0" and fl: "m_pFreeList a = 0"
    and room: "unat (m_nMemStart a) + 8215 \<le> unat (m_nMemEnd a)"
  obtains a' w' where "allocate_free sz al bd (a, w) = (Inr (), a', w')"
    and "free_list_ready (a', w')" and "m_nMemStart a' \<noteq> 0" and "m_nMemEnd a' = m_nMemEnd a"
    and "unat (m_nMemStart a) + 4120 \<le> unat (m_nMemStart a')"
    and "unat (m_nMemStart a') \<le> unat (m_nMemStart a) + 8215"
proof -
  have en: "m_nMemEnd a \<noteq> 0"
    using room by auto
  from room obtain p where p: "p \<noteq> 0" and al: "p AND 4095 = 0"
    and lo: "unat (m_nMemStart a) + 24 \<le> unat p" and hi: "unat p \<le> unat (m_nMemStart a) + 4119"
    and up: "unat (p + 4096) = unat p + 4096"
    and bump: "Allocate_bump NVME_BLOCK_SIZE NVME_BLOCK_ALIGN NVME_BLOCK_BOUNDARY (a, w) =
           (Inr p, a\<lparr>m_nMemStart := p + 4096\<rparr>,
            w\<lparr>hdr_mem := (hdr_mem w)(p - 24 :=
                 \<lparr>nMagic = NVME_BLOCK_MAGIC, nSize = 4096, nAlign = 4096,
                  nBoundary = 0x100000, pNext = 0\<rparr>)\<rparr>)"
    by (rule Allocate_bump_page)
  define a1 where "a1 = a\<lparr>m_nMemStart := p + 4096\<rparr>"
  define w1 where "w1 = w\<lparr>hdr_mem := (hdr_mem w)(p - 24 :=
                 \<lparr>nMagic = NVME_BLOCK_MAGIC, nSize = 4096, nAlign = 4096,
                  nBoundary = 0x100000, pNext = 0\<rparr>)\<rparr>"
  have alc: "Allocate sz al bd (a, w) = (Inr p, a1, w1)"
    unfolding a1_def w1_def Allocate_empty [OF rq ft st en fl] by (rule bump)
  have mg: "nMagic (hdr_mem w1 (p - 24)) = NVME_BLOCK_MAGIC"
    by (simp add: w1_def)
  have ps: "page_spec (hdr_mem w1 (p - 24))"
    by (simp add: w1_def page_spec_def)
  have fr: "Free p (a1, w1) =
           (Inr (), a1\<lparr>m_pFreeList := p - 24\<rparr>,
            w1\<lparr>hdr_mem := (hdr_mem w1)(p - 24 :=
                 (hdr_mem w1 (p - 24))\<lparr>pNext := m_pFreeList a1\<rparr>)\<rparr>)"
    by (rule Free_page [OF p mg ps])
  have same: "w1\<lparr>hdr_mem := (hdr_mem w1)(p - 24 :=
                 (hdr_mem w1 (p - 24))\<lparr>pNext := m_pFreeList a1\<rparr>)\<rparr> = w1"
    by (simp add: w1_def a1_def fl)
  have cyc: "allocate_free sz al bd (a, w) = (Inr (), a1\<lparr>m_pFreeList := p - 24\<rparr>, w1)"
    using p by (simp add: allocate_free_def alc fr same)
  have p24: "p - 24 \<noteq> 0"
    using not_24_aligned [OF al] by simp
  have rd: "free_list_ready (a1\<lparr>m_pFreeList := p - 24\<rparr>, w1)"
    using p p24 al mg ps by (simp add: free_list_ready_def Let_def alloc_consts)
  have st1: "m_nMemStart (a1\<lparr>m_pFreeList := p - 24\<rparr>) \<noteq> 0"
    using up by (auto simp add: a1_def)
  have en1: "m_nMemEnd (a1\<lparr>m_pFreeList := p - 24\<rparr>) = m_nMemEnd a"
    by (simp add: a1_def)
  have lo1: "unat (m_nMemStart a) + 4120 \<le> unat (m_nMemStart (a1\<lparr>m_pFreeList := p - 24\<rparr>))"
    using lo up by (simp add: a1_def)
  have hi1: "unat (m_nMemStart (a1\<lparr>m_pFreeList := p - 24\<rparr>)) \<le> unat (m_nMemStart a) + 8215"
    using hi up by (simp add: a1_def)
  show ?thesis
    by (rule that [OF cyc rd st1 en1 lo1 hi1])
qed

lemma allocate_free_cycles_first:
  assumes rq: "request_ok sz al bd" and ft: "fits_page_spec sz al bd"
    and st: "m_nMemStart a \<noteq> 0" and fl: "m_pFreeList a = 0"
    and room: "unat (m_nMemStart a) + 8215 \<le> unat (m_nMemEnd a)"
  shows "allocate_free_cycles (Suc K) sz al bd (a, w) = allocate_free sz al bd (a, w)"
    and "fst (allocate_free sz al bd (a, w)) = Inr ()"
    and "unat (GetFreeSpace (fst (snd (allocate_free sz al bd (a, w))))) + 4120
           \<le> unat (GetFreeSpace a)"
    and "unat (GetFreeSpace a)
           \<le> unat (GetFreeSpace (fst (snd (allocate_free sz al bd (a, w))))) + 8215"
proof -
  from rq ft st fl room obtain a' w' where cyc: "allocate_free sz al bd (a, w) = (Inr (), a', w')"
    and rd: "free_list_ready (a', w')" and st': "m_nMemStart a' \<noteq> 0"
    and en': "m_nMemEnd a' = m_nMemEnd a"
    and lo: "unat (m_nMemStart a) + 4120 \<le> unat (m_nMemStart a')"
    and hi: "unat (m_nMemStart a') \<le> unat (m_nMemStart a) + 8215"
    by (rule allocate_free_first)
  have en: "m_nMemEnd a' \<noteq> 0"
    using room en' by auto
  have "allocate_free_cycles (Suc K) sz al bd (a, w) = (Inr (), a', w')"
    by (induction K) (simp_all add: cyc allocate_free_ready [OF rq ft st' en rd])
  then show "allocate_free_cycles (Suc K) sz al bd (a, w) = allocate_free sz al bd (a, w)"
    by (simp add: cyc)
  show "fst (allocate_free sz al bd (a, w)) = Inr ()"
    by (simp add: cyc)
  show "unat (GetFreeSpace (fst (snd (allocate_free sz al bd (a, w))))) + 4120
           \<le> unat (GetFreeSpace a)"
    using lo hi room by (simp add: cyc GetFreeSpace_unat en')
  show "unat (GetFreeSpace a)
           \<le> unat (GetFreeSpace (fst (snd (allocate_free sz al bd (a, w))))) + 8215"
    using lo hi room by (simp add: cyc GetFreeSpace_unat en')
qed

subsection \<open>The arena of the examples\<close>

lemmas bump_defs = Allocate_def Allocate_bump_def Let_def alloc_consts

lemma arena0_Allocate:
  "Allocate 4096 4096 0x100000 arena0 =
     (Inr 0x10001000,
      \<lparr>m_nMemStart = 0x10002000, m_nMemEnd = 0x10200000, m_pFreeList = 0\<rparr>,
      world0\<lparr>hdr_mem := (hdr_mem world0)(0x10000FE8 := page_header)\<rparr>)"
  by (simp add: arena0_def bump_defs page_header_def NVME_BLOCK_MAGIC_def)



lemma arena_two_blocks_eq:
  "arena_two_blocks =
     (\<lparr>m_nMemStart = 0x10005000, m_nMemEnd = 0x10200000, m_pFreeList = 0\<rparr>,
      world0\<lparr>hdr_mem := (hdr_mem world0)(0x10000FE8 := page_header,
         0x10002FE8 := page_header\<lparr>nSize := 8192\<rparr>)\<rparr>)"
proof -
  have "Allocate_bump 8192 4096 0x100000
          (\<lparr>m_nMemStart = 0x10002000, m_nMemEnd = 0x10200000, m_pFreeList = 0\<rparr>,
           world0\<lparr>hdr_mem := (hdr_mem world0)(0x10000FE8 := page_header)\<rparr>)
        = (Inr 0x10003000, \<lparr>m_nMemStart = 0x10005000, m_nMemEnd = 0x10200000, m_pFreeList = 0\<rparr>,
           world0\<lparr>hdr_mem := (hdr_mem world0)(0x10000FE8 := page_header,
             0x10002FE8 := page_header\<lparr>nSize := 8192\<rparr>)\<rparr>)"
    by (simp add: Allocate_bump_def Let_def alloc_consts page_header_def NVME_BLOCK_MAGIC_def)
  then have "Allocate 8192 4096 0x100000
          (\<lparr>m_nMemStart = 0x10002000, m_nMemEnd = 0x10200000, m_pFreeList = 0\<rparr>,
           world0\<lparr>hdr_mem := (hdr_mem world0)(0x10000FE8 := page_header)\<rparr>)
        = (Inr 0x10003000, \<lparr>m_nMemStart = 0x10005000, m_nMemEnd = 0x10200000, m_pFreeList = 0\<rparr>,
           world0\<lparr>hdr_mem := (hdr_mem world0)(0x10000FE8 := page_header,
             0x10002FE8 := page_header\<lparr>nSize := 8192\<rparr>)\<rparr>)"
    by (simp add: Allocate_def alloc_consts)
  then show ?thesis
    by (simp add: arena_two_blocks_def arena0_Allocate)
qed

lemma arena0_cycle:
  "allocate_free 4096 4096 0x100000 arena0 =
     (Inr (), \<lparr>m_nMemStart = 0x10002000, m_nMemEnd = 0x10200000, m_pFreeList = 0x10000FE8\<rparr>,
      world0\<lparr>hdr_mem := (hdr_mem world0)(0x10000FE8 := page_header)\<rparr>)"
  by (simp add: allocate_free_def arena0_Allocate Free_def Let_def alloc_consts page_header_def
      NVME_BLOCK_MAGIC_def)

text \<open>
  Claim C8, with its bound made precise. A freed block whose header has the magic number and
  records the specification of a page block (size 4096, alignment 4096, boundary \<open>0x100000\<close>)
  is pushed on the free-list by \<^verbatim>\<open>Free\<close>, and when the block is page-aligned (as every
  block that \<^verbatim>\<open>Allocate\<close> hands out is) a following \<^verbatim>\<open>Allocate\<close> whose request fits that
  specification returns the same block and leaves the allocator as it was before the
  \<^verbatim>\<open>Free\<close>, cursor included. A freed block whose header records another specification is
  logged; allocator and memory stay as they are. So of \<open>K + 1\<close> allocate/free cycles that
  start with an empty free-list and room for one block, only the first one moves the cursor:
  all the cycles together take what the first allocation takes, and that is the page, its
  header of 24 bytes and the padding up to the page boundary, between 4120 and 8215 bytes.
\<close>

theorem allocator_recycle:
  "(pBlock \<noteq> 0 \<and> nMagic (hdr_mem w (pBlock - 24)) = NVME_BLOCK_MAGIC
      \<and> page_spec (hdr_mem w (pBlock - 24)) \<longrightarrow>
      Free pBlock (a, w) =
        (Inr (), a\<lparr>m_pFreeList := pBlock - 24\<rparr>,
         w\<lparr>hdr_mem := (hdr_mem w)(pBlock - 24 :=
              (hdr_mem w (pBlock - 24))\<lparr>pNext := m_pFreeList a\<rparr>)\<rparr>)
      \<and> (pBlock AND 4095 = 0 \<and> request_ok sz al bd \<and> fits_page_spec sz al bd
           \<and> m_nMemStart a \<noteq> 0 \<and> m_nMemEnd a \<noteq> 0 \<longrightarrow>
         Allocate sz al bd (snd (Free pBlock (a, w))) =
           (Inr pBlock, a,
            w\<lparr>hdr_mem := (hdr_mem w)(pBlock - 24 :=
                 (hdr_mem w (pBlock - 24))\<lparr>pNext := 0\<rparr>)\<rparr>)))
   \<and> (pOther \<noteq> 0 \<and> nMagic (hdr_mem w (pOther - 24)) = NVME_BLOCK_MAGIC
      \<and> \<not> page_spec (hdr_mem w (pOther - 24)) \<longrightarrow>
      Free pOther (a, w) =
        (Inr (), a, emit (LogWarnFree pOther (nSize (hdr_mem w (pOther - 24)))
                           (nAlign (hdr_mem w (pOther - 24)))) w))
   \<and> (request_ok sz al bd \<and> fits_page_spec sz al bd \<and> m_nMemStart a \<noteq> 0
      \<and> m_pFreeList a = 0 \<and> unat (m_nMemStart a) + 8215 \<le> unat (m_nMemEnd a) \<longrightarrow>
      allocate_free_cycles (Suc K) sz al bd (a, w) = allocate_free sz al bd (a, w)
      \<and> fst (allocate_free sz al bd (a, w)) = Inr ()
      \<and> unat (GetFreeSpace (fst (snd (allocate_free sz al bd (a, w))))) + 4120
            \<le> unat (GetFreeSpace a)
      \<and> unat (GetFreeSpace a)
            \<le> unat (GetFreeSpace (fst (snd (allocate_free sz al bd (a, w))))) + 8215)"
  apply (intro conjI impI)
       apply (elim conjE, rule Free_page; assumption)
      apply (elim conjE, rule Free_then_Allocate; assumption)
     apply (elim conjE, rule Free_other; assumption)
    apply (elim conjE, rule allocate_free_cycles_first(1); assumption)
   apply (elim conjE, rule allocate_free_cycles_first(2); assumption)
  apply (elim conjE, rule allocate_free_cycles_first(3); assumption)
  apply (elim conjE, rule allocate_free_cycles_first(4); assumption)
  done

theorem allocator_recycle_witness:
  "(0x10001000 :: u64) \<noteq> 0
   \<and> nMagic (hdr_mem (snd arena_two_blocks) (0x10001000 - 24)) = NVME_BLOCK_MAGIC
   \<and> page_spec (hdr_mem (snd arena_two_blocks) (0x10001000 - 24))
   \<and> (0x10001000 :: u64) AND 4095 = 0
   \<and> request_ok 512 4 4096 \<and> fits_page_spec 512 4 4096
   \<and> m_nMemStart (fst arena_two_blocks) \<noteq> 0
   \<and> m_nMemEnd (fst arena_two_blocks) \<noteq> 0
   \<and> m_pFreeList (fst arena_two_blocks) = 0
   \<and> unat (m_nMemStart (fst arena_two_blocks)) + 8215 \<le> unat (m_nMemEnd (fst arena_two_blocks))
   \<and> (0x10003000 :: u64) \<noteq> 0
   \<and> nMagic (hdr_mem (snd arena_two_blocks) (0x10003000 - 24)) = NVME_BLOCK_MAGIC
   \<and> \<not> page_spec (hdr_mem (snd arena_two_blocks) (0x10003000 - 24))
   \<and> Free 0x10001000 arena_two_blocks =
        (Inr (), (fst arena_two_blocks)\<lparr>m_pFreeList := 0x10001000 - 24\<rparr>,
         (snd arena_two_blocks)\<lparr>hdr_mem := (hdr_mem (snd arena_two_blocks))(0x10001000 - 24 :=
            (hdr_mem (snd arena_two_blocks) (0x10001000 - 24))
              \<lparr>pNext := m_pFreeList (fst arena_two_blocks)\<rparr>)\<rparr>)
   \<and> Allocate 512 4 4096 (snd (Free 0x10001000 arena_two_blocks)) =
        (Inr 0x10001000, fst arena_two_blocks,
         (snd arena_two_blocks)\<lparr>hdr_mem := (hdr_mem (snd arena_two_blocks))(0x10001000 - 24 :=
            (hdr_mem (snd arena_two_blocks) (0x10001000 - 24))\<lparr>pNext := 0\<rparr>)\<rparr>)
   \<and> Free 0x10003000 arena_two_blocks =
        (Inr (), fst arena_two_blocks,
         emit (LogWarnFree 0x10003000 (nSize (hdr_mem (snd arena_two_blocks) (0x10003000 - 24)))
                 (nAlign (hdr_mem (snd arena_two_blocks) (0x10003000 - 24))))
           (snd arena_two_blocks))
   \<and> nSize (hdr_mem (snd arena_two_blocks) (0x10003000 - 24)) = 8192
   \<and> allocate_free_cycles (Suc 2) 512 4 4096 arena_two_blocks
        = allocate_free 512 4 4096 arena_two_blocks
   \<and> fst (allocate_free 512 4 4096 arena_two_blocks) = Inr ()
   \<and> unat (GetFreeSpace (fst (snd (allocate_free 512 4 4096 arena_two_blocks)))) + 4120
        \<le> unat (GetFreeSpace (fst arena_two_blocks))
   \<and> unat (GetFreeSpace (fst arena_two_blocks))
        \<le> unat (GetFreeSpace (fst (snd (allocate_free 512 4 4096 arena_two_blocks)))) + 8215"
proof -
  have h: "(0x10001000 :: u64) \<noteq> 0"
    "nMagic (hdr_mem (snd arena_two_blocks) (0x10001000 - 24)) = NVME_BLOCK_MAGIC"
    "page_spec (hdr_mem (snd arena_two_blocks) (0x10001000 - 24))"
    "(0x10001000 :: u64) AND 4095 = 0"
    "request_ok 512 4 4096" "fits_page_spec 512 4 4096"
    "m_nMemStart (fst arena_two_blocks) \<noteq> 0"
    "m_nMemEnd (fst arena_two_blocks) \<noteq> 0"
    "m_pFreeList (fst arena_two_blocks) = 0"
    "unat (m_nMemStart (fst arena_two_blocks)) + 8215 \<le> unat (m_nMemEnd (fst arena_two_blocks))"
    "(0x10003000 :: u64) \<noteq> 0"
    "nMagic (hdr_mem (snd arena_two_blocks) (0x10003000 - 24)) = NVME_BLOCK_MAGIC"
    "\<not> page_spec (hdr_mem (snd arena_two_blocks) (0x10003000 - 24))"
    "nSize (hdr_mem (snd arena_two_blocks) (0x10003000 - 24)) = 8192"
    by (simp_all add: arena_two_blocks_eq page_header_def page_spec_def request_ok_def
        fits_page_spec_def)
  note th = allocator_recycle [where pBlock = "0x10001000" and pOther = "0x10003000"
      and a = "fst arena_two_blocks" and w = "snd arena_two_blocks"
      and sz = 512 and al = 4 and bd = 4096 and K = 2, unfolded prod.collapse]
  from th h show ?thesis
    by blast
qed

text \<open>One cycle from the new arena, whose cursor is page-aligned, takes 8192 bytes, two
  pages; the following cycles take nothing more.\<close>

theorem one_cycle_takes_two_pages:
  "fst (allocate_free_cycles 1 4096 4096 0x100000 arena0) = Inr ()
   \<and> GetFreeSpace (fst arena0) = 0x200000
   \<and> GetFreeSpace (fst (snd (allocate_free_cycles 1 4096 4096 0x100000 arena0))) = 0x1FE000
   \<and> NVME_PAGE_SIZE
        < GetFreeSpace (fst arena0)
          - GetFreeSpace (fst (snd (allocate_free_cycles 1 4096 4096 0x100000 arena0)))"
proof -
  have a: "fst arena0 = \<lparr>m_nMemStart = 0x10000000, m_nMemEnd = 0x10200000, m_pFreeList = 0\<rparr>"
    by (simp add: arena0_def)
  show ?thesis
    unfolding a by (simp add: arena0_cycle GetFreeSpace_def NVME_PAGE_SIZE_def)
qed

end
